theory Spec2Isabelle
  imports Complex_Main "HOL-Library.AList" "HOL-Library.Sublist"
begin

section \<open>Python values and the operations the scripts apply to them\<close>

text \<open>
  Both scripts handle dynamically typed values: parsed JSON payloads and the
  \<open>{data, metadata, error}\<close> dictionaries built from them. They are modelled by one
  datatype. A dictionary is an association list in insertion order in which the first
  binding of a key is the one that counts. Numbers are integers: the scripts never compute
  with a number of a payload, they only pass it on or fail on it.
  Strings are lists of characters whose code points are below 256.
\<close>

datatype json =
    JNull
  | JBool bool
  | JInt int
  | JStr string
  | JArr "json list"
  | JObj "(string \<times> json) list"

text \<open>
  The exceptions that the operations below raise. Each carries the operand it failed on;
  its message text \<open>str(e)\<close> is not modelled and is read from the environment.
\<close>

datatype py_exc =
    NotContainer json
  | NotSubscriptable json
  | NoAttribute json string
  | NoLen json
  | KeyError json
  | IndexError

text \<open>Truthiness, as \<open>if v:\<close> and \<open>not v\<close> test it.\<close>

fun truthy :: "json \<Rightarrow> bool" where
  "truthy JNull = False"
| "truthy (JBool b) = b"
| "truthy (JInt i) = (i \<noteq> 0)"
| "truthy (JStr s) = (s \<noteq> [])"
| "truthy (JArr xs) = (xs \<noteq> [])"
| "truthy (JObj kvs) = (kvs \<noteq> [])"

text \<open>\<open>needle in hay\<close> on strings: a contiguous occurrence.\<close>

fun substring :: "string \<Rightarrow> string \<Rightarrow> bool" where
  "substring needle [] = (needle = [])"
| "substring needle (c # cs) = (prefix needle (c # cs) \<or> substring needle cs)"

text \<open>\<open>k in v\<close> for a string \<open>k\<close>: key of a dictionary, element of a list, substring
  of a string; a \<open>TypeError\<close> on anything else.\<close>

fun py_in :: "string \<Rightarrow> json \<Rightarrow> py_exc + bool" where
  "py_in k (JObj kvs) = Inr (map_of kvs k \<noteq> None)"
| "py_in k (JArr xs) = Inr (List.member xs (JStr k))"
| "py_in k (JStr s) = Inr (substring k s)"
| "py_in k v = Inl (NotContainer v)"

text \<open>\<open>v[k]\<close> for a string \<open>k\<close>.\<close>

fun py_getitem :: "json \<Rightarrow> string \<Rightarrow> py_exc + json" where
  "py_getitem (JObj kvs) k =
     (case map_of kvs k of None \<Rightarrow> Inl (KeyError (JStr k)) | Some x \<Rightarrow> Inr x)"
| "py_getitem v k = Inl (NotSubscriptable v)"

text \<open>\<open>v[0]\<close>.\<close>

fun py_first :: "json \<Rightarrow> py_exc + json" where
  "py_first (JArr []) = Inl IndexError"
| "py_first (JArr (x # xs)) = Inr x"
| "py_first (JStr []) = Inl IndexError"
| "py_first (JStr (c # cs)) = Inr (JStr [c])"
| "py_first (JObj kvs) = Inl (KeyError (JInt 0))"
| "py_first v = Inl (NotSubscriptable v)"

text \<open>\<open>v.get(k, default)\<close>: only a dictionary has the method.\<close>

fun py_get :: "json \<Rightarrow> string \<Rightarrow> json \<Rightarrow> py_exc + json" where
  "py_get (JObj kvs) k dflt =
     Inr (case map_of kvs k of None \<Rightarrow> dflt | Some x \<Rightarrow> x)"
| "py_get v k dflt = Inl (NoAttribute v ''get'')"

text \<open>\<open>len(v)\<close>.\<close>

fun py_len :: "json \<Rightarrow> py_exc + nat" where
  "py_len (JStr s) = Inr (length s)"
| "py_len (JArr xs) = Inr (length xs)"
| "py_len (JObj kvs) = Inr (length (remdups (map fst kvs)))"
| "py_len v = Inl (NoLen v)"

subsection \<open>String methods\<close>

text \<open>\<open>str.lower()\<close> on code points below 256: the ASCII capitals and the Latin-1
  capitals U+00C0 to U+00DE (without the multiplication sign U+00D7) move up by 32.\<close>

definition lower_char :: "char \<Rightarrow> char" where
  "lower_char c =
     (let n = (of_char c :: nat)
      in if (65 \<le> n \<and> n \<le> 90) \<or> (192 \<le> n \<and> n \<le> 222 \<and> n \<noteq> 215)
         then char_of (n + 32) else c)"

definition lower :: "string \<Rightarrow> string" where
  "lower s = map lower_char s"

text \<open>\<open>str.title()\<close>. The scripts apply it only to text cut out of the registry paths,
  which is ASCII: a letter that follows a letter is lowered, any other letter is raised.\<close>

definition is_cased :: "char \<Rightarrow> bool" where
  "is_cased c =
     (let n = (of_char c :: nat) in (65 \<le> n \<and> n \<le> 90) \<or> (97 \<le> n \<and> n \<le> 122))"

definition upper_char :: "char \<Rightarrow> char" where
  "upper_char c =
     (let n = (of_char c :: nat) in if 97 \<le> n \<and> n \<le> 122 then char_of (n - 32) else c)"

fun title_from :: "bool \<Rightarrow> string \<Rightarrow> string" where
  "title_from prev [] = []"
| "title_from prev (c # cs) =
     (if prev then lower_char c else upper_char c) # title_from (is_cased c) cs"

definition title :: "string \<Rightarrow> string" where
  "title s = title_from False s"

text \<open>\<open>s.replace(old, new)\<close>: occurrences are replaced from the left and do not
  overlap; an empty \<open>old\<close> matches before every character and at the end.\<close>

function replace :: "string \<Rightarrow> string \<Rightarrow> string \<Rightarrow> string" where
  "replace old new [] = (if old = [] then new else [])"
| "replace old new (c # cs) =
     (if old = [] then new @ c # replace old new cs
      else if prefix old (c # cs) then new @ replace old new (drop (length old) (c # cs))
      else c # replace old new cs)"
  by pat_completeness auto
termination
  by (relation "measure (\<lambda>(old, new, s). length s)") auto

text \<open>\<open>s.split(sep)\<close> for a one-character separator.\<close>

fun split_on :: "char \<Rightarrow> string \<Rightarrow> string list" where
  "split_on sep [] = [[]]"
| "split_on sep (c # cs) =
     (if c = sep then [] # split_on sep cs
      else (case split_on sep cs of [] \<Rightarrow> [[c]] | w # ws \<Rightarrow> (c # w) # ws))"

text \<open>\<open>s.split()\<close>: the words between runs of whitespace. The whitespace characters
  below 256 are U+0009 to U+000D, U+001C to U+0020, U+0085 and U+00A0.\<close>

definition is_space :: "char \<Rightarrow> bool" where
  "is_space c =
     (let n = (of_char c :: nat)
      in (9 \<le> n \<and> n \<le> 13) \<or> (28 \<le> n \<and> n \<le> 32) \<or> n = 133 \<or> n = 160)"

fun words_from :: "string \<Rightarrow> string \<Rightarrow> string list" where
  "words_from cur [] = (if cur = [] then [] else [cur])"
| "words_from cur (c # cs) =
     (if is_space c then (if cur = [] then words_from [] cs else cur # words_from [] cs)
      else words_from (cur @ [c]) cs)"

definition split_ws :: "string \<Rightarrow> string list" where
  "split_ws s = words_from [] s"

text \<open>Sequencing of operations that may raise: the first exception ends the block.\<close>

definition try_bind :: "'e + 'a \<Rightarrow> ('a \<Rightarrow> 'e + 'b) \<Rightarrow> 'e + 'b" where
  "try_bind r f = (case r of Inl e \<Rightarrow> Inl e | Inr x \<Rightarrow> f x)"

text \<open>Truthiness of an optional string argument (\<open>None\<close> and \<open>""\<close> are false).\<close>

fun given :: "string option \<Rightarrow> bool" where
  "given None = False"
| "given (Some s) = (s \<noteq> [])"

section \<open>The FiscalData client\<close>

text \<open>
  The client is \<open>us_treasury_fiscaldata_api.py\<close>. Every accessor returns a dictionary
  with the three keys \<open>data\<close>, \<open>metadata\<close> and \<open>error\<close>; the record below has one
  field per key. \<open>error\<close> is \<open>None\<close> or a string.
\<close>

record envelope =
  data :: json
  metadata :: "(string \<times> json) list"
  error :: "string option"

text \<open>
  What \<open>requests.get\<close>, \<open>raise_for_status\<close> and \<open>response.json()\<close> can do, named by the
  \<open>except\<close> clause of the executor that catches it: an HTTP error status with its code
  and reason, a timeout, a connection error, a body that is not JSON, any other exception
  with its message, or a parsed body.
\<close>

datatype http_outcome =
    HTTPError int string
  | Timeout
  | ConnectionError
  | JSONDecodeError
  | OtherException string
  | Response json

type_synonym params = "(string \<times> json) list"

text \<open>A request: URL, query parameters and timeout.\<close>

type_synonym request = "string \<times> params \<times> int"

text \<open>
  What the client takes from outside: the remote service (its answer may depend on the
  requests made before), the clock reading \<open>datetime.now().isoformat()\<close>, the text
  \<open>str(v)\<close> of a value, the text \<open>str(e)\<close> of an exception, and the text of
  \<open>f"{(a/b)*100:.1f}%"\<close> for two counts.
\<close>

record env =
  http_get :: "request list \<Rightarrow> request \<Rightarrow> http_outcome"
  now_iso :: string
  str_of :: "json \<Rightarrow> string"
  exc_str :: "py_exc \<Rightarrow> string"
  format_rate :: "nat \<Rightarrow> nat \<Rightarrow> string"

definition BASE_URL :: string where
  "BASE_URL = ''https://api.fiscaldata.treasury.gov/services/api/fiscal_service''"

definition TIMEOUT :: int where
  "TIMEOUT = 30"

definition DEFAULT_PAGE_SIZE :: int where
  "DEFAULT_PAGE_SIZE = 100"

definition SOURCE :: json where
  "SOURCE = JStr ''us_treasury_fiscaldata''"

subsection \<open>The request executor\<close>

text \<open>The envelope that every failing branch of \<open>_make_request\<close> returns.\<close>

definition request_error :: "env \<Rightarrow> string \<Rightarrow> params \<Rightarrow> string \<Rightarrow> envelope" where
  "request_error env endpoint params msg =
     \<lparr>data = JArr [],
      metadata =
        [(''source'', SOURCE),
         (''last_updated'', JStr (now_iso env)),
         (''action'', JStr endpoint),
         (''endpoint'', JStr endpoint),
         (''params'', JObj params)],
      error = Some msg\<rparr>"

text \<open>
  The part of \<open>_make_request\<close> after \<open>data = response.json()\<close>, up to its \<open>return\<close>.
  The payload is read several times in the source (\<open>data.get('data', [])\<close> twice,
  \<open>data.get('meta', {})\<close> four times); the reads are pure, so each is made once here,
  in the order in which the first of them is evaluated.
\<close>

definition read_payload :: "env \<Rightarrow> string \<Rightarrow> params \<Rightarrow> json \<Rightarrow> py_exc + envelope" where
  "read_payload env endpoint params payload =
     try_bind (py_in ''error'' payload) (\<lambda>has_error.
       if has_error then
         try_bind (py_getitem payload ''error'') (\<lambda>e.
           Inr (request_error env endpoint params (''API Error: '' @ str_of env e)))
       else
         try_bind (py_get payload ''data'' (JArr [])) (\<lambda>records.
         try_bind (py_len records) (\<lambda>count.
         try_bind (py_get payload ''meta'' (JObj [])) (\<lambda>meta.
         try_bind (py_get meta ''total-count'' (JInt 0)) (\<lambda>total_count.
         try_bind (py_get meta ''page-number'' (JInt 1)) (\<lambda>page_number.
         try_bind (py_get meta ''page-size'' (JInt DEFAULT_PAGE_SIZE)) (\<lambda>page_size.
         try_bind (py_get meta ''total-pages'' (JInt 1)) (\<lambda>total_pages.
           Inr \<lparr>data = records,
                metadata =
                  [(''source'', SOURCE),
                   (''last_updated'', JStr (now_iso env)),
                   (''action'', JStr endpoint),
                   (''endpoint'', JStr endpoint),
                   (''params'', JObj params),
                   (''count'', JInt (int count)),
                   (''total_count'', total_count),
                   (''page_info'',
                      JObj [(''page_number'', page_number),
                            (''page_size'', page_size),
                            (''total_pages'', total_pages)])],
                error = None\<rparr>))))))))"

text \<open>
  \<open>_make_request\<close> (the leading underscore is not an Isabelle name). The parameters
  get the default page size when the caller gave none and always \<open>format = json\<close>;
  then one request is sent and appended to the log of requests.
\<close>

definition make_request ::
  "env \<Rightarrow> string \<Rightarrow> params option \<Rightarrow> request list \<Rightarrow> envelope \<times> request list" where
  "make_request env endpoint params0 sent =
     (let url = BASE_URL @ ''/'' @ endpoint;
          params1 = (case params0 of None \<Rightarrow> [] | Some p \<Rightarrow> p);
          params2 = (if map_of params1 ''page[size]'' = None
                     then AList.update ''page[size]'' (JInt DEFAULT_PAGE_SIZE) params1
                     else params1);
          params = AList.update ''format'' (JStr ''json'') params2;
          req = (url, params, TIMEOUT);
          result =
            (case http_get env sent req of
               HTTPError code reason \<Rightarrow>
                 request_error env endpoint params
                   (''HTTP Error: '' @ str_of env (JInt code) @ '' - '' @ reason)
             | Timeout \<Rightarrow>
                 request_error env endpoint params
                   ''Request timeout. API is taking too long to respond.''
             | ConnectionError \<Rightarrow>
                 request_error env endpoint params
                   ''Connection error. Unable to connect to API.''
             | JSONDecodeError \<Rightarrow>
                 request_error env endpoint params ''Invalid JSON response from API''
             | OtherException msg \<Rightarrow>
                 request_error env endpoint params (''Unexpected error: '' @ msg)
             | Response payload \<Rightarrow>
                 (case read_payload env endpoint params payload of
                    Inl e \<Rightarrow>
                      request_error env endpoint params
                        (''Unexpected error: '' @ exc_str env e)
                  | Inr r \<Rightarrow> r))
      in (result, sent @ [req]))"

subsection \<open>The endpoint registry and the catalogue\<close>

definition get_available_datasets :: "string list" where
  "get_available_datasets =
     [''v2/accounting/od/debt_to_penny'',
      ''v2/accounting/od/avg_interest_rates'',
      ''v2/accounting/od/schedules_fed_debt'',
      ''v2/accounting/od/stmt_debt'',
      ''v2/accounting/od/stmt_tsy_gov_sec_hldgs'',
      ''v2/accounting/od/mts'',
      ''v2/accounting/od/receipts'',
      ''v2/accounting/od/outlays'',
      ''v2/accounting/od/deficit'',
      ''v2/accounting/od/supplemental_monthly_statement'',
      ''v2/accounting/dts/gs_cfs'',
      ''v2/accounting/dts/ds_gf'',
      ''v2/accounting/dts/debt_to_the_penny'',
      ''v2/accounting/od/avg_maturity_secs'',
      ''v2/accounting/od/securities'',
      ''v2/debt/msd/msd_summary'',
      ''v2/debt/msd/msd_detail'',
      ''v2/debt/ie/ie_bpd'',
      ''v2/revenue/rc/collections'',
      ''v2/revenue/rc/quarterly_collections'',
      ''v2/revenue/rc/annual_collections'',
      ''v2/revenue/rc/receipts'',
      ''v2/revenue/rc/expenditures'',
      ''v2/expenditures/budget/budget_function'',
      ''v2/expenditures/budget/budget_subfunction'',
      ''v2/expenditures/budget/budget_account'',
      ''v2/expenditures/budget/budget_object_class'',
      ''v2/expenditures/agency/agency'']"

text \<open>\<open>dataset.split('/')[1] if len(dataset.split('/')) > 2 else "unknown"\<close>.\<close>

definition category_of :: "string \<Rightarrow> string" where
  "category_of dataset =
     (if length (split_on CHR ''/'' dataset) > 2 then split_on CHR ''/'' dataset ! 1
      else ''unknown'')"

text \<open>\<open>dataset.replace(prefix, '').replace('_', ' ').title()\<close>.\<close>

definition display_name :: "string \<Rightarrow> string \<Rightarrow> string" where
  "display_name pfx dataset = title (replace ''_'' '' '' (replace pfx [] dataset))"

text \<open>
  \<open>get_catalogue\<close>. Nothing in its \<open>try\<close> block can raise, so the \<open>except\<close> branch
  has no counterpart here; the same holds for the other accessors of the catalogue.
\<close>

definition get_catalogue :: "env \<Rightarrow> envelope" where
  "get_catalogue env =
     (let dataset_info =
            map (\<lambda>dataset.
                   JObj [(''endpoint'', JStr dataset),
                         (''category'', JStr (category_of dataset)),
                         (''name'', JStr (display_name ''v2/'' dataset)),
                         (''path'', JStr dataset)])
                get_available_datasets
      in \<lparr>data = JArr dataset_info,
           metadata =
             [(''source'', SOURCE),
              (''last_updated'', JStr (now_iso env)),
              (''action'', JStr ''get_catalogue''),
              (''count'', JInt (int (length dataset_info))),
              (''description'', JStr ''Available U.S. Treasury FiscalData datasets'')],
           error = None\<rparr>)"

definition get_datasets_by_category :: "env \<Rightarrow> string \<Rightarrow> envelope" where
  "get_datasets_by_category env category =
     (let filtered_datasets = filter (\<lambda>d. substring category d) get_available_datasets
      in if filtered_datasets = [] then
           \<lparr>data = JArr [],
            metadata =
              [(''source'', SOURCE),
               (''last_updated'', JStr (now_iso env)),
               (''action'', JStr ''get_datasets_by_category''),
               (''category'', JStr category)],
            error = Some (''No datasets found for category: '' @ category)\<rparr>
         else
           (let dataset_info =
                  map (\<lambda>dataset.
                         JObj [(''endpoint'', JStr dataset),
                               (''category'', JStr category),
                               (''name'',
                                  JStr (display_name (''v2/'' @ category @ ''/'') dataset)),
                               (''path'', JStr dataset)])
                      filtered_datasets
            in \<lparr>data = JArr dataset_info,
                 metadata =
                   [(''source'', SOURCE),
                    (''last_updated'', JStr (now_iso env)),
                    (''action'', JStr ''get_datasets_by_category''),
                    (''category'', JStr category),
                    (''count'', JInt (int (length dataset_info)))],
                 error = None\<rparr>))"

subsection \<open>Dataset access\<close>

text \<open>\<open>if v: params[key] = v\<close> for an optional string \<open>v\<close>.\<close>

definition set_if_given :: "string \<Rightarrow> string option \<Rightarrow> params \<Rightarrow> params" where
  "set_if_given key v ps =
     (case v of None \<Rightarrow> ps
      | Some s \<Rightarrow> if given (Some s) then AList.update key (JStr s) ps else ps)"

text \<open>
  \<open>get_dataset_data\<close>. Its arguments \<open>fields\<close>, \<open>filter\<close> and \<open>sort\<close> are
  called \<open>fields_arg\<close>, \<open>filter_arg\<close> and \<open>sort_arg\<close> here. The executor catches whatever is raised, so the \<open>except\<close>
  branch of this function and of the accessors built on it has no counterpart.
\<close>

definition get_dataset_data ::
  "env \<Rightarrow> string \<Rightarrow> string option \<Rightarrow> string option \<Rightarrow> string option \<Rightarrow> int \<Rightarrow> int
     \<Rightarrow> request list \<Rightarrow> envelope \<times> request list" where
  "get_dataset_data env endpoint fields_arg filter_arg sort_arg page_size page_number sent =
     (let params0 = [(''page[size]'', JInt page_size), (''page[number]'', JInt page_number)];
          params1 = set_if_given ''fields'' fields_arg params0;
          params2 = set_if_given ''filter'' filter_arg params1;
          params3 = set_if_given ''sort'' sort_arg params2
      in make_request env endpoint (Some params3) sent)"

definition get_dataset_summary :: "env \<Rightarrow> string \<Rightarrow> request list \<Rightarrow> envelope \<times> request list" where
  "get_dataset_summary env endpoint sent =
     get_dataset_data env endpoint None None None 5 1 sent"

subsection \<open>The named data series\<close>

text \<open>
  The four accessors below begin with the same lines, which compute \<open>filter_expr\<close>
  from the two optional dates; they are written once here. \<open>interpolate\<close> is the
  text that an f-string puts in for the variable.
\<close>

fun interpolate :: "string option \<Rightarrow> string" where
  "interpolate None = ''None''"
| "interpolate (Some s) = s"

definition filter_expr :: "string option \<Rightarrow> string option \<Rightarrow> string" where
  "filter_expr start_date end_date =
     (if given start_date \<and> given end_date then
        ''record_date:gte:'' @ interpolate start_date
          @ '',record_date:lte:'' @ interpolate end_date
      else if given start_date then ''record_date:gte:'' @ interpolate start_date
      else if given end_date then ''record_date:lte:'' @ interpolate end_date
      else [])"

definition get_debt_to_penny ::
  "env \<Rightarrow> string option \<Rightarrow> string option \<Rightarrow> request list \<Rightarrow> envelope \<times> request list" where
  "get_debt_to_penny env start_date end_date sent =
     (let field_list = ''record_date,tot_pub_debt_out_amt''
      in get_dataset_data env ''v2/accounting/od/debt_to_penny''
           (Some field_list) (Some (filter_expr start_date end_date)) (Some ''-record_date'')
           500 1 sent)"

definition get_treasury_yield_rates ::
  "env \<Rightarrow> string option \<Rightarrow> string option \<Rightarrow> request list \<Rightarrow> envelope \<times> request list" where
  "get_treasury_yield_rates env start_date end_date sent =
     get_dataset_data env ''v2/accounting/od/avg_interest_rates''
       None (Some (filter_expr start_date end_date)) (Some ''-record_date'') 500 1 sent"

definition get_monthly_treasury_statement ::
  "env \<Rightarrow> string option \<Rightarrow> string option \<Rightarrow> request list \<Rightarrow> envelope \<times> request list" where
  "get_monthly_treasury_statement env start_date end_date sent =
     get_dataset_data env ''v2/revenue/rc/collections''
       None (Some (filter_expr start_date end_date)) (Some ''-record_date'') 500 1 sent"

definition get_interest_expense ::
  "env \<Rightarrow> string option \<Rightarrow> string option \<Rightarrow> request list \<Rightarrow> envelope \<times> request list" where
  "get_interest_expense env start_date end_date sent =
     get_dataset_data env ''v2/debt/ie/ie_bpd''
       None (Some (filter_expr start_date end_date)) (Some ''-record_date'') 500 1 sent"

subsection \<open>Search\<close>

text \<open>\<open>sum(1 for word in query_lower.split() if word in dataset.lower())\<close>.\<close>

definition match_score :: "string \<Rightarrow> string \<Rightarrow> nat" where
  "match_score query_lower dataset =
     length (filter (\<lambda>word. substring word (lower dataset)) (split_ws query_lower))"

text \<open>The sort key \<open>x['match_score']\<close>, read from an entry built by \<open>search_datasets\<close>.\<close>

definition score_key :: "json \<Rightarrow> int" where
  "score_key x = (case py_getitem x ''match_score'' of Inr (JInt n) \<Rightarrow> n | _ \<Rightarrow> 0)"

text \<open>The dictionary \<open>info\<close> that \<open>search_datasets\<close> builds for a matching dataset.\<close>

definition search_info :: "string \<Rightarrow> string \<Rightarrow> json" where
  "search_info query_lower dataset =
     JObj [(''endpoint'', JStr dataset),
           (''category'', JStr (category_of dataset)),
           (''name'', JStr (display_name ''v2/'' dataset)),
           (''path'', JStr dataset),
           (''match_score'', JInt (int (match_score query_lower dataset)))]"

text \<open>
  \<open>search_datasets\<close>. \<open>list.sort(key, reverse=True)\<close> is stable: it orders by
  descending key and keeps entries of equal key in their order, which is what the stable
  \<open>sort_key\<close> does on the negated key.
\<close>

definition search_datasets :: "env \<Rightarrow> string \<Rightarrow> envelope" where
  "search_datasets env query =
     (let query_lower = lower query;
          matching_datasets =
            map (search_info query_lower)
                (filter (\<lambda>dataset. substring query_lower (lower dataset))
                   get_available_datasets);
          sorted_datasets = sort_key (\<lambda>x. - score_key x) matching_datasets
      in \<lparr>data = JArr sorted_datasets,
           metadata =
             [(''source'', SOURCE),
              (''last_updated'', JStr (now_iso env)),
              (''action'', JStr ''search_datasets''),
              (''query'', JStr query),
              (''count'', JInt (int (length sorted_datasets)))],
           error = None\<rparr>)"

subsection \<open>The endpoint test\<close>

text \<open>One entry of \<open>test_results\<close>; \<open>len(result["data"])\<close> may raise.\<close>

definition test_entry :: "string \<Rightarrow> envelope \<Rightarrow> py_exc + json" where
  "test_entry name result =
     try_bind (py_len (data result)) (\<lambda>n.
       Inr (JObj [(''endpoint'', JStr name),
                  (''status'', JStr (if error result = None then ''success'' else ''error'')),
                  (''error'', (case error result of None \<Rightarrow> JNull | Some e \<Rightarrow> JStr e)),
                  (''data_count'', JInt (int n))]))"

definition testing_failed :: "env \<Rightarrow> py_exc \<Rightarrow> envelope" where
  "testing_failed env e =
     \<lparr>data = JArr [],
      metadata =
        [(''source'', SOURCE),
         (''last_updated'', JStr (now_iso env)),
         (''action'', JStr ''test_endpoints'')],
      error = Some (''Error during endpoint testing: '' @ exc_str env e)\<rparr>"

definition testing_done :: "env \<Rightarrow> json list \<Rightarrow> envelope" where
  "testing_done env test_results =
     (let success_count =
            length (filter (\<lambda>t. py_getitem t ''status'' = Inr (JStr ''success'')) test_results);
          total_count = length test_results
      in \<lparr>data = JArr test_results,
           metadata =
             [(''source'', SOURCE),
              (''last_updated'', JStr (now_iso env)),
              (''action'', JStr ''test_endpoints''),
              (''total_tests'', JInt (int total_count)),
              (''successful_tests'', JInt (int success_count)),
              (''failed_tests'', JInt (int total_count - int success_count)),
              (''success_rate'', JStr (format_rate env success_count total_count))],
           error = None\<rparr>)"

text \<open>
  \<open>test_endpoints\<close>: five accessor calls, two of which reach the network. An
  exception ends the run with the requests made so far. \<open>total_count\<close> is 5, so the
  division cannot fail.
\<close>

definition test_endpoints :: "env \<Rightarrow> request list \<Rightarrow> envelope \<times> request list" where
  "test_endpoints env sent =
     (case test_entry ''get_catalogue'' (get_catalogue env) of
        Inl e \<Rightarrow> (testing_failed env e, sent)
      | Inr t1 \<Rightarrow>
     (case get_debt_to_penny env None None sent of (r2, sent2) \<Rightarrow>
     (case test_entry ''get_debt_to_penny'' r2 of
        Inl e \<Rightarrow> (testing_failed env e, sent2)
      | Inr t2 \<Rightarrow>
     (case get_treasury_yield_rates env None None sent2 of (r3, sent3) \<Rightarrow>
     (case test_entry ''get_treasury_yield_rates'' r3 of
        Inl e \<Rightarrow> (testing_failed env e, sent3)
      | Inr t3 \<Rightarrow>
     (case test_entry ''search_datasets'' (search_datasets env ''debt'') of
        Inl e \<Rightarrow> (testing_failed env e, sent3)
      | Inr t4 \<Rightarrow>
     (case test_entry ''get_datasets_by_category''
             (get_datasets_by_category env ''accounting'') of
        Inl e \<Rightarrow> (testing_failed env e, sent3)
      | Inr t5 \<Rightarrow> (testing_done env [t1, t2, t3, t4, t5], sent3))))))))"

subsection \<open>The commands\<close>

text \<open>
  The subcommands that \<open>main\<close> of the client parses, with their arguments, and the
  accessor that it calls for each (parsing and printing are left out).
\<close>

datatype command =
    Catalogue
  | Category string
  | Debt "string option" "string option"
  | Yields "string option" "string option"
  | Monthly "string option" "string option"
  | Interest "string option" "string option"
  | Dataset string "string option" "string option" "string option" int int
  | Summary string
  | Search string
  | Test

fun execute :: "env \<Rightarrow> command \<Rightarrow> request list \<Rightarrow> envelope \<times> request list" where
  "execute env Catalogue sent = (get_catalogue env, sent)"
| "execute env (Category category) sent = (get_datasets_by_category env category, sent)"
| "execute env (Debt start_date end_date) sent = get_debt_to_penny env start_date end_date sent"
| "execute env (Yields start_date end_date) sent =
     get_treasury_yield_rates env start_date end_date sent"
| "execute env (Monthly start_date end_date) sent =
     get_monthly_treasury_statement env start_date end_date sent"
| "execute env (Interest start_date end_date) sent =
     get_interest_expense env start_date end_date sent"
| "execute env (Dataset endpoint fields_arg filter_arg sort_arg page_size page_number) sent =
     get_dataset_data env endpoint fields_arg filter_arg sort_arg page_size page_number sent"
| "execute env (Summary endpoint) sent = get_dataset_summary env endpoint sent"
| "execute env (Search query) sent = (search_datasets env query, sent)"
| "execute env Test sent = test_endpoints env sent"

subsection \<open>Reading envelopes and payloads\<close>

text \<open>The items of a data field that is a list, and the \<open>path\<close> of a catalogue entry.\<close>

fun records :: "json \<Rightarrow> json list" where
  "records (JArr xs) = xs"
| "records v = []"

definition path_of :: "json \<Rightarrow> string" where
  "path_of x = (case py_getitem x ''path'' of Inr (JStr p) \<Rightarrow> p | _ \<Rightarrow> [])"

fun is_list :: "json \<Rightarrow> bool" where
  "is_list (JArr xs) = True"
| "is_list v = False"

text \<open>A payload in which the member \<open>data\<close>, when there is one, is an array: what the
  service documents.\<close>

fun data_member_is_list :: "json \<Rightarrow> bool" where
  "data_member_is_list (JObj kvs) =
     (case map_of kvs ''data'' of None \<Rightarrow> True | Some v \<Rightarrow> is_list v)"
| "data_member_is_list v = True"

text \<open>
  What holds of every envelope that the client returns: the data is not null and has a
  length, the metadata names the source and the action, and an envelope with an error
  has empty data.
\<close>

definition well_formed :: "envelope \<Rightarrow> bool" where
  "well_formed r =
     (data r \<noteq> JNull
      \<and> (\<exists>n. py_len (data r) = Inr n)
      \<and> map_of (metadata r) ''source'' = Some SOURCE
      \<and> map_of (metadata r) ''action'' \<noteq> None
      \<and> (error r \<noteq> None \<longrightarrow> data r = JArr []))"

text \<open>
  The data of the envelope is what the payload that answered this request has as its
  \<open>data\<close> member (the empty list when it has none), whatever kind of value that is.
\<close>

definition passes_data_on :: "env \<Rightarrow> request list \<Rightarrow> request \<Rightarrow> envelope \<Rightarrow> bool" where
  "passes_data_on env sent req r =
     (\<exists>payload. http_get env sent req = Response payload
        \<and> py_get payload ''data'' (JArr []) = Inr (data r))"

text \<open>The answer to this request, if it is a payload, has no \<open>data\<close> member or an
  array as its \<open>data\<close> member.\<close>

definition answered_with_list :: "env \<Rightarrow> request list \<Rightarrow> request \<Rightarrow> bool" where
  "answered_with_list env sent req =
     (case http_get env sent req of
        Response payload \<Rightarrow> data_member_is_list payload
      | _ \<Rightarrow> True)"

text \<open>The metadata has a \<open>count\<close>, and it is the length of the data.\<close>

definition count_matches :: "envelope \<Rightarrow> bool" where
  "count_matches r =
     (\<exists>n. py_len (data r) = Inr n \<and> map_of (metadata r) ''count'' = Some (JInt (int n)))"

text \<open>The parameters that the executor sends for the parameters it was given.\<close>

definition sent_params :: "params option \<Rightarrow> params" where
  "sent_params ps0 =
     AList.update ''format'' (JStr ''json'')
       (if map_of (case ps0 of None \<Rightarrow> [] | Some p \<Rightarrow> p) ''page[size]'' = None
        then AList.update ''page[size]'' (JInt DEFAULT_PAGE_SIZE)
               (case ps0 of None \<Rightarrow> [] | Some p \<Rightarrow> p)
        else (case ps0 of None \<Rightarrow> [] | Some p \<Rightarrow> p))"

text \<open>What one of the four accessors for a named series sends: exactly one request, to
  the given path, with page size 500, sorted by descending record date, with the date
  filter when there is one, and with the given field list or none.\<close>

definition sends_one_request ::
  "request list \<Rightarrow> request list \<Rightarrow> string \<Rightarrow> string option \<Rightarrow> string \<Rightarrow> bool" where
  "sends_one_request sent sent' path field_list filter_text =
     (\<exists>ps. sent' = sent @ [(BASE_URL @ ''/'' @ path, ps, TIMEOUT)]
        \<and> map_of ps ''page[size]'' = Some (JInt 500)
        \<and> map_of ps ''sort'' = Some (JStr ''-record_date'')
        \<and> map_of ps ''fields'' = map_option JStr field_list
        \<and> map_of ps ''filter'' = (if filter_text = [] then None else Some (JStr filter_text)))"

subsection \<open>Services to run the client against\<close>

text \<open>A service that cannot be reached, one that answers every request with one debt
  record, and one whose \<open>data\<close> member is an object instead of an array.\<close>

definition unreachable :: env where
  "unreachable =
     \<lparr>http_get = (\<lambda>sent req. ConnectionError),
      now_iso = ''2024-06-01T12:00:00'',
      str_of = (\<lambda>v. ''?''),
      exc_str = (\<lambda>e. ''?''),
      format_rate = (\<lambda>a b. ''?'')\<rparr>"

definition one_record :: env where
  "one_record =
     \<lparr>http_get =
        (\<lambda>sent req.
           Response
             (JObj [(''data'',
                     JArr [JObj [(''record_date'', JStr ''2024-05-31''),
                                 (''tot_pub_debt_out_amt'', JStr ''34600000000000.00'')]]),
                    (''meta'', JObj [(''total-count'', JInt 1), (''total-pages'', JInt 1)])])),
      now_iso = ''2024-06-01T12:00:00'',
      str_of = (\<lambda>v. ''?''),
      exc_str = (\<lambda>e. ''?''),
      format_rate = (\<lambda>a b. ''?'')\<rparr>"

definition object_data :: env where
  "object_data =
     \<lparr>http_get = (\<lambda>sent req. Response (JObj [(''data'', JObj [(''a'', JInt 1)])])),
      now_iso = ''2024-06-01T12:00:00'',
      str_of = (\<lambda>v. ''?''),
      exc_str = (\<lambda>e. ''?''),
      format_rate = (\<lambda>a b. ''?'')\<rparr>"

text \<open>A service whose \<open>data\<close> member is a string.\<close>

definition text_data :: env where
  "text_data =
     \<lparr>http_get = (\<lambda>sent req. Response (JObj [(''data'', JStr ''abc'')])),
      now_iso = ''2024-06-01T12:00:00'',
      str_of = (\<lambda>v. ''?''),
      exc_str = (\<lambda>e. ''?''),
      format_rate = (\<lambda>a b. ''?'')\<rparr>"

section \<open>The CKAN test harness\<close>

text \<open>
  The harness is \<open>test_universal_ckan_api.py\<close>. It drives the functions of the module
  \<open>universal_ckan_api\<close>, which it imports and which is taken here as a parameter: a
  function that, given the calls made so far and the next call, either raises or returns a
  value. Arguments that the harness reads out of an earlier answer (a dataset name, an
  organization name, a resource id) are values of any kind. Printing is not modelled,
  except where evaluating the printed text can raise.
\<close>

datatype api_call =
    ListOrganizations string int
  | GetOrganizationDetails string json
  | ListDatasets string int
  | SearchDatasets string string int
  | GetDatasetDetails string json
  | GetDatasetResources string json
  | GetResourceDetails string json
  | GetSupportedCountries
  | TestPortalConnection string

datatype response = Raises | Returns json

type_synonym ckan_api = "api_call list \<Rightarrow> api_call \<Rightarrow> response"

definition call :: "ckan_api \<Rightarrow> api_call \<Rightarrow> api_call list \<Rightarrow> response \<times> api_call list" where
  "call orc c hist = (orc hist c, hist @ [c])"

text \<open>The country a call is addressed to.\<close>

fun country_of :: "api_call \<Rightarrow> string option" where
  "country_of (ListOrganizations c n) = Some c"
| "country_of (GetOrganizationDetails c x) = Some c"
| "country_of (ListDatasets c n) = Some c"
| "country_of (SearchDatasets c q n) = Some c"
| "country_of (GetDatasetDetails c x) = Some c"
| "country_of (GetDatasetResources c x) = Some c"
| "country_of (GetResourceDetails c x) = Some c"
| "country_of GetSupportedCountries = None"
| "country_of (TestPortalConnection c) = Some c"

definition DEFAULT_TEST_COUNTRY :: string where
  "DEFAULT_TEST_COUNTRY = ''us''"

definition ALL_COUNTRIES :: "string list" where
  "ALL_COUNTRIES = [''us'', ''uk'', ''au'', ''it'', ''br'', ''lv'', ''si'', ''uy'']"

subsection \<open>Validation of one answer\<close>

text \<open>The loop \<open>for field in required_metadata: if field not in metadata: return False\<close>.\<close>

fun has_fields :: "string list \<Rightarrow> json \<Rightarrow> py_exc + bool" where
  "has_fields [] m = Inr True"
| "has_fields (f # fs) m =
     try_bind (py_in f m) (\<lambda>present. if present then has_fields fs m else Inr False)"

fun is_dict :: "json \<Rightarrow> bool" where
  "is_dict (JObj kvs) = True"
| "is_dict v = False"

text \<open>The checks of \<open>test_function\<close> on the value that the tested function returned.\<close>

definition check_result :: "json \<Rightarrow> py_exc + bool" where
  "check_result result =
     (if \<not> is_dict result then Inr False
      else
        try_bind (py_in ''error'' result) (\<lambda>has_error.
        try_bind (py_in ''data'' result) (\<lambda>has_data.
        try_bind (py_in ''metadata'' result) (\<lambda>has_metadata.
          if \<not> has_error \<or> \<not> has_data \<or> \<not> has_metadata then Inr False
          else
            try_bind (py_getitem result ''error'') (\<lambda>err.
              if truthy err then Inr False
              else
                try_bind (py_getitem result ''metadata'') (\<lambda>meta.
                try_bind (has_fields [''source'', ''country'', ''last_updated'', ''count''] meta)
                  (\<lambda>all_present.
                     if \<not> all_present then Inr False
                     else try_bind (py_get meta ''count'' (JInt 0)) (\<lambda>data_count.
                            Inr True))))))))"

text \<open>\<open>test_function\<close>: one call; any exception makes the test fail.\<close>

definition test_function :: "ckan_api \<Rightarrow> api_call \<Rightarrow> api_call list \<Rightarrow> bool \<times> api_call list" where
  "test_function orc c hist =
     (case call orc c hist of
        (Raises, hist') \<Rightarrow> (False, hist')
      | (Returns result, hist') \<Rightarrow>
          (case check_result result of Inl e \<Rightarrow> (False, hist') | Inr ok \<Rightarrow> (ok, hist')))"

subsection \<open>The test groups\<close>

text \<open>The items that \<open>for x in v\<close> visits.\<close>

fun py_iter :: "json \<Rightarrow> py_exc + json list" where
  "py_iter (JArr xs) = Inr xs"
| "py_iter (JStr s) = Inr (map (\<lambda>c. JStr [c]) s)"
| "py_iter (JObj kvs) = Inr (map JStr (remdups (map fst kvs)))"
| "py_iter v = Inl (NotContainer v)"

fun print_countries :: "json list \<Rightarrow> py_exc + unit" where
  "print_countries [] = Inr ()"
| "print_countries (country # rest) =
     try_bind (py_getitem country ''code'') (\<lambda>code.
     try_bind (py_getitem country ''name'') (\<lambda>name. print_countries rest))"

text \<open>
  \<open>test_supported_countries\<close>. The lines after the test are not inside a \<open>try\<close>:
  an exception there leaves the function, and the result is \<open>None\<close>.
\<close>

definition test_supported_countries :: "ckan_api \<Rightarrow> api_call list \<Rightarrow> bool option \<times> api_call list" where
  "test_supported_countries orc hist =
     (case test_function orc GetSupportedCountries hist of (success, hist1) \<Rightarrow>
        if success then
          (case call orc GetSupportedCountries hist1 of
             (Raises, hist2) \<Rightarrow> (None, hist2)
           | (Returns result, hist2) \<Rightarrow>
               (case try_bind (py_getitem result ''data'') (\<lambda>countries.
                     try_bind (py_len countries) (\<lambda>n.
                     try_bind (py_iter countries) print_countries)) of
                  Inl e \<Rightarrow> (None, hist2)
                | Inr u \<Rightarrow> (Some success, hist2)))
        else (Some success, hist1))"

fun connection_loop ::
  "ckan_api \<Rightarrow> string list \<Rightarrow> (string \<times> bool) list \<Rightarrow> api_call list
     \<Rightarrow> (string \<times> bool) list \<times> api_call list" where
  "connection_loop orc [] results hist = (results, hist)"
| "connection_loop orc (country # rest) results hist =
     (case test_function orc (TestPortalConnection country) hist of (success, hist') \<Rightarrow>
        connection_loop orc rest (AList.update country success results) hist')"

definition test_portal_connections ::
  "ckan_api \<Rightarrow> string list \<Rightarrow> bool \<Rightarrow> api_call list \<Rightarrow> (string \<times> bool) list \<times> api_call list" where
  "test_portal_connections orc countries fast_mode hist =
     (let test_countries = (if fast_mode then [''us'', ''uk'', ''au''] else countries)
      in connection_loop orc test_countries [] hist)"

text \<open>
  The lines \<open>if not r['error'] and r['data']: x = r['data'][0][key]\<close>, which three of the
  groups share: the field of the first item, nothing when the answer has an error or no
  data, or an exception.
\<close>

definition first_item_field :: "string \<Rightarrow> json \<Rightarrow> py_exc + json option" where
  "first_item_field key r =
     try_bind (py_getitem r ''error'') (\<lambda>err.
       if truthy err then Inr None
       else
         try_bind (py_getitem r ''data'') (\<lambda>items.
           if \<not> truthy items then Inr None
           else
             try_bind (py_first items) (\<lambda>item.
             try_bind (py_getitem item key) (\<lambda>x. Inr (Some x)))))"

text \<open>
  The \<open>try\<close> block that follows a passed listing test: ask again with limit 1, take a
  field of the first item and test the details function \<open>details\<close> on it. Whatever is
  raised is dropped and leaves the details test failed.
\<close>

definition details_test ::
  "ckan_api \<Rightarrow> api_call \<Rightarrow> string \<Rightarrow> (json \<Rightarrow> api_call) \<Rightarrow> api_call list \<Rightarrow> bool \<times> api_call list" where
  "details_test orc listing key details hist =
     (case call orc listing hist of
        (Raises, hist') \<Rightarrow> (False, hist')
      | (Returns r, hist') \<Rightarrow>
          (case first_item_field key r of
             Inl e \<Rightarrow> (False, hist')
           | Inr None \<Rightarrow> (False, hist')
           | Inr (Some x) \<Rightarrow> test_function orc (details x) hist'))"

fun organization_loop ::
  "ckan_api \<Rightarrow> string list \<Rightarrow> (string \<times> bool) list \<Rightarrow> api_call list
     \<Rightarrow> (string \<times> bool) list \<times> api_call list" where
  "organization_loop orc [] results hist = (results, hist)"
| "organization_loop orc (country # rest) results hist =
     (case test_function orc (ListOrganizations country 5) hist of (success1, hist1) \<Rightarrow>
      case (if success1
            then details_test orc (ListOrganizations country 1) ''name''
                   (GetOrganizationDetails country) hist1
            else (False, hist1)) of (org_details_success, hist2) \<Rightarrow>
        organization_loop orc rest
          (AList.update country (success1 \<and> org_details_success) results) hist2)"

definition test_organization_functions ::
  "ckan_api \<Rightarrow> string list \<Rightarrow> bool \<Rightarrow> api_call list \<Rightarrow> (string \<times> bool) list \<times> api_call list" where
  "test_organization_functions orc countries fast_mode hist =
     (let test_countries = (if fast_mode then take 2 countries else countries)
      in organization_loop orc test_countries [] hist)"

fun dataset_loop ::
  "ckan_api \<Rightarrow> string list \<Rightarrow> (string \<times> bool) list \<Rightarrow> api_call list
     \<Rightarrow> (string \<times> bool) list \<times> api_call list" where
  "dataset_loop orc [] results hist = (results, hist)"
| "dataset_loop orc (country # rest) results hist =
     (case test_function orc (ListDatasets country 10) hist of (success1, hist1) \<Rightarrow>
      case test_function orc (SearchDatasets country ''climate'' 5) hist1 of
        (success2, hist2) \<Rightarrow>
      case (if success2
            then details_test orc (SearchDatasets country ''climate'' 1) ''name''
                   (GetDatasetDetails country) hist2
            else (False, hist2)) of (details_success, hist3) \<Rightarrow>
        dataset_loop orc rest
          (AList.update country (success1 \<and> success2 \<and> details_success) results) hist3)"

definition test_dataset_functions ::
  "ckan_api \<Rightarrow> string list \<Rightarrow> bool \<Rightarrow> api_call list \<Rightarrow> (string \<times> bool) list \<times> api_call list" where
  "test_dataset_functions orc countries fast_mode hist =
     (let test_countries = (if fast_mode then take 2 countries else countries)
      in dataset_loop orc test_countries [] hist)"

text \<open>The first \<open>try\<close> block of the resource group: the name of a dataset to test with,
  \<open>None\<close> when the search raises or finds nothing.\<close>

definition find_dataset_name :: "ckan_api \<Rightarrow> string \<Rightarrow> api_call list \<Rightarrow> json \<times> api_call list" where
  "find_dataset_name orc country hist =
     (case call orc (SearchDatasets country ''data'' 1) hist of
        (Raises, hist') \<Rightarrow> (JNull, hist')
      | (Returns r, hist') \<Rightarrow>
          (case first_item_field ''name'' r of
             Inl e \<Rightarrow> (JNull, hist')
           | Inr None \<Rightarrow> (JNull, hist')
           | Inr (Some x) \<Rightarrow> (x, hist')))"

fun resource_loop ::
  "ckan_api \<Rightarrow> string list \<Rightarrow> (string \<times> bool) list \<Rightarrow> api_call list
     \<Rightarrow> (string \<times> bool) list \<times> api_call list" where
  "resource_loop orc [] results hist = (results, hist)"
| "resource_loop orc (country # rest) results hist =
     (case find_dataset_name orc country hist of (dataset_name, hist1) \<Rightarrow>
        if \<not> truthy dataset_name then
          resource_loop orc rest (AList.update country False results) hist1
        else
          (case test_function orc (GetDatasetResources country dataset_name) hist1 of
             (success1, hist2) \<Rightarrow>
           case (if success1
                 then details_test orc (GetDatasetResources country dataset_name) ''id''
                        (GetResourceDetails country) hist2
                 else (False, hist2)) of (details_success, hist3) \<Rightarrow>
             resource_loop orc rest
               (AList.update country (success1 \<and> details_success) results) hist3))"

definition test_resource_functions ::
  "ckan_api \<Rightarrow> string list \<Rightarrow> bool \<Rightarrow> api_call list \<Rightarrow> (string \<times> bool) list \<times> api_call list" where
  "test_resource_functions orc countries fast_mode hist =
     (let test_countries = (if fast_mode then take 1 countries else countries)
      in resource_loop orc test_countries [] hist)"

subsection \<open>The integrated workflow\<close>

text \<open>
  \<open>test_integrated_workflow\<close> is one \<open>try\<close> block of four steps. What each step
  reads from the answer it got is written as a function of its own: an exception
  (\<open>Inl\<close>), a \<open>return False\<close> (\<open>None\<close>), or the value the next step needs.
\<close>

text \<open>Step 1 and the first line of step 2: the name of the first dataset found.\<close>

definition search_step :: "json \<Rightarrow> py_exc + json option" where
  "search_step search_result =
     try_bind (py_getitem search_result ''error'') (\<lambda>err.
       if truthy err then Inr None
       else
         try_bind (py_getitem search_result ''data'') (\<lambda>found.
           if \<not> truthy found then Inr None
           else
             try_bind (py_len found) (\<lambda>n.
             try_bind (py_first found) (\<lambda>first_dataset.
             try_bind (py_getitem first_dataset ''name'') (\<lambda>dataset_name.
               Inr (Some dataset_name))))))"

text \<open>Step 2: the details of the dataset; its title is printed.\<close>

definition details_step :: "json \<Rightarrow> py_exc + json option" where
  "details_step details_result =
     try_bind (py_getitem details_result ''error'') (\<lambda>err.
       if truthy err then Inr None
       else
         try_bind (py_getitem details_result ''data'') (\<lambda>dataset_details.
         try_bind (py_getitem dataset_details ''title'') (\<lambda>t.
           Inr (Some dataset_details))))"

text \<open>Step 3 and the first line of step 4: the number of resources is printed, then
  \<open>dataset_details.get('organization', {}).get('name')\<close> is read.\<close>

definition resources_step :: "json \<Rightarrow> json \<Rightarrow> py_exc + json option" where
  "resources_step dataset_details resources_result =
     try_bind (py_getitem resources_result ''error'') (\<lambda>err.
       if truthy err then Inr None
       else
         try_bind (py_getitem resources_result ''data'') (\<lambda>res.
         try_bind (py_len res) (\<lambda>n.
         try_bind (py_get dataset_details ''organization'' (JObj [])) (\<lambda>org.
         try_bind (py_get org ''name'' JNull) (\<lambda>org_name.
           Inr (Some org_name))))))"

text \<open>Step 4: an error in the answer is a warning; otherwise the title is printed.\<close>

definition organization_step :: "json \<Rightarrow> py_exc + unit" where
  "organization_step org_result =
     try_bind (py_getitem org_result ''error'') (\<lambda>err.
       if truthy err then Inr ()
       else
         try_bind (py_getitem org_result ''data'') (\<lambda>org.
         try_bind (py_getitem org ''title'') (\<lambda>t. Inr ())))"

text \<open>The workflow; its argument \<open>countries\<close> is not used, the country is \<open>us\<close>.\<close>

definition test_integrated_workflow ::
  "ckan_api \<Rightarrow> string list \<Rightarrow> api_call list \<Rightarrow> bool \<times> api_call list" where
  "test_integrated_workflow orc countries hist =
     (let country = ''us'' in
      case call orc (SearchDatasets country ''climate'' 3) hist of
        (Raises, hist1) \<Rightarrow> (False, hist1)
      | (Returns search_result, hist1) \<Rightarrow>
     (case search_step search_result of
        Inl e \<Rightarrow> (False, hist1)
      | Inr None \<Rightarrow> (False, hist1)
      | Inr (Some dataset_name) \<Rightarrow>
     (case call orc (GetDatasetDetails country dataset_name) hist1 of
        (Raises, hist2) \<Rightarrow> (False, hist2)
      | (Returns details_result, hist2) \<Rightarrow>
     (case details_step details_result of
        Inl e \<Rightarrow> (False, hist2)
      | Inr None \<Rightarrow> (False, hist2)
      | Inr (Some dataset_details) \<Rightarrow>
     (case call orc (GetDatasetResources country dataset_name) hist2 of
        (Raises, hist3) \<Rightarrow> (False, hist3)
      | (Returns resources_result, hist3) \<Rightarrow>
     (case resources_step dataset_details resources_result of
        Inl e \<Rightarrow> (False, hist3)
      | Inr None \<Rightarrow> (False, hist3)
      | Inr (Some org_name) \<Rightarrow>
          if truthy org_name then
            (case call orc (GetOrganizationDetails country org_name) hist3 of
               (Raises, hist4) \<Rightarrow> (False, hist4)
             | (Returns org_result, hist4) \<Rightarrow>
                 (case organization_step org_result of
                    Inl e \<Rightarrow> (False, hist4)
                  | Inr u \<Rightarrow> (True, hist4)))
          else (True, hist3)))))))"

subsection \<open>The whole run\<close>

text \<open>
  \<open>sum(results.values()) / len(results) * 100\<close>. The source computes it in binary
  floating point; the model computes the exact quotient. It is \<open>None\<close> where the source
  divides by zero.
\<close>

definition success_rate :: "(string \<times> bool) list \<Rightarrow> rat option" where
  "success_rate results =
     (if results = [] then None
      else Some (of_nat (length (filter snd results)) / of_nat (length results) * 100))"

text \<open>The value that \<open>f"{rate:.1f}"\<close> shows for an exact rate: the nearest multiple of
  one tenth, the even one of two that are equally near.\<close>

definition one_decimal :: "rat \<Rightarrow> rat" where
  "one_decimal r =
     (let t = r * 10; f = \<lfloor>t\<rfloor>
      in (if t - of_int f < 1 / 2 then of_int f
          else if t - of_int f > 1 / 2 then of_int (f + 1)
          else if even f then of_int f else of_int (f + 1)) / 10)"

datatype assessment = AllPassed | PartiallyWorking | MostlyFailed

text \<open>The branches under "Overall Assessment".\<close>

definition assess :: "rat \<Rightarrow> bool \<Rightarrow> assessment" where
  "assess connection_success_rate workflow =
     (if connection_success_rate = 100 \<and> workflow then AllPassed
      else if connection_success_rate \<ge> 50 then PartiallyWorking
      else MostlyFailed)"

text \<open>
  What a run that reaches its end has computed: the entries of \<open>test_results\<close>, the rates
  and the rates as printed, the assessment and the returned value. The three fields
  \<open>organization_calls\<close>, \<open>dataset_calls\<close> and \<open>resource_calls\<close> are not in the source:
  they record the calls that each of these groups made.
\<close>

record test_report =
  supported_countries :: bool
  connections :: "(string \<times> bool) list"
  organizations :: "(string \<times> bool) list"
  datasets :: "(string \<times> bool) list"
  resources :: "(string \<times> bool) list"
  integrated_workflow :: bool
  organization_calls :: "api_call list"
  dataset_calls :: "api_call list"
  resource_calls :: "api_call list"
  connection_success_rate :: rat
  group_success_rates :: "(rat \<times> rat \<times> rat) option"
  printed_rates :: "rat list"
  assessed :: assessment
  returned :: bool

text \<open>The four dependent groups, run when \<open>working_countries\<close> is not empty.\<close>

definition run_groups ::
  "ckan_api \<Rightarrow> string list \<Rightarrow> bool \<Rightarrow> api_call list
     \<Rightarrow> ((string \<times> bool) list \<times> (string \<times> bool) list \<times> (string \<times> bool) list \<times> bool)
        \<times> (api_call list \<times> api_call list \<times> api_call list) \<times> api_call list" where
  "run_groups orc working_countries fast_mode hist2 =
     (if working_countries \<noteq> [] then
        (case test_organization_functions orc working_countries fast_mode hist2 of
           (orgs, hist3) \<Rightarrow>
         case test_dataset_functions orc working_countries fast_mode hist3 of
           (dsets, hist4) \<Rightarrow>
         case test_resource_functions orc working_countries fast_mode hist4 of
           (ress, hist5) \<Rightarrow>
         case test_integrated_workflow orc working_countries hist5 of
           (workflow, hist6) \<Rightarrow>
             ((orgs, dsets, ress, workflow),
              (drop (length hist2) hist3, drop (length hist3) hist4, drop (length hist4) hist5),
              hist6))
      else (([], [], [], False), ([], [], []), hist2))"

text \<open>
  \<open>run_all_tests\<close>. The result is \<open>None\<close> when an exception leaves the function: in
  \<open>test_supported_countries\<close>, or in a division by the size of an empty result.
\<close>

definition run_all_tests ::
  "ckan_api \<Rightarrow> string list option \<Rightarrow> bool \<Rightarrow> api_call list
     \<Rightarrow> test_report option \<times> api_call list" where
  "run_all_tests orc countries0 fast_mode hist =
     (let countries = (case countries0 of None \<Rightarrow> ALL_COUNTRIES | Some cs \<Rightarrow> cs) in
      case test_supported_countries orc hist of
        (None, hist1) \<Rightarrow> (None, hist1)
      | (Some supported, hist1) \<Rightarrow>
     (case test_portal_connections orc countries fast_mode hist1 of
        (connection_results, hist2) \<Rightarrow>
      let working_countries = map fst (filter snd connection_results) in
      case run_groups orc working_countries fast_mode hist2 of
        ((orgs, dsets, ress, workflow), (org_calls, dset_calls, res_calls), hist6) \<Rightarrow>
     (case success_rate connection_results of
        None \<Rightarrow> (None, hist6)
      | Some rate \<Rightarrow>
     (case (if working_countries \<noteq> [] then
              (case (success_rate orgs, success_rate dsets, success_rate ress) of
                 (Some r1, Some r2, Some r3) \<Rightarrow> Some (Some (r1, r2, r3))
               | _ \<Rightarrow> None)
            else Some None) of
        None \<Rightarrow> (None, hist6)
      | Some group_rates \<Rightarrow>
          (Some \<lparr>supported_countries = supported,
                 connections = connection_results,
                 organizations = orgs,
                 datasets = dsets,
                 resources = ress,
                 integrated_workflow = workflow,
                 organization_calls = org_calls,
                 dataset_calls = dset_calls,
                 resource_calls = res_calls,
                 connection_success_rate = rate,
                 group_success_rates = group_rates,
                 printed_rates =
                   one_decimal rate #
                   (case group_rates of None \<Rightarrow> []
                    | Some (r1, r2, r3) \<Rightarrow> [one_decimal r1, one_decimal r2, one_decimal r3]),
                 assessed = assess rate workflow,
                 returned = (assess rate workflow = AllPassed)\<rparr>,
           hist6)))))"

subsection \<open>The command line\<close>

text \<open>\<open>argv.index(x)\<close>, used only where \<open>x in argv\<close> holds.\<close>

fun index_of :: "string \<Rightarrow> string list \<Rightarrow> nat" where
  "index_of x [] = 0"
| "index_of x (y # ys) = (if x = y then 0 else Suc (index_of x ys))"

text \<open>
  \<open>main\<close>: the exit status of the process. An uncaught exception in the run ends the
  process with status 1, as \<open>sys.exit(1)\<close> does.
\<close>

definition main :: "ckan_api \<Rightarrow> string list \<Rightarrow> api_call list \<Rightarrow> int \<times> api_call list" where
  "main orc argv hist =
     (let fast_mode = List.member argv ''--fast'';
          countries =
            (if List.member argv ''--country'' then
               (let country_index = index_of ''--country'' argv + 1
                in if country_index < length argv
                   then Some [lower (argv ! country_index)] else None)
             else None)
      in if (case countries of Some cs \<Rightarrow> \<not> List.member ALL_COUNTRIES (cs ! 0) | None \<Rightarrow> False)
         then (1, hist)
         else
           (case run_all_tests orc countries fast_mode hist of
              (None, hist') \<Rightarrow> (1, hist')
            | (Some report, hist') \<Rightarrow> (if returned report then 0 else 1, hist')))"

subsection \<open>Reading the answers of the portal functions\<close>



text \<open>The four calls of the workflow, in their order, for the dataset \<open>dataset_name\<close>
  and the organization \<open>org_name\<close>.\<close>

definition workflow_calls :: "json \<Rightarrow> json \<Rightarrow> api_call list" where
  "workflow_calls dataset_name org_name =
     [SearchDatasets ''us'' ''climate'' 3,
      GetDatasetDetails ''us'' dataset_name,
      GetDatasetResources ''us'' dataset_name,
      GetOrganizationDetails ''us'' org_name]"




text \<open>
  \<open>portal down\<close> answers every request with a complete envelope, except that the
  connection test of a country in \<open>down\<close> reports an error.
\<close>

definition answer :: "json \<Rightarrow> json \<Rightarrow> response" where
  "answer d err =
     Returns (JObj [(''data'', d),
                    (''metadata'',
                       JObj [(''source'', JStr ''CKAN''), (''country'', JStr ''us''),
                             (''last_updated'', JStr ''2024-06-01T12:00:00''),
                             (''count'', JInt 1)]),
                    (''error'', err)])"

definition portal :: "string list \<Rightarrow> ckan_api" where
  "portal down hist c =
     (case c of
        TestPortalConnection country \<Rightarrow>
          if List.member down country then answer (JArr []) (JStr ''Connection failed'')
          else answer (JArr [JObj [(''status'', JStr ''ok'')]]) JNull
      | GetSupportedCountries \<Rightarrow>
          answer (JArr [JObj [(''code'', JStr ''us''), (''name'', JStr ''United States'')]]) JNull
      | GetDatasetDetails country x \<Rightarrow>
          answer (JObj [(''title'', JStr ''Sea level''),
                        (''organization'', JObj [(''name'', JStr ''noaa-gov'')])]) JNull
      | GetOrganizationDetails country x \<Rightarrow>
          answer (JObj [(''title'', JStr ''NOAA'')]) JNull
      | GetResourceDetails country x \<Rightarrow>
          answer (JObj [(''id'', JStr ''r1'')]) JNull
      | _ \<Rightarrow>
          answer (JArr [JObj [(''name'', JStr ''sea-level''), (''id'', JStr ''r1'')]]) JNull)"

section \<open>Properties of the FiscalData client\<close>

subsection \<open>Strings and search results\<close>

lemma substring_sublist: "substring n h \<longleftrightarrow> sublist n h"
  by (induction h) (auto simp: sublist_Cons_right)

lemma words_from_sublist: "w \<in> set (words_from cur s) \<Longrightarrow> sublist w (cur @ s)"
proof (induction s arbitrary: cur)
  case Nil
  then show ?case by (auto split: if_splits)
next
  case (Cons c cs)
  show ?case
  proof (cases "is_space c")
    case True
    show ?thesis
    proof (cases "w = cur")
      case True
      then show ?thesis by simp
    next
      case False
      with Cons.prems \<open>is_space c\<close> have "w \<in> set (words_from [] cs)"
        by (auto split: if_splits)
      then have "sublist w cs" using Cons.IH [of "[]"] by simp
      then have "sublist w (c # cs)" by (simp add: sublist_Cons_right)
      then show ?thesis
        by (rule sublist_order.order_trans) (rule sublist_append_leftI)
    qed
  next
    case False
    with Cons.prems have "w \<in> set (words_from (cur @ [c]) cs)" by simp
    then show ?thesis using Cons.IH [of "cur @ [c]"] by simp
  qed
qed

lemma split_ws_substring: "w \<in> set (split_ws s) \<Longrightarrow> substring w s"
  using words_from_sublist [of w "[]" s] by (simp add: split_ws_def substring_sublist)

lemma substring_trans: "substring a b \<Longrightarrow> substring b c \<Longrightarrow> substring a c"
  unfolding substring_sublist by (rule sublist_order.order_trans)

lemma path_of_search_info [simp]: "path_of (search_info q d) = d"
  by (simp add: path_of_def search_info_def)

lemma score_key_search_info [simp]: "score_key (search_info q d) = int (match_score q d)"
  by (simp add: score_key_def search_info_def)

lemma search_records:
  "records (data (search_datasets env query)) =
     sort_key (\<lambda>x. - score_key x)
       (map (search_info (lower query))
          (filter (\<lambda>d. substring (lower query) (lower d)) get_available_datasets))"
  by (simp add: search_datasets_def Let_def)

lemma search_paths:
  "set (map path_of (records (data (search_datasets env query)))) =
     {d \<in> set get_available_datasets. substring (lower query) (lower d)}"
  by (auto simp: search_records image_iff)

lemma debt_penny_empty: "data (search_datasets env ''debt penny'') = JArr []"
  by (simp add: search_datasets_def Let_def get_available_datasets_def lower_def lower_char_def)

lemma debt_matches:
  "filter (\<lambda>d. substring ''debt'' (lower d)) get_available_datasets =
     [''v2/accounting/od/debt_to_penny'', ''v2/accounting/od/schedules_fed_debt'',
      ''v2/accounting/od/stmt_debt'', ''v2/accounting/dts/debt_to_the_penny'',
      ''v2/debt/msd/msd_summary'', ''v2/debt/msd/msd_detail'', ''v2/debt/ie/ie_bpd'']"
  by (simp add: get_available_datasets_def lower_def lower_char_def)

lemma penny_matches:
  "filter (\<lambda>d. substring ''penny'' (lower d)) get_available_datasets =
     [''v2/accounting/od/debt_to_penny'', ''v2/accounting/dts/debt_to_the_penny'']"
  by (simp add: get_available_datasets_def lower_def lower_char_def)


lemma search_sorted:
  "sorted_wrt (\<lambda>a b. a \<ge> b) (map score_key (records (data (search_datasets env query))))"
proof -
  have "sorted (map (\<lambda>x. - score_key x) (records (data (search_datasets env query))))"
    unfolding search_records by (rule sorted_sort_key)
  then show ?thesis
    by (simp add: sorted_wrt_map)
qed

lemma search_score:
  assumes "x \<in> set (records (data (search_datasets env query)))"
  shows "score_key x =
     int (length (filter (\<lambda>w. substring w (lower (path_of x))) (split_ws (lower query))))"
  using assms by (auto simp: search_records match_score_def)

lemma search_ties:
  "map path_of (filter (\<lambda>x. score_key x = k) (records (data (search_datasets env query)))) =
     filter (\<lambda>d. substring (lower query) (lower d) \<and> int (match_score (lower query) d) = k)
       get_available_datasets"
proof -
  have "filter (\<lambda>x. score_key x = k) (records (data (search_datasets env query)))
      = filter (\<lambda>x. - score_key x = - k) (records (data (search_datasets env query)))"
    by simp
  also have "\<dots> = filter (\<lambda>x. - score_key x = - k) (map (search_info (lower query))
          (filter (\<lambda>d. substring (lower query) (lower d)) get_available_datasets))"
    unfolding search_records by (rule sort_key_stable)
  finally show ?thesis
    by (simp add: filter_map o_def)
qed

lemma search_tokens:
  assumes "x \<in> set (records (data (search_datasets env query)))"
    and "w \<in> set (split_ws (lower query))"
  shows "substring w (lower (path_of x))"
proof -
  from assms(1) have "substring (lower query) (lower (path_of x))"
    by (auto simp: search_records)
  with split_ws_substring [OF assms(2)] show ?thesis
    by (rule substring_trans)
qed


lemma search_is_list:
  "data (search_datasets env query) = JArr (records (data (search_datasets env query)))"
  by (simp add: search_datasets_def Let_def)

lemma search_Debt:
  "records (data (search_datasets env ''Debt'')) =
     map (search_info ''debt'')
       [''v2/accounting/od/debt_to_penny'', ''v2/accounting/od/schedules_fed_debt'',
        ''v2/accounting/od/stmt_debt'', ''v2/accounting/dts/debt_to_the_penny'',
        ''v2/debt/msd/msd_summary'', ''v2/debt/msd/msd_detail'', ''v2/debt/ie/ie_bpd'']"
proof -
  have l: "lower ''Debt'' = ''debt''" by code_simp
  have s: "split_ws ''debt'' = [''debt'']" by (simp add: split_ws_def is_space_def)
  show ?thesis
    unfolding search_records l debt_matches
    by (simp add: match_score_def s lower_def lower_char_def)
qed

lemma match_score_of_match:
  assumes "substring ql (lower d)"
  shows "match_score ql d = length (split_ws ql)"
proof -
  have "filter (\<lambda>w. substring w (lower d)) (split_ws ql) = split_ws ql"
  proof (rule filter_True, rule ballI)
    fix w assume "w \<in> set (split_ws ql)"
    then have "substring w ql" by (rule split_ws_substring)
    then show "substring w (lower d)" using assms by (rule substring_trans)
  qed
  then show ?thesis by (simp add: match_score_def)
qed

lemma matching_scores:
  "map (\<lambda>x. - score_key x)
     (map (search_info ql) (filter (\<lambda>d. substring ql (lower d)) ds))
   = replicate (length (filter (\<lambda>d. substring ql (lower d)) ds))
       (- int (length (split_ws ql)))"
  by (induction ds) (simp_all add: match_score_of_match)

lemma sort_leaves_matches:
  "sort_key (\<lambda>x. - score_key x)
     (map (search_info ql) (filter (\<lambda>d. substring ql (lower d)) ds))
   = map (search_info ql) (filter (\<lambda>d. substring ql (lower d)) ds)"
  by (rule sort_key_id_if_sorted) (simp only: matching_scores sorted_replicate)

lemma search_result:
  "data (search_datasets env query) =
     JArr (map (search_info (lower query))
             (filter (\<lambda>d. substring (lower query) (lower d)) get_available_datasets))"
  by (simp add: search_datasets_def Let_def sort_leaves_matches)

lemma search_scores:
  "map score_key (records (data (search_datasets env query))) =
     replicate (length (records (data (search_datasets env query))))
       (int (length (split_ws (lower query))))"
proof -
  have "map score_key (map (search_info ql) (filter (\<lambda>d. substring ql (lower d)) ds))
        = replicate (length (filter (\<lambda>d. substring ql (lower d)) ds))
            (int (length (split_ws ql)))" for ql ds
    by (induction ds) (simp_all add: match_score_of_match)
  then show ?thesis by (simp add: search_result)
qed

lemma split_ws_examples:
  "split_ws ''debt penny'' = [''debt'', ''penny'']"
  "split_ws (''  debt'' @ [CHR 0x09, CHR 0x0A] @ ''penny '') = [''debt'', ''penny'']"
  "split_ws ''debt'' = [''debt'']"
  "split_ws [] = []"
  by (simp_all add: split_ws_def is_space_def)

lemma match_score_examples:
  "match_score ''debt penny'' ''v2/accounting/od/debt_to_penny'' = 2"
  "match_score ''debt penny'' ''v2/accounting/od/stmt_debt'' = 1"
  "match_score ''debt penny'' ''v2/accounting/od/mts'' = 0"
  by (simp_all add: match_score_def split_ws_examples lower_def lower_char_def)

lemma sort_example:
  "sort_key (\<lambda>x. - score_key x)
     [search_info ''debt penny'' ''v2/accounting/od/stmt_debt'',
      search_info ''debt penny'' ''v2/accounting/od/mts'',
      search_info ''debt penny'' ''v2/accounting/od/debt_to_penny'',
      search_info ''debt penny'' ''v2/accounting/od/schedules_fed_debt''] =
     [search_info ''debt penny'' ''v2/accounting/od/debt_to_penny'',
      search_info ''debt penny'' ''v2/accounting/od/stmt_debt'',
      search_info ''debt penny'' ''v2/accounting/od/schedules_fed_debt'',
      search_info ''debt penny'' ''v2/accounting/od/mts'']"
proof -
  have "match_score ''debt penny'' ''v2/accounting/od/schedules_fed_debt'' = 1"
    by (simp add: match_score_def split_ws_examples lower_def lower_char_def)
  then show ?thesis by (simp add: match_score_examples)
qed

lemma substring_Nil: "substring [] s"
  by (cases s) simp_all

lemma search_empty_query:
  "records (data (search_datasets env [])) = map (search_info []) get_available_datasets"
  by (simp add: search_result lower_def substring_Nil)

subsection \<open>Search\<close>

text \<open>
  C3. For every query, the result of \<open>search_datasets\<close> is in descending order of
  \<open>match_score\<close>, and entries of equal score keep the order of the registry. The score
  that the function computes for a path is the number of whitespace-separated words of
  the lowered query that occur in the lowered path: for the query \<open>debt penny\<close> it is
  2, 1 or 0 according to the path. A path enters the result only when it contains the
  whole query, so every entry of a result has the same score, the number of words of the
  query, and the result is the list of matching registry paths in registry order, which
  the sort leaves as it is; the sort itself puts a list of mixed scores in descending
  order and keeps ties in place. For the query \<open>debt penny\<close> no path is returned, so
  there is no returned path without one of its words.
\<close>

theorem search_sorted_by_match_score:
  "data (search_datasets env query) =
     JArr (map (search_info (lower query))
             (filter (\<lambda>d. substring (lower query) (lower d)) get_available_datasets))
   \<and> sorted_wrt (\<lambda>a b. a \<ge> b) (map score_key (records (data (search_datasets env query))))
   \<and> map score_key (records (data (search_datasets env query))) =
       replicate (length (records (data (search_datasets env query))))
         (int (length (split_ws (lower query))))
   \<and> score_key (search_info query_lower dataset) =
       int (length (filter (\<lambda>w. substring w (lower dataset)) (split_ws query_lower)))
   \<and> (\<forall>k. map path_of
              (filter (\<lambda>x. score_key x = k) (records (data (search_datasets env query)))) =
            filter (\<lambda>d. substring (lower query) (lower d)
                        \<and> int (match_score (lower query) d) = k) get_available_datasets)
   \<and> split_ws ''debt penny'' = [''debt'', ''penny'']
   \<and> split_ws (''  debt'' @ [CHR 0x09, CHR 0x0A] @ ''penny '') = [''debt'', ''penny'']
   \<and> split_ws [] = []
   \<and> match_score ''debt penny'' ''v2/accounting/od/debt_to_penny'' = 2
   \<and> match_score ''debt penny'' ''v2/accounting/od/stmt_debt'' = 1
   \<and> match_score ''debt penny'' ''v2/accounting/od/mts'' = 0
   \<and> sort_key (\<lambda>x. - score_key x)
        [search_info ''debt penny'' ''v2/accounting/od/stmt_debt'',
         search_info ''debt penny'' ''v2/accounting/od/mts'',
         search_info ''debt penny'' ''v2/accounting/od/debt_to_penny'',
         search_info ''debt penny'' ''v2/accounting/od/schedules_fed_debt''] =
        [search_info ''debt penny'' ''v2/accounting/od/debt_to_penny'',
         search_info ''debt penny'' ''v2/accounting/od/stmt_debt'',
         search_info ''debt penny'' ''v2/accounting/od/schedules_fed_debt'',
         search_info ''debt penny'' ''v2/accounting/od/mts'']
   \<and> records (data (search_datasets env ''debt penny'')) = []
   \<and> records (data (search_datasets env ''Debt'')) =
       map (search_info ''debt'')
         [''v2/accounting/od/debt_to_penny'', ''v2/accounting/od/schedules_fed_debt'',
          ''v2/accounting/od/stmt_debt'', ''v2/accounting/dts/debt_to_the_penny'',
          ''v2/debt/msd/msd_summary'', ''v2/debt/msd/msd_detail'', ''v2/debt/ie/ie_bpd'']
   \<and> records (data (search_datasets env [])) = map (search_info []) get_available_datasets"
proof (intro conjI allI)
  show "records (data (search_datasets env ''debt penny'')) = []"
    by (simp add: debt_penny_empty)
  show "score_key (search_info query_lower dataset) =
       int (length (filter (\<lambda>w. substring w (lower dataset)) (split_ws query_lower)))"
    by (simp add: match_score_def)
qed (rule search_result search_sorted search_scores search_ties split_ws_examples
       match_score_examples sort_example search_Debt search_empty_query)+

text \<open>
  C10. A dataset is in the result of \<open>search_datasets\<close> only if the whole lowered query
  occurs in its lowered path, and every registry path in which it occurs is returned. The
  query \<open>debt penny\<close> therefore returns no data, although \<open>debt\<close> occurs in seven
  registry paths and \<open>penny\<close> in two.
\<close>

theorem search_needs_whole_query:
  "(\<forall>x \<in> set (records (data (search_datasets env query))).
      path_of x \<in> set get_available_datasets
      \<and> substring (lower query) (lower (path_of x)))
   \<and> set (map path_of (records (data (search_datasets env query)))) =
       {d \<in> set get_available_datasets. substring (lower query) (lower d)}
   \<and> data (search_datasets env ''debt penny'') = JArr []
   \<and> error (search_datasets env ''debt penny'') = None
   \<and> filter (\<lambda>d. substring ''debt'' (lower d)) get_available_datasets =
       [''v2/accounting/od/debt_to_penny'', ''v2/accounting/od/schedules_fed_debt'',
        ''v2/accounting/od/stmt_debt'', ''v2/accounting/dts/debt_to_the_penny'',
        ''v2/debt/msd/msd_summary'', ''v2/debt/msd/msd_detail'', ''v2/debt/ie/ie_bpd'']
   \<and> filter (\<lambda>d. substring ''penny'' (lower d)) get_available_datasets =
       [''v2/accounting/od/debt_to_penny'', ''v2/accounting/dts/debt_to_the_penny'']"
proof (intro conjI ballI)
  fix x assume "x \<in> set (records (data (search_datasets env query)))"
  then show "path_of x \<in> set get_available_datasets"
    and "substring (lower query) (lower (path_of x))"
    by (auto simp: search_records)
next
  show "set (map path_of (records (data (search_datasets env query)))) =
       {d \<in> set get_available_datasets. substring (lower query) (lower d)}"
    by (rule search_paths)
  show "data (search_datasets env ''debt penny'') = JArr []"
    by (rule debt_penny_empty)
  show "error (search_datasets env ''debt penny'') = None"
    by (simp add: search_datasets_def Let_def)
  show "filter (\<lambda>d. substring ''debt'' (lower d)) get_available_datasets =
       [''v2/accounting/od/debt_to_penny'', ''v2/accounting/od/schedules_fed_debt'',
        ''v2/accounting/od/stmt_debt'', ''v2/accounting/dts/debt_to_the_penny'',
        ''v2/debt/msd/msd_summary'', ''v2/debt/msd/msd_detail'', ''v2/debt/ie/ie_bpd'']"
    by (rule debt_matches)
  show "filter (\<lambda>d. substring ''penny'' (lower d)) get_available_datasets =
       [''v2/accounting/od/debt_to_penny'', ''v2/accounting/dts/debt_to_the_penny'']"
    by (rule penny_matches)
qed

theorem search_needs_whole_query_witness:
  "search_info ''debt'' ''v2/accounting/od/stmt_debt''
     \<in> set (records (data (search_datasets unreachable ''Debt'')))
   \<and> ''v2/accounting/od/stmt_debt'' \<in> set get_available_datasets
   \<and> substring (lower ''Debt'') (lower ''v2/accounting/od/stmt_debt'')"
proof -
  have m: "search_info ''debt'' ''v2/accounting/od/stmt_debt''
             \<in> set (records (data (search_datasets unreachable ''Debt'')))"
    unfolding search_Debt by simp
  from search_needs_whole_query [of unreachable "''Debt''"] m
  have "path_of (search_info ''debt'' ''v2/accounting/od/stmt_debt'')
          \<in> set get_available_datasets
        \<and> substring (lower ''Debt'')
            (lower (path_of (search_info ''debt'' ''v2/accounting/od/stmt_debt'')))"
    by blast
  with m show ?thesis by simp
qed

subsection \<open>Date filters and the category filter\<close>

lemma filter_expr_examples:
  "filter_expr (Some ''2024-01-01'') None = ''record_date:gte:2024-01-01''"
  "filter_expr None (Some ''2024-06-01'') = ''record_date:lte:2024-06-01''"
  "filter_expr (Some ''2024-01-01'') (Some ''2024-06-01'')
        = ''record_date:gte:2024-01-01,record_date:lte:2024-06-01''"
  "filter_expr None None = []"
  by (simp_all add: filter_expr_def)

lemma no_dates_calls:
  "get_debt_to_penny env None None sent =
       make_request env ''v2/accounting/od/debt_to_penny''
         (Some [(''page[size]'', JInt 500), (''page[number]'', JInt 1),
                (''fields'', JStr ''record_date,tot_pub_debt_out_amt''),
                (''sort'', JStr ''-record_date'')]) sent"
  "get_treasury_yield_rates env None None sent =
       make_request env ''v2/accounting/od/avg_interest_rates''
         (Some [(''page[size]'', JInt 500), (''page[number]'', JInt 1),
                (''sort'', JStr ''-record_date'')]) sent"
  "get_monthly_treasury_statement env None None sent =
       make_request env ''v2/revenue/rc/collections''
         (Some [(''page[size]'', JInt 500), (''page[number]'', JInt 1),
                (''sort'', JStr ''-record_date'')]) sent"
  "get_interest_expense env None None sent =
       make_request env ''v2/debt/ie/ie_bpd''
         (Some [(''page[size]'', JInt 500), (''page[number]'', JInt 1),
                (''sort'', JStr ''-record_date'')]) sent"
  by (simp_all add: filter_expr_def get_debt_to_penny_def get_treasury_yield_rates_def
      get_monthly_treasury_statement_def get_interest_expense_def get_dataset_data_def
      set_if_given_def)

lemma make_request_log:
  "snd (make_request env endpoint ps sent) =
     sent @ [(BASE_URL @ ''/'' @ endpoint,
              AList.update ''format'' (JStr ''json'')
                (if map_of (case ps of None \<Rightarrow> [] | Some p \<Rightarrow> p) ''page[size]'' = None
                 then AList.update ''page[size]'' (JInt DEFAULT_PAGE_SIZE)
                        (case ps of None \<Rightarrow> [] | Some p \<Rightarrow> p)
                 else (case ps of None \<Rightarrow> [] | Some p \<Rightarrow> p)),
              TIMEOUT)]"
  by (simp add: make_request_def Let_def)

lemma series_log:
  "snd (get_dataset_data env path field_list (Some filter_text) (Some ''-record_date'')
          500 1 sent) =
     sent @ [(BASE_URL @ ''/'' @ path,
              [(''page[size]'', JInt 500), (''page[number]'', JInt 1)]
                @ (case field_list of None \<Rightarrow> []
                   | Some f \<Rightarrow> if f = [] then [] else [(''fields'', JStr f)])
                @ (if filter_text = [] then [] else [(''filter'', JStr filter_text)])
                @ [(''sort'', JStr ''-record_date''), (''format'', JStr ''json'')],
              TIMEOUT)]"
  by (simp add: get_dataset_data_def set_if_given_def make_request_log split: option.splits)

lemma dated_requests:
  "snd (get_debt_to_penny env (Some ''2024-01-01'') None sent) =
       sent @ [(BASE_URL @ ''/v2/accounting/od/debt_to_penny'',
                [(''page[size]'', JInt 500),
                 (''page[number]'', JInt 1),
                 (''fields'', JStr ''record_date,tot_pub_debt_out_amt''),
                 (''filter'', JStr ''record_date:gte:2024-01-01''),
                 (''sort'', JStr ''-record_date''),
                 (''format'', JStr ''json'')], 30)]"
  "snd (get_debt_to_penny env None (Some ''2024-06-01'') sent) =
       sent @ [(BASE_URL @ ''/v2/accounting/od/debt_to_penny'',
                [(''page[size]'', JInt 500),
                 (''page[number]'', JInt 1),
                 (''fields'', JStr ''record_date,tot_pub_debt_out_amt''),
                 (''filter'', JStr ''record_date:lte:2024-06-01''),
                 (''sort'', JStr ''-record_date''),
                 (''format'', JStr ''json'')], 30)]"
  "snd (get_debt_to_penny env (Some ''2024-01-01'') (Some ''2024-06-01'') sent) =
       sent @ [(BASE_URL @ ''/v2/accounting/od/debt_to_penny'',
                [(''page[size]'', JInt 500),
                 (''page[number]'', JInt 1),
                 (''fields'', JStr ''record_date,tot_pub_debt_out_amt''),
                 (''filter'', JStr ''record_date:gte:2024-01-01,record_date:lte:2024-06-01''),
                 (''sort'', JStr ''-record_date''),
                 (''format'', JStr ''json'')], 30)]"
  "snd (get_debt_to_penny env None None sent) =
       sent @ [(BASE_URL @ ''/v2/accounting/od/debt_to_penny'',
                [(''page[size]'', JInt 500),
                 (''page[number]'', JInt 1),
                 (''fields'', JStr ''record_date,tot_pub_debt_out_amt''),
                 (''sort'', JStr ''-record_date''),
                 (''format'', JStr ''json'')], 30)]"
  "snd (get_treasury_yield_rates env (Some ''2024-01-01'') None sent) =
       sent @ [(BASE_URL @ ''/v2/accounting/od/avg_interest_rates'',
                [(''page[size]'', JInt 500),
                 (''page[number]'', JInt 1),
                 (''filter'', JStr ''record_date:gte:2024-01-01''),
                 (''sort'', JStr ''-record_date''),
                 (''format'', JStr ''json'')], 30)]"
  "snd (get_treasury_yield_rates env None (Some ''2024-06-01'') sent) =
       sent @ [(BASE_URL @ ''/v2/accounting/od/avg_interest_rates'',
                [(''page[size]'', JInt 500),
                 (''page[number]'', JInt 1),
                 (''filter'', JStr ''record_date:lte:2024-06-01''),
                 (''sort'', JStr ''-record_date''),
                 (''format'', JStr ''json'')], 30)]"
  "snd (get_treasury_yield_rates env (Some ''2024-01-01'') (Some ''2024-06-01'') sent) =
       sent @ [(BASE_URL @ ''/v2/accounting/od/avg_interest_rates'',
                [(''page[size]'', JInt 500),
                 (''page[number]'', JInt 1),
                 (''filter'', JStr ''record_date:gte:2024-01-01,record_date:lte:2024-06-01''),
                 (''sort'', JStr ''-record_date''),
                 (''format'', JStr ''json'')], 30)]"
  "snd (get_treasury_yield_rates env None None sent) =
       sent @ [(BASE_URL @ ''/v2/accounting/od/avg_interest_rates'',
                [(''page[size]'', JInt 500),
                 (''page[number]'', JInt 1),
                 (''sort'', JStr ''-record_date''),
                 (''format'', JStr ''json'')], 30)]"
  "snd (get_monthly_treasury_statement env (Some ''2024-01-01'') None sent) =
       sent @ [(BASE_URL @ ''/v2/revenue/rc/collections'',
                [(''page[size]'', JInt 500),
                 (''page[number]'', JInt 1),
                 (''filter'', JStr ''record_date:gte:2024-01-01''),
                 (''sort'', JStr ''-record_date''),
                 (''format'', JStr ''json'')], 30)]"
  "snd (get_monthly_treasury_statement env None (Some ''2024-06-01'') sent) =
       sent @ [(BASE_URL @ ''/v2/revenue/rc/collections'',
                [(''page[size]'', JInt 500),
                 (''page[number]'', JInt 1),
                 (''filter'', JStr ''record_date:lte:2024-06-01''),
                 (''sort'', JStr ''-record_date''),
                 (''format'', JStr ''json'')], 30)]"
  "snd (get_monthly_treasury_statement env (Some ''2024-01-01'') (Some ''2024-06-01'') sent) =
       sent @ [(BASE_URL @ ''/v2/revenue/rc/collections'',
                [(''page[size]'', JInt 500),
                 (''page[number]'', JInt 1),
                 (''filter'', JStr ''record_date:gte:2024-01-01,record_date:lte:2024-06-01''),
                 (''sort'', JStr ''-record_date''),
                 (''format'', JStr ''json'')], 30)]"
  "snd (get_monthly_treasury_statement env None None sent) =
       sent @ [(BASE_URL @ ''/v2/revenue/rc/collections'',
                [(''page[size]'', JInt 500),
                 (''page[number]'', JInt 1),
                 (''sort'', JStr ''-record_date''),
                 (''format'', JStr ''json'')], 30)]"
  "snd (get_interest_expense env (Some ''2024-01-01'') None sent) =
       sent @ [(BASE_URL @ ''/v2/debt/ie/ie_bpd'',
                [(''page[size]'', JInt 500),
                 (''page[number]'', JInt 1),
                 (''filter'', JStr ''record_date:gte:2024-01-01''),
                 (''sort'', JStr ''-record_date''),
                 (''format'', JStr ''json'')], 30)]"
  "snd (get_interest_expense env None (Some ''2024-06-01'') sent) =
       sent @ [(BASE_URL @ ''/v2/debt/ie/ie_bpd'',
                [(''page[size]'', JInt 500),
                 (''page[number]'', JInt 1),
                 (''filter'', JStr ''record_date:lte:2024-06-01''),
                 (''sort'', JStr ''-record_date''),
                 (''format'', JStr ''json'')], 30)]"
  "snd (get_interest_expense env (Some ''2024-01-01'') (Some ''2024-06-01'') sent) =
       sent @ [(BASE_URL @ ''/v2/debt/ie/ie_bpd'',
                [(''page[size]'', JInt 500),
                 (''page[number]'', JInt 1),
                 (''filter'', JStr ''record_date:gte:2024-01-01,record_date:lte:2024-06-01''),
                 (''sort'', JStr ''-record_date''),
                 (''format'', JStr ''json'')], 30)]"
  "snd (get_interest_expense env None None sent) =
       sent @ [(BASE_URL @ ''/v2/debt/ie/ie_bpd'',
                [(''page[size]'', JInt 500),
                 (''page[number]'', JInt 1),
                 (''sort'', JStr ''-record_date''),
                 (''format'', JStr ''json'')], 30)]"
  by (simp_all add: get_debt_to_penny_def get_treasury_yield_rates_def
      get_monthly_treasury_statement_def get_interest_expense_def series_log
      filter_expr_examples TIMEOUT_def)

text \<open>
  C4. The filter expression of the accessors for the named series: a start date alone
  gives \<open>record_date:gte:2024-01-01\<close>, an end date alone \<open>record_date:lte:2024-06-01\<close>,
  both give the two joined by a comma, and neither gives the empty string. Each of the
  four accessors sends exactly this expression as the \<open>filter\<close> parameter of its one
  request, and with no dates it calls the executor with parameters among which there is
  no \<open>filter\<close>, so that the request has none.
\<close>

theorem date_filter_construction:
  "filter_expr (Some ''2024-01-01'') None = ''record_date:gte:2024-01-01''
   \<and> filter_expr None (Some ''2024-06-01'') = ''record_date:lte:2024-06-01''
   \<and> filter_expr (Some ''2024-01-01'') (Some ''2024-06-01'')
        = ''record_date:gte:2024-01-01,record_date:lte:2024-06-01''
   \<and> filter_expr None None = []
   \<and> get_debt_to_penny env None None sent =
       make_request env ''v2/accounting/od/debt_to_penny''
         (Some [(''page[size]'', JInt 500), (''page[number]'', JInt 1),
                (''fields'', JStr ''record_date,tot_pub_debt_out_amt''),
                (''sort'', JStr ''-record_date'')]) sent
   \<and> get_treasury_yield_rates env None None sent =
       make_request env ''v2/accounting/od/avg_interest_rates''
         (Some [(''page[size]'', JInt 500), (''page[number]'', JInt 1),
                (''sort'', JStr ''-record_date'')]) sent
   \<and> get_monthly_treasury_statement env None None sent =
       make_request env ''v2/revenue/rc/collections''
         (Some [(''page[size]'', JInt 500), (''page[number]'', JInt 1),
                (''sort'', JStr ''-record_date'')]) sent
   \<and> get_interest_expense env None None sent =
       make_request env ''v2/debt/ie/ie_bpd''
         (Some [(''page[size]'', JInt 500), (''page[number]'', JInt 1),
                (''sort'', JStr ''-record_date'')]) sent
   \<and> snd (get_debt_to_penny env (Some ''2024-01-01'') None sent) =
       sent @ [(BASE_URL @ ''/v2/accounting/od/debt_to_penny'',
                [(''page[size]'', JInt 500),
                 (''page[number]'', JInt 1),
                 (''fields'', JStr ''record_date,tot_pub_debt_out_amt''),
                 (''filter'', JStr ''record_date:gte:2024-01-01''),
                 (''sort'', JStr ''-record_date''),
                 (''format'', JStr ''json'')], 30)]
   \<and> snd (get_debt_to_penny env None (Some ''2024-06-01'') sent) =
       sent @ [(BASE_URL @ ''/v2/accounting/od/debt_to_penny'',
                [(''page[size]'', JInt 500),
                 (''page[number]'', JInt 1),
                 (''fields'', JStr ''record_date,tot_pub_debt_out_amt''),
                 (''filter'', JStr ''record_date:lte:2024-06-01''),
                 (''sort'', JStr ''-record_date''),
                 (''format'', JStr ''json'')], 30)]
   \<and> snd (get_debt_to_penny env (Some ''2024-01-01'') (Some ''2024-06-01'') sent) =
       sent @ [(BASE_URL @ ''/v2/accounting/od/debt_to_penny'',
                [(''page[size]'', JInt 500),
                 (''page[number]'', JInt 1),
                 (''fields'', JStr ''record_date,tot_pub_debt_out_amt''),
                 (''filter'', JStr ''record_date:gte:2024-01-01,record_date:lte:2024-06-01''),
                 (''sort'', JStr ''-record_date''),
                 (''format'', JStr ''json'')], 30)]
   \<and> snd (get_debt_to_penny env None None sent) =
       sent @ [(BASE_URL @ ''/v2/accounting/od/debt_to_penny'',
                [(''page[size]'', JInt 500),
                 (''page[number]'', JInt 1),
                 (''fields'', JStr ''record_date,tot_pub_debt_out_amt''),
                 (''sort'', JStr ''-record_date''),
                 (''format'', JStr ''json'')], 30)]
   \<and> snd (get_treasury_yield_rates env (Some ''2024-01-01'') None sent) =
       sent @ [(BASE_URL @ ''/v2/accounting/od/avg_interest_rates'',
                [(''page[size]'', JInt 500),
                 (''page[number]'', JInt 1),
                 (''filter'', JStr ''record_date:gte:2024-01-01''),
                 (''sort'', JStr ''-record_date''),
                 (''format'', JStr ''json'')], 30)]
   \<and> snd (get_treasury_yield_rates env None (Some ''2024-06-01'') sent) =
       sent @ [(BASE_URL @ ''/v2/accounting/od/avg_interest_rates'',
                [(''page[size]'', JInt 500),
                 (''page[number]'', JInt 1),
                 (''filter'', JStr ''record_date:lte:2024-06-01''),
                 (''sort'', JStr ''-record_date''),
                 (''format'', JStr ''json'')], 30)]
   \<and> snd (get_treasury_yield_rates env (Some ''2024-01-01'') (Some ''2024-06-01'') sent) =
       sent @ [(BASE_URL @ ''/v2/accounting/od/avg_interest_rates'',
                [(''page[size]'', JInt 500),
                 (''page[number]'', JInt 1),
                 (''filter'', JStr ''record_date:gte:2024-01-01,record_date:lte:2024-06-01''),
                 (''sort'', JStr ''-record_date''),
                 (''format'', JStr ''json'')], 30)]
   \<and> snd (get_treasury_yield_rates env None None sent) =
       sent @ [(BASE_URL @ ''/v2/accounting/od/avg_interest_rates'',
                [(''page[size]'', JInt 500),
                 (''page[number]'', JInt 1),
                 (''sort'', JStr ''-record_date''),
                 (''format'', JStr ''json'')], 30)]
   \<and> snd (get_monthly_treasury_statement env (Some ''2024-01-01'') None sent) =
       sent @ [(BASE_URL @ ''/v2/revenue/rc/collections'',
                [(''page[size]'', JInt 500),
                 (''page[number]'', JInt 1),
                 (''filter'', JStr ''record_date:gte:2024-01-01''),
                 (''sort'', JStr ''-record_date''),
                 (''format'', JStr ''json'')], 30)]
   \<and> snd (get_monthly_treasury_statement env None (Some ''2024-06-01'') sent) =
       sent @ [(BASE_URL @ ''/v2/revenue/rc/collections'',
                [(''page[size]'', JInt 500),
                 (''page[number]'', JInt 1),
                 (''filter'', JStr ''record_date:lte:2024-06-01''),
                 (''sort'', JStr ''-record_date''),
                 (''format'', JStr ''json'')], 30)]
   \<and> snd (get_monthly_treasury_statement env (Some ''2024-01-01'') (Some ''2024-06-01'') sent) =
       sent @ [(BASE_URL @ ''/v2/revenue/rc/collections'',
                [(''page[size]'', JInt 500),
                 (''page[number]'', JInt 1),
                 (''filter'', JStr ''record_date:gte:2024-01-01,record_date:lte:2024-06-01''),
                 (''sort'', JStr ''-record_date''),
                 (''format'', JStr ''json'')], 30)]
   \<and> snd (get_monthly_treasury_statement env None None sent) =
       sent @ [(BASE_URL @ ''/v2/revenue/rc/collections'',
                [(''page[size]'', JInt 500),
                 (''page[number]'', JInt 1),
                 (''sort'', JStr ''-record_date''),
                 (''format'', JStr ''json'')], 30)]
   \<and> snd (get_interest_expense env (Some ''2024-01-01'') None sent) =
       sent @ [(BASE_URL @ ''/v2/debt/ie/ie_bpd'',
                [(''page[size]'', JInt 500),
                 (''page[number]'', JInt 1),
                 (''filter'', JStr ''record_date:gte:2024-01-01''),
                 (''sort'', JStr ''-record_date''),
                 (''format'', JStr ''json'')], 30)]
   \<and> snd (get_interest_expense env None (Some ''2024-06-01'') sent) =
       sent @ [(BASE_URL @ ''/v2/debt/ie/ie_bpd'',
                [(''page[size]'', JInt 500),
                 (''page[number]'', JInt 1),
                 (''filter'', JStr ''record_date:lte:2024-06-01''),
                 (''sort'', JStr ''-record_date''),
                 (''format'', JStr ''json'')], 30)]
   \<and> snd (get_interest_expense env (Some ''2024-01-01'') (Some ''2024-06-01'') sent) =
       sent @ [(BASE_URL @ ''/v2/debt/ie/ie_bpd'',
                [(''page[size]'', JInt 500),
                 (''page[number]'', JInt 1),
                 (''filter'', JStr ''record_date:gte:2024-01-01,record_date:lte:2024-06-01''),
                 (''sort'', JStr ''-record_date''),
                 (''format'', JStr ''json'')], 30)]
   \<and> snd (get_interest_expense env None None sent) =
       sent @ [(BASE_URL @ ''/v2/debt/ie/ie_bpd'',
                [(''page[size]'', JInt 500),
                 (''page[number]'', JInt 1),
                 (''sort'', JStr ''-record_date''),
                 (''format'', JStr ''json'')], 30)]"
  by (intro conjI filter_expr_examples no_dates_calls dated_requests)

text \<open>
  C5. When no registry path contains the category, \<open>get_datasets_by_category\<close> returns
  an envelope with empty data whose error says that no datasets were found for the
  category. The function is total: none of its operations can raise.
\<close>

theorem unknown_category_is_an_error:
  "filter (\<lambda>d. substring category d) get_available_datasets = [] \<Longrightarrow>
   get_datasets_by_category env category =
     \<lparr>data = JArr [],
      metadata = [(''source'', JStr ''us_treasury_fiscaldata''),
                  (''last_updated'', JStr (now_iso env)),
                  (''action'', JStr ''get_datasets_by_category''),
                  (''category'', JStr category)],
      error = Some (''No datasets found for category: '' @ category)\<rparr>"
  by (simp add: get_datasets_by_category_def SOURCE_def)

theorem unknown_category_is_an_error_witness:
  "filter (\<lambda>d. substring ''nonexistent_category'' d) get_available_datasets = []
   \<and> get_datasets_by_category unreachable ''nonexistent_category'' =
     \<lparr>data = JArr [],
      metadata = [(''source'', JStr ''us_treasury_fiscaldata''),
                  (''last_updated'', JStr ''2024-06-01T12:00:00''),
                  (''action'', JStr ''get_datasets_by_category''),
                  (''category'', JStr ''nonexistent_category'')],
      error = Some ''No datasets found for category: nonexistent_category''\<rparr>"
proof -
  have h: "filter (\<lambda>d. substring ''nonexistent_category'' d) get_available_datasets = []"
    by (simp add: get_available_datasets_def)
  show ?thesis
    using h unknown_category_is_an_error [OF h, of unreachable]
    by (simp add: unreachable_def)
qed

subsection \<open>Envelopes\<close>

lemma request_error_simps [simp]:
  "data (request_error env ep ps msg) = JArr []"
  "error (request_error env ep ps msg) = Some msg"
  "map_of (metadata (request_error env ep ps msg)) ''source'' = Some SOURCE"
  "map_of (metadata (request_error env ep ps msg)) ''action'' = Some (JStr ep)"
  "map_of (metadata (request_error env ep ps msg)) ''count'' = None"
  by (simp_all add: request_error_def)

lemma py_len_not_null: "py_len v = Inr n \<Longrightarrow> v \<noteq> JNull"
  by (cases v) auto

lemma read_payload_Inr:
  assumes "read_payload env ep ps p = Inr r"
  shows "(\<exists>msg. r = request_error env ep ps msg)
       \<or> (error r = None
          \<and> py_get p ''data'' (JArr []) = Inr (data r)
          \<and> count_matches r
          \<and> map_of (metadata r) ''source'' = Some SOURCE
          \<and> map_of (metadata r) ''action'' = Some (JStr ep))"
  using assms
  unfolding read_payload_def try_bind_def count_matches_def
  by (auto split: sum.splits if_splits)

lemma make_request_fst:
  "fst (make_request env ep ps0 sent) =
     (case http_get env sent (BASE_URL @ ''/'' @ ep, sent_params ps0, TIMEOUT) of
        HTTPError code reason \<Rightarrow>
          request_error env ep (sent_params ps0)
            (''HTTP Error: '' @ str_of env (JInt code) @ '' - '' @ reason)
      | Timeout \<Rightarrow>
          request_error env ep (sent_params ps0)
            ''Request timeout. API is taking too long to respond.''
      | ConnectionError \<Rightarrow>
          request_error env ep (sent_params ps0)
            ''Connection error. Unable to connect to API.''
      | JSONDecodeError \<Rightarrow>
          request_error env ep (sent_params ps0) ''Invalid JSON response from API''
      | OtherException msg \<Rightarrow>
          request_error env ep (sent_params ps0) (''Unexpected error: '' @ msg)
      | Response payload \<Rightarrow>
          (case read_payload env ep (sent_params ps0) payload of
             Inl e \<Rightarrow>
               request_error env ep (sent_params ps0)
                 (''Unexpected error: '' @ exc_str env e)
           | Inr r \<Rightarrow> r))"
  unfolding make_request_def sent_params_def Let_def fst_conv by (rule refl)

lemma make_request_cases:
  obtains (failed) msg where
      "fst (make_request env ep ps0 sent) = request_error env ep (sent_params ps0) msg"
  | (answered) req payload where
      "http_get env sent req = Response payload"
      "read_payload env ep (sent_params ps0) payload = Inr (fst (make_request env ep ps0 sent))"
proof (cases "http_get env sent (BASE_URL @ ''/'' @ ep, sent_params ps0, TIMEOUT)")
  case (Response payload)
  show ?thesis
  proof (cases "read_payload env ep (sent_params ps0) payload")
    case (Inl e)
    with Response show ?thesis by (intro failed) (simp add: make_request_fst)
  next
    case (Inr r)
    with Response have "fst (make_request env ep ps0 sent) = r"
      by (simp add: make_request_fst)
    with Response Inr show ?thesis by (intro answered) simp_all
  qed
qed (intro failed, simp add: make_request_fst)+

lemma py_get_data_is_list:
  "data_member_is_list p \<Longrightarrow> py_get p ''data'' (JArr []) = Inr v \<Longrightarrow> is_list v"
  by (cases p) (auto split: option.splits)

lemma well_formed_request_error: "well_formed (request_error env' ep ps msg)"
  by (simp add: well_formed_def)

lemma well_formedI:
  assumes "py_len (data r) = Inr n"
    and "map_of (metadata r) ''source'' = Some SOURCE"
    and "map_of (metadata r) ''action'' = Some a"
    and "error r \<noteq> None \<Longrightarrow> data r = JArr []"
  shows "well_formed r"
  unfolding well_formed_def
proof (intro conjI impI)
  show "data r \<noteq> JNull" using assms(1) by (rule py_len_not_null)
  show "\<exists>n. py_len (data r) = Inr n" using assms(1) by (rule exI)
  show "map_of (metadata r) ''source'' = Some SOURCE" by (rule assms(2))
  show "map_of (metadata r) ''action'' \<noteq> None" using assms(3) by simp
next
  assume "error r \<noteq> None" then show "data r = JArr []" by (rule assms(4))
qed

lemma make_request_well_formed: "well_formed (fst (make_request env ep ps0 sent))"
proof (cases rule: make_request_cases [of env ep ps0 sent])
  case (failed msg)
  then show ?thesis by (simp add: well_formed_request_error)
next
  case (answered req payload)
  let ?r = "fst (make_request env ep ps0 sent)"
  from read_payload_Inr [OF answered(2)] show ?thesis
  proof (elim disjE exE conjE)
    fix msg assume "?r = request_error env ep (sent_params ps0) msg"
    then show ?thesis by (simp add: well_formed_request_error)
  next
    assume ok: "error ?r = None" "py_get payload ''data'' (JArr []) = Inr (data ?r)"
      "count_matches ?r" "map_of (metadata ?r) ''source'' = Some SOURCE"
      "map_of (metadata ?r) ''action'' = Some (JStr ep)"
    from ok(3) obtain n where n: "py_len (data ?r) = Inr n"
      unfolding count_matches_def by blast
    show ?thesis
    proof (rule well_formedI [OF n ok(4) ok(5)])
      assume "error ?r \<noteq> None" with ok(1) show "data ?r = JArr []" by simp
    qed
  qed
qed

lemma make_request_count:
  assumes "error (fst (make_request env ep ps0 sent)) = None"
  shows "count_matches (fst (make_request env ep ps0 sent))"
proof (cases rule: make_request_cases [of env ep ps0 sent])
  case (failed msg)
  with assms show ?thesis by simp
next
  case (answered req payload)
  from read_payload_Inr [OF answered(2)] assms show ?thesis
    by (elim disjE exE conjE) simp_all
qed

lemma get_dataset_data_well_formed:
  "well_formed (fst (get_dataset_data env ep f fl s n k sent))"
  unfolding get_dataset_data_def Let_def by (rule make_request_well_formed)

lemma get_dataset_data_count:
  "error (fst (get_dataset_data env ep f fl s n k sent)) = None
     \<Longrightarrow> count_matches (fst (get_dataset_data env ep f fl s n k sent))"
  unfolding get_dataset_data_def Let_def by (rule make_request_count)

lemma get_catalogue_well_formed: "well_formed (get_catalogue env)"
  by (rule well_formedI [where n = "length get_available_datasets"
        and a = "JStr ''get_catalogue''"])
     (simp_all add: get_catalogue_def Let_def)

lemma get_catalogue_count: "count_matches (get_catalogue env)"
  by (simp add: count_matches_def get_catalogue_def Let_def)

lemma get_catalogue_error: "error (get_catalogue env) = None"
  by (simp add: get_catalogue_def Let_def)

lemma category_well_formed: "well_formed (get_datasets_by_category env c)"
  by (rule well_formedI
        [where n = "length (filter (\<lambda>d. substring c d) get_available_datasets)"
           and a = "JStr ''get_datasets_by_category''"])
     (simp_all add: get_datasets_by_category_def Let_def split: if_splits)

lemma category_count:
  "error (get_datasets_by_category env c) = None
     \<Longrightarrow> count_matches (get_datasets_by_category env c)"
  by (simp add: count_matches_def get_datasets_by_category_def Let_def split: if_splits)

lemma search_well_formed: "well_formed (search_datasets env q)"
  by (rule well_formedI
        [where n = "length (filter (\<lambda>d. substring (lower q) (lower d)) get_available_datasets)"
           and a = "JStr ''search_datasets''"])
     (simp_all add: search_datasets_def Let_def)

lemma search_count: "count_matches (search_datasets env q)"
  by (simp add: count_matches_def search_datasets_def Let_def)

lemma search_error: "error (search_datasets env q) = None"
  by (simp add: search_datasets_def Let_def)

lemma series_well_formed:
  "well_formed (fst (get_debt_to_penny env s e sent))"
  "well_formed (fst (get_treasury_yield_rates env s e sent))"
  "well_formed (fst (get_monthly_treasury_statement env s e sent))"
  "well_formed (fst (get_interest_expense env s e sent))"
  "well_formed (fst (get_dataset_summary env ep sent))"
  unfolding get_debt_to_penny_def get_treasury_yield_rates_def
    get_monthly_treasury_statement_def get_interest_expense_def get_dataset_summary_def Let_def
  by (rule get_dataset_data_well_formed)+

lemma series_count:
  "error (fst (get_debt_to_penny env s e sent)) = None
     \<Longrightarrow> count_matches (fst (get_debt_to_penny env s e sent))"
  "error (fst (get_treasury_yield_rates env s e sent)) = None
     \<Longrightarrow> count_matches (fst (get_treasury_yield_rates env s e sent))"
  "error (fst (get_monthly_treasury_statement env s e sent)) = None
     \<Longrightarrow> count_matches (fst (get_monthly_treasury_statement env s e sent))"
  "error (fst (get_interest_expense env s e sent)) = None
     \<Longrightarrow> count_matches (fst (get_interest_expense env s e sent))"
  "error (fst (get_dataset_summary env ep sent)) = None
     \<Longrightarrow> count_matches (fst (get_dataset_summary env ep sent))"
  unfolding get_debt_to_penny_def get_treasury_yield_rates_def
    get_monthly_treasury_statement_def get_interest_expense_def get_dataset_summary_def Let_def
  by (erule get_dataset_data_count)+

lemma test_entry_Inr:
  "py_len (data r) = Inr n \<Longrightarrow> \<exists>t. test_entry name r = Inr t"
  by (simp add: test_entry_def try_bind_def)

lemma well_formed_len: "well_formed r \<Longrightarrow> \<exists>n. py_len (data r) = Inr n"
  by (simp add: well_formed_def)

lemma test_entry_total: "well_formed r \<Longrightarrow> \<exists>t. test_entry name r = Inr t"
  using test_entry_Inr well_formed_len by blast

lemma test_endpoints_done:
  "\<exists>t1 t2 t3 t4 t5 sent'. test_endpoints env sent = (testing_done env [t1, t2, t3, t4, t5], sent')"
proof -
  obtain t1 where t1: "test_entry ''get_catalogue'' (get_catalogue env) = Inr t1"
    using test_entry_total [OF get_catalogue_well_formed] by blast
  obtain r2 sent2 where c2: "get_debt_to_penny env None None sent = (r2, sent2)"
    by (cases "get_debt_to_penny env None None sent")
  have "well_formed r2" using series_well_formed(1) [of env None None sent] c2 by simp
  then obtain t2 where t2: "test_entry ''get_debt_to_penny'' r2 = Inr t2"
    using test_entry_total by blast
  obtain r3 sent3 where c3: "get_treasury_yield_rates env None None sent2 = (r3, sent3)"
    by (cases "get_treasury_yield_rates env None None sent2")
  have "well_formed r3" using series_well_formed(2) [of env None None sent2] c3 by simp
  then obtain t3 where t3: "test_entry ''get_treasury_yield_rates'' r3 = Inr t3"
    using test_entry_total by blast
  obtain t4 where t4: "test_entry ''search_datasets'' (search_datasets env ''debt'') = Inr t4"
    using test_entry_total [OF search_well_formed] by blast
  obtain t5 where t5: "test_entry ''get_datasets_by_category''
                         (get_datasets_by_category env ''accounting'') = Inr t5"
    using test_entry_total [OF category_well_formed] by blast
  have "test_endpoints env sent = (testing_done env [t1, t2, t3, t4, t5], sent3)"
    unfolding test_endpoints_def by (simp only: t1 c2 t2 c3 t3 t4 t5 sum.case prod.case)
  then show ?thesis by blast
qed

lemma testing_done_facts:
  "error (testing_done env [t1, t2, t3, t4, t5]) = None"
  "data (testing_done env [t1, t2, t3, t4, t5]) = JArr [t1, t2, t3, t4, t5]"
  "map_of (metadata (testing_done env [t1, t2, t3, t4, t5])) ''count'' = None"
  "map_of (metadata (testing_done env [t1, t2, t3, t4, t5])) ''total_tests'' = Some (JInt 5)"
  "map_of (metadata (testing_done env [t1, t2, t3, t4, t5])) ''source'' = Some SOURCE"
  "map_of (metadata (testing_done env [t1, t2, t3, t4, t5])) ''action'' = Some (JStr ''test_endpoints'')"
  by (simp_all add: testing_done_def Let_def)

lemma test_endpoints_well_formed: "well_formed (fst (test_endpoints env sent))"
proof -
  from test_endpoints_done [of env sent] obtain t1 t2 t3 t4 t5 sent'
    where "test_endpoints env sent = (testing_done env [t1, t2, t3, t4, t5], sent')" by blast
  then have r: "fst (test_endpoints env sent) = testing_done env [t1, t2, t3, t4, t5]" by simp
  show ?thesis unfolding r
    by (rule well_formedI [where n = 5 and a = "JStr ''test_endpoints''"])
       (simp_all add: testing_done_facts)
qed

lemma test_endpoints_no_count:
  "error (fst (test_endpoints env sent)) = None
   \<and> map_of (metadata (fst (test_endpoints env sent))) ''count'' = None
   \<and> map_of (metadata (fst (test_endpoints env sent))) ''total_tests'' = Some (JInt 5)
   \<and> py_len (data (fst (test_endpoints env sent))) = Inr 5"
proof -
  from test_endpoints_done [of env sent] obtain t1 t2 t3 t4 t5 sent'
    where "test_endpoints env sent = (testing_done env [t1, t2, t3, t4, t5], sent')" by blast
  then have r: "fst (test_endpoints env sent) = testing_done env [t1, t2, t3, t4, t5]" by simp
  show ?thesis unfolding r by (simp add: testing_done_facts)
qed

lemma execute_well_formed: "well_formed (fst (execute env cmd sent))"
  by (cases cmd)
     (simp_all add: get_catalogue_well_formed category_well_formed search_well_formed
        series_well_formed get_dataset_data_well_formed test_endpoints_well_formed)

lemma execute_count:
  "cmd \<noteq> Test \<Longrightarrow> error (fst (execute env cmd sent)) = None
     \<Longrightarrow> count_matches (fst (execute env cmd sent))"
  by (cases cmd)
     (simp_all add: get_catalogue_count category_count search_count
        series_count get_dataset_data_count)

lemma debt_request_params:
  "sent_params (Some [(''page[size]'', JInt 500), (''page[number]'', JInt 1),
                (''fields'', JStr ''record_date,tot_pub_debt_out_amt''),
                (''sort'', JStr ''-record_date'')]) =
     [(''page[size]'', JInt 500), (''page[number]'', JInt 1),
      (''fields'', JStr ''record_date,tot_pub_debt_out_amt''),
      (''sort'', JStr ''-record_date''), (''format'', JStr ''json'')]"
  by (simp add: sent_params_def)

lemma debt_unreachable:
  "fst (execute unreachable (Debt None None) []) =
     request_error unreachable ''v2/accounting/od/debt_to_penny''
       [(''page[size]'', JInt 500), (''page[number]'', JInt 1),
        (''fields'', JStr ''record_date,tot_pub_debt_out_amt''),
        (''sort'', JStr ''-record_date''), (''format'', JStr ''json'')]
       ''Connection error. Unable to connect to API.''"
proof -
  have h: "http_get unreachable sent req = ConnectionError" for sent req
    by (simp add: unreachable_def)
  show ?thesis
    by (simp only: execute.simps no_dates_calls make_request_fst debt_request_params h
          http_outcome.case)
qed

lemma debt_object_data:
  "fst (execute object_data (Debt None None) []) =
     \<lparr>data = JObj [(''a'', JInt 1)],
      metadata =
        [(''source'', SOURCE),
         (''last_updated'', JStr ''2024-06-01T12:00:00''),
         (''action'', JStr ''v2/accounting/od/debt_to_penny''),
         (''endpoint'', JStr ''v2/accounting/od/debt_to_penny''),
         (''params'',
            JObj [(''page[size]'', JInt 500), (''page[number]'', JInt 1),
                  (''fields'', JStr ''record_date,tot_pub_debt_out_amt''),
                  (''sort'', JStr ''-record_date''), (''format'', JStr ''json'')]),
         (''count'', JInt 1),
         (''total_count'', JInt 0),
         (''page_info'',
            JObj [(''page_number'', JInt 1), (''page_size'', JInt 100),
                  (''total_pages'', JInt 1)])],
      error = None\<rparr>"
proof -
  have h: "http_get object_data sent req = Response (JObj [(''data'', JObj [(''a'', JInt 1)])])"
    for sent req
    by (simp add: object_data_def)
  have n: "now_iso object_data = ''2024-06-01T12:00:00''" by (simp add: object_data_def)
  have r: "read_payload object_data ep ps (JObj [(''data'', JObj [(''a'', JInt 1)])]) =
     Inr \<lparr>data = JObj [(''a'', JInt 1)],
      metadata =
        [(''source'', SOURCE),
         (''last_updated'', JStr ''2024-06-01T12:00:00''),
         (''action'', JStr ep),
         (''endpoint'', JStr ep),
         (''params'', JObj ps),
         (''count'', JInt 1),
         (''total_count'', JInt 0),
         (''page_info'',
            JObj [(''page_number'', JInt 1), (''page_size'', JInt 100),
                  (''total_pages'', JInt 1)])],
      error = None\<rparr>" for ep ps
    by (simp add: read_payload_def try_bind_def n DEFAULT_PAGE_SIZE_def)
  show ?thesis
    by (simp only: execute.simps no_dates_calls make_request_fst debt_request_params h
          http_outcome.case r sum.case)
qed

lemma debt_one_record:
  "error (fst (execute one_record (Debt None None) [])) = None
   \<and> data (fst (execute one_record (Debt None None) [])) =
       JArr [JObj [(''record_date'', JStr ''2024-05-31''),
                   (''tot_pub_debt_out_amt'', JStr ''34600000000000.00'')]]
   \<and> map_of (metadata (fst (execute one_record (Debt None None) []))) ''count''
       = Some (JInt 1)"
proof -
  let ?p = "JObj [(''data'',
                     JArr [JObj [(''record_date'', JStr ''2024-05-31''),
                                 (''tot_pub_debt_out_amt'', JStr ''34600000000000.00'')]]),
                    (''meta'', JObj [(''total-count'', JInt 1), (''total-pages'', JInt 1)])]"
  have h: "http_get one_record sent req = Response ?p" for sent req
    by (simp add: one_record_def)
  have r: "\<exists>m. read_payload one_record ep ps ?p =
     Inr \<lparr>data = JArr [JObj [(''record_date'', JStr ''2024-05-31''),
                   (''tot_pub_debt_out_amt'', JStr ''34600000000000.00'')]],
          metadata = m, error = None\<rparr> \<and> map_of m ''count'' = Some (JInt 1)" for ep ps
    by (simp add: read_payload_def try_bind_def)
  from r obtain m where m: "read_payload one_record ''v2/accounting/od/debt_to_penny''
       [(''page[size]'', JInt 500), (''page[number]'', JInt 1),
        (''fields'', JStr ''record_date,tot_pub_debt_out_amt''),
        (''sort'', JStr ''-record_date''), (''format'', JStr ''json'')] ?p =
     Inr \<lparr>data = JArr [JObj [(''record_date'', JStr ''2024-05-31''),
                   (''tot_pub_debt_out_amt'', JStr ''34600000000000.00'')]],
          metadata = m, error = None\<rparr>" and c: "map_of m ''count'' = Some (JInt 1)"
    by blast
  have "fst (execute one_record (Debt None None) []) =
     \<lparr>data = JArr [JObj [(''record_date'', JStr ''2024-05-31''),
                   (''tot_pub_debt_out_amt'', JStr ''34600000000000.00'')]],
          metadata = m, error = None\<rparr>"
    by (simp only: execute.simps no_dates_calls make_request_fst debt_request_params h
          http_outcome.case m sum.case)
  with c show ?thesis by simp
qed

lemma make_request_sent:
  "snd (make_request env ep ps0 sent) =
     sent @ [(BASE_URL @ ''/'' @ ep, sent_params ps0, TIMEOUT)]"
  unfolding make_request_log sent_params_def by (rule refl)

lemma make_request_answered:
  "(\<exists>msg. fst (make_request env ep ps0 sent) = request_error env ep (sent_params ps0) msg)
   \<or> (\<exists>payload.
         http_get env sent (BASE_URL @ ''/'' @ ep, sent_params ps0, TIMEOUT) = Response payload
         \<and> read_payload env ep (sent_params ps0) payload
             = Inr (fst (make_request env ep ps0 sent)))"
proof (cases "http_get env sent (BASE_URL @ ''/'' @ ep, sent_params ps0, TIMEOUT)")
  case (Response payload)
  show ?thesis
  proof (cases "read_payload env ep (sent_params ps0) payload")
    case (Inl e)
    with Response have "fst (make_request env ep ps0 sent) =
        request_error env ep (sent_params ps0) (''Unexpected error: '' @ exc_str env e)"
      by (simp add: make_request_fst)
    then show ?thesis by blast
  next
    case (Inr r)
    with Response have "fst (make_request env ep ps0 sent) = r"
      by (simp add: make_request_fst)
    with Response Inr show ?thesis by simp
  qed
next
  case (HTTPError code reason)
  then have "fst (make_request env ep ps0 sent) =
      request_error env ep (sent_params ps0)
        (''HTTP Error: '' @ str_of env (JInt code) @ '' - '' @ reason)"
    by (simp add: make_request_fst)
  then show ?thesis by blast
next
  case Timeout
  then have "fst (make_request env ep ps0 sent) =
      request_error env ep (sent_params ps0)
        ''Request timeout. API is taking too long to respond.''"
    by (simp add: make_request_fst)
  then show ?thesis by blast
next
  case ConnectionError
  then have "fst (make_request env ep ps0 sent) =
      request_error env ep (sent_params ps0) ''Connection error. Unable to connect to API.''"
    by (simp add: make_request_fst)
  then show ?thesis by blast
next
  case JSONDecodeError
  then have "fst (make_request env ep ps0 sent) =
      request_error env ep (sent_params ps0) ''Invalid JSON response from API''"
    by (simp add: make_request_fst)
  then show ?thesis by blast
next
  case (OtherException msg)
  then have "fst (make_request env ep ps0 sent) =
      request_error env ep (sent_params ps0) (''Unexpected error: '' @ msg)"
    by (simp add: make_request_fst)
  then show ?thesis by blast
qed

lemma make_request_passes:
  assumes "error (fst (make_request env ep ps0 sent)) = None"
  shows "passes_data_on env sent (BASE_URL @ ''/'' @ ep, sent_params ps0, TIMEOUT)
           (fst (make_request env ep ps0 sent))"
  using make_request_answered [of env ep ps0 sent]
proof (elim disjE exE conjE)
  fix msg assume "fst (make_request env ep ps0 sent) = request_error env ep (sent_params ps0) msg"
  with assms show ?thesis by simp
next
  fix payload
  assume h: "http_get env sent (BASE_URL @ ''/'' @ ep, sent_params ps0, TIMEOUT) = Response payload"
    and r: "read_payload env ep (sent_params ps0) payload = Inr (fst (make_request env ep ps0 sent))"
  from read_payload_Inr [OF r] assms
  have "py_get payload ''data'' (JArr []) = Inr (data (fst (make_request env ep ps0 sent)))"
    by (elim disjE exE conjE) simp_all
  with h show ?thesis unfolding passes_data_on_def by blast
qed

lemma make_request_list:
  assumes "answered_with_list env sent (BASE_URL @ ''/'' @ ep, sent_params ps0, TIMEOUT)"
  shows "is_list (data (fst (make_request env ep ps0 sent)))"
  using make_request_answered [of env ep ps0 sent]
proof (elim disjE exE conjE)
  fix msg assume "fst (make_request env ep ps0 sent) = request_error env ep (sent_params ps0) msg"
  then show ?thesis by simp
next
  fix payload
  assume h: "http_get env sent (BASE_URL @ ''/'' @ ep, sent_params ps0, TIMEOUT) = Response payload"
    and r: "read_payload env ep (sent_params ps0) payload = Inr (fst (make_request env ep ps0 sent))"
  from assms h have l: "data_member_is_list payload"
    by (simp add: answered_with_list_def)
  from read_payload_Inr [OF r] show ?thesis
  proof (elim disjE exE conjE)
    fix msg assume "fst (make_request env ep ps0 sent) = request_error env ep (sent_params ps0) msg"
    then show ?thesis by simp
  next
    assume "py_get payload ''data'' (JArr []) = Inr (data (fst (make_request env ep ps0 sent)))"
    with l show ?thesis by (rule py_get_data_is_list)
  qed
qed

lemma local_data_is_list:
  "is_list (data (get_catalogue env))"
  "is_list (data (get_datasets_by_category env category))"
  "is_list (data (search_datasets env query))"
  by (simp_all add: get_catalogue_def get_datasets_by_category_def search_datasets_def Let_def)

lemma test_endpoints_sent:
  "\<exists>q1 q2. snd (test_endpoints env sent) = sent @ [q1, q2]"
proof -
  obtain t1 where t1: "test_entry ''get_catalogue'' (get_catalogue env) = Inr t1"
    using test_entry_total [OF get_catalogue_well_formed] by blast
  obtain r2 sent2 where c2: "get_debt_to_penny env None None sent = (r2, sent2)"
    by (cases "get_debt_to_penny env None None sent")
  have "well_formed r2" using series_well_formed(1) [of env None None sent] c2 by simp
  then obtain t2 where t2: "test_entry ''get_debt_to_penny'' r2 = Inr t2"
    using test_entry_total by blast
  obtain r3 sent3 where c3: "get_treasury_yield_rates env None None sent2 = (r3, sent3)"
    by (cases "get_treasury_yield_rates env None None sent2")
  have "well_formed r3" using series_well_formed(2) [of env None None sent2] c3 by simp
  then obtain t3 where t3: "test_entry ''get_treasury_yield_rates'' r3 = Inr t3"
    using test_entry_total by blast
  obtain t4 where t4: "test_entry ''search_datasets'' (search_datasets env ''debt'') = Inr t4"
    using test_entry_total [OF search_well_formed] by blast
  obtain t5 where t5: "test_entry ''get_datasets_by_category''
                         (get_datasets_by_category env ''accounting'') = Inr t5"
    using test_entry_total [OF category_well_formed] by blast
  have e: "test_endpoints env sent = (testing_done env [t1, t2, t3, t4, t5], sent3)"
    unfolding test_endpoints_def by (simp only: t1 c2 t2 c3 t3 t4 t5 sum.case prod.case)
  have "\<exists>q. snd (get_debt_to_penny env None None sent) = sent @ [q]"
    unfolding no_dates_calls make_request_sent by blast
  with c2 obtain q1 where q1: "sent2 = sent @ [q1]" by auto
  have "\<exists>q. snd (get_treasury_yield_rates env None None sent2) = sent2 @ [q]"
    unfolding no_dates_calls make_request_sent by blast
  with c3 obtain q2 where q2: "sent3 = sent2 @ [q2]" by auto
  from e q1 q2 have "snd (test_endpoints env sent) = sent @ [q1, q2]" by simp
  then show ?thesis by blast
qed

lemma test_endpoints_is_list: "is_list (data (fst (test_endpoints env sent)))"
proof -
  from test_endpoints_done [of env sent] obtain t1 t2 t3 t4 t5 sent'
    where "test_endpoints env sent = (testing_done env [t1, t2, t3, t4, t5], sent')" by blast
  then show ?thesis by (simp add: testing_done_facts)
qed

lemma execute_shape:
  "(\<exists>ep ps0. execute env cmd sent = make_request env ep ps0 sent)
   \<or> (is_list (data (fst (execute env cmd sent)))
       \<and> (\<forall>req. snd (execute env cmd sent) \<noteq> sent @ [req]))"
proof (cases cmd)
  case Test
  from test_endpoints_sent [of env sent] obtain q1 q2
    where "snd (test_endpoints env sent) = sent @ [q1, q2]" by blast
  with Test show ?thesis by (simp add: test_endpoints_is_list)
qed (auto simp: local_data_is_list get_debt_to_penny_def get_treasury_yield_rates_def
       get_monthly_treasury_statement_def get_interest_expense_def get_dataset_summary_def
       get_dataset_data_def Let_def)

lemma execute_passes:
  assumes "snd (execute env cmd sent) = sent @ [req]"
    and "error (fst (execute env cmd sent)) = None"
  shows "passes_data_on env sent req (fst (execute env cmd sent))"
  using execute_shape [of env cmd sent]
proof (elim disjE exE conjE)
  fix ep ps0 assume e: "execute env cmd sent = make_request env ep ps0 sent"
  with assms(1) have "req = (BASE_URL @ ''/'' @ ep, sent_params ps0, TIMEOUT)"
    by (simp add: make_request_sent)
  with e assms(2) make_request_passes [of env ep ps0 sent] show ?thesis by simp
next
  assume "\<forall>req. snd (execute env cmd sent) \<noteq> sent @ [req]"
  with assms(1) show ?thesis by blast
qed

lemma execute_list:
  assumes "\<And>req. snd (execute env cmd sent) = sent @ [req] \<Longrightarrow> answered_with_list env sent req"
  shows "is_list (data (fst (execute env cmd sent)))"
  using execute_shape [of env cmd sent]
proof (elim disjE exE conjE)
  fix ep ps0 assume e: "execute env cmd sent = make_request env ep ps0 sent"
  then have "snd (execute env cmd sent) = sent @ [(BASE_URL @ ''/'' @ ep, sent_params ps0, TIMEOUT)]"
    by (simp add: make_request_sent)
  then have "answered_with_list env sent (BASE_URL @ ''/'' @ ep, sent_params ps0, TIMEOUT)"
    by (rule assms)
  then show ?thesis unfolding e by (rule make_request_list)
qed

lemma debt_text_data:
  "error (fst (execute text_data (Debt None None) [])) = None
   \<and> data (fst (execute text_data (Debt None None) [])) = JStr ''abc''"
proof -
  have h: "http_get text_data sent req = Response (JObj [(''data'', JStr ''abc'')])"
    for sent req
    by (simp add: text_data_def)
  have r: "\<exists>m. read_payload text_data ep ps (JObj [(''data'', JStr ''abc'')]) =
     Inr \<lparr>data = JStr ''abc'', metadata = m, error = None\<rparr>" for ep ps
    by (simp add: read_payload_def try_bind_def)
  from r obtain m where m: "read_payload text_data ''v2/accounting/od/debt_to_penny''
       [(''page[size]'', JInt 500), (''page[number]'', JInt 1),
        (''fields'', JStr ''record_date,tot_pub_debt_out_amt''),
        (''sort'', JStr ''-record_date''), (''format'', JStr ''json'')]
       (JObj [(''data'', JStr ''abc'')]) =
     Inr \<lparr>data = JStr ''abc'', metadata = m, error = None\<rparr>"
    by blast
  have "fst (execute text_data (Debt None None) []) =
     \<lparr>data = JStr ''abc'', metadata = m, error = None\<rparr>"
    by (simp only: execute.simps no_dates_calls make_request_fst debt_request_params h
          http_outcome.case m sum.case)
  then show ?thesis by simp
qed

lemma debt_sent:
  "snd (execute env (Debt None None) []) =
     [] @ [(BASE_URL @ ''/'' @ ''v2/accounting/od/debt_to_penny'',
            [(''page[size]'', JInt 500), (''page[number]'', JInt 1),
             (''fields'', JStr ''record_date,tot_pub_debt_out_amt''),
             (''sort'', JStr ''-record_date''), (''format'', JStr ''json'')],
            TIMEOUT)]"
  by (simp only: execute.simps no_dates_calls make_request_sent debt_request_params)

lemma one_record_answers: "answered_with_list one_record sent req"
  by (simp add: answered_with_list_def one_record_def)

text \<open>
  C1, as the code has it. Every envelope that the executor or a command returns is well
  formed: its data is not null and has a length, its metadata names the source and the
  action, and an envelope with an error has the empty list as its data. An envelope
  without an error that the executor returns, or that a command making one request
  returns, carries the \<open>data\<close> member of the payload that answered that very request,
  unchanged (the empty list when the payload has no such member). So the data is a list
  whenever the answer to that request was no payload at all or a payload whose \<open>data\<close>
  member is absent or a list, and is a string or an object when that member is one. The
  catalogue, the category listing, the search and the endpoint test always return a list.
\<close>

theorem envelopes_are_well_formed:
  "well_formed (fst (make_request env endpoint ps sent))
   \<and> well_formed (fst (execute env cmd sent))
   \<and> (error (fst (make_request env endpoint ps sent)) = None \<longrightarrow>
        passes_data_on env sent (BASE_URL @ ''/'' @ endpoint, sent_params ps, TIMEOUT)
          (fst (make_request env endpoint ps sent)))
   \<and> (answered_with_list env sent (BASE_URL @ ''/'' @ endpoint, sent_params ps, TIMEOUT) \<longrightarrow>
        is_list (data (fst (make_request env endpoint ps sent))))
   \<and> (\<forall>req. snd (execute env cmd sent) = sent @ [req] \<longrightarrow>
          error (fst (execute env cmd sent)) = None \<longrightarrow>
          passes_data_on env sent req (fst (execute env cmd sent)))
   \<and> ((\<forall>req. snd (execute env cmd sent) = sent @ [req] \<longrightarrow> answered_with_list env sent req)
        \<longrightarrow> is_list (data (fst (execute env cmd sent))))
   \<and> is_list (data (get_catalogue env))
   \<and> is_list (data (get_datasets_by_category env category))
   \<and> is_list (data (search_datasets env query))
   \<and> is_list (data (fst (test_endpoints env sent)))"
proof -
  have a: "well_formed (fst (make_request env endpoint ps sent))"
    by (rule make_request_well_formed)
  have b: "well_formed (fst (execute env cmd sent))"
    by (rule execute_well_formed)
  have c: "error (fst (make_request env endpoint ps sent)) = None \<longrightarrow>
        passes_data_on env sent (BASE_URL @ ''/'' @ endpoint, sent_params ps, TIMEOUT)
          (fst (make_request env endpoint ps sent))"
    by (rule impI) (rule make_request_passes)
  have d: "answered_with_list env sent (BASE_URL @ ''/'' @ endpoint, sent_params ps, TIMEOUT) \<longrightarrow>
        is_list (data (fst (make_request env endpoint ps sent)))"
    by (rule impI) (rule make_request_list)
  have e: "\<forall>req. snd (execute env cmd sent) = sent @ [req] \<longrightarrow>
          error (fst (execute env cmd sent)) = None \<longrightarrow>
          passes_data_on env sent req (fst (execute env cmd sent))"
    by (intro allI impI) (rule execute_passes)
  have f: "(\<forall>req. snd (execute env cmd sent) = sent @ [req] \<longrightarrow> answered_with_list env sent req)
        \<longrightarrow> is_list (data (fst (execute env cmd sent)))"
  proof
    assume h: "\<forall>req. snd (execute env cmd sent) = sent @ [req] \<longrightarrow> answered_with_list env sent req"
    show "is_list (data (fst (execute env cmd sent)))"
      by (rule execute_list) (use h in blast)
  qed
  show ?thesis
    by (intro conjI a b c d e f local_data_is_list test_endpoints_is_list)
qed

theorem envelopes_are_well_formed_witness:
  "snd (execute text_data (Debt None None) []) =
     [] @ [(BASE_URL @ ''/'' @ ''v2/accounting/od/debt_to_penny'',
            [(''page[size]'', JInt 500), (''page[number]'', JInt 1),
             (''fields'', JStr ''record_date,tot_pub_debt_out_amt''),
             (''sort'', JStr ''-record_date''), (''format'', JStr ''json'')],
            TIMEOUT)]
   \<and> error (fst (execute text_data (Debt None None) [])) = None
   \<and> passes_data_on text_data []
        (BASE_URL @ ''/'' @ ''v2/accounting/od/debt_to_penny'',
         [(''page[size]'', JInt 500), (''page[number]'', JInt 1),
          (''fields'', JStr ''record_date,tot_pub_debt_out_amt''),
          (''sort'', JStr ''-record_date''), (''format'', JStr ''json'')],
         TIMEOUT)
        (fst (execute text_data (Debt None None) []))
   \<and> data (fst (execute text_data (Debt None None) [])) = JStr ''abc''
   \<and> answered_with_list one_record []
        (BASE_URL @ ''/'' @ ''v2/accounting/od/debt_to_penny'',
         [(''page[size]'', JInt 500), (''page[number]'', JInt 1),
          (''fields'', JStr ''record_date,tot_pub_debt_out_amt''),
          (''sort'', JStr ''-record_date''), (''format'', JStr ''json'')],
         TIMEOUT)
   \<and> is_list (data (fst (execute one_record (Debt None None) [])))
   \<and> error (fst (execute unreachable (Debt None None) []))
       = Some ''Connection error. Unable to connect to API.''
   \<and> data (fst (execute unreachable (Debt None None) [])) = JArr []
   \<and> map_of (metadata (fst (execute unreachable (Debt None None) []))) ''source''
       = Some SOURCE"
proof -
  let ?req = "(BASE_URL @ ''/'' @ ''v2/accounting/od/debt_to_penny'',
         [(''page[size]'', JInt 500), (''page[number]'', JInt 1),
          (''fields'', JStr ''record_date,tot_pub_debt_out_amt''),
          (''sort'', JStr ''-record_date''), (''format'', JStr ''json'')],
         TIMEOUT)"
  have s: "snd (execute env (Debt None None) []) = [] @ [?req]" for env
    by (rule debt_sent)
  have t: "error (fst (execute text_data (Debt None None) [])) = None"
    and u: "data (fst (execute text_data (Debt None None) [])) = JStr ''abc''"
    using debt_text_data by blast+
  from envelopes_are_well_formed
         [where env = text_data and cmd = "Debt None None" and sent = "[]"]
  have "\<forall>req. snd (execute text_data (Debt None None) []) = [] @ [req] \<longrightarrow>
          error (fst (execute text_data (Debt None None) [])) = None \<longrightarrow>
          passes_data_on text_data [] req (fst (execute text_data (Debt None None) []))"
    by blast
  with s [of text_data] t
  have p: "passes_data_on text_data [] ?req (fst (execute text_data (Debt None None) []))"
    by blast
  have o: "answered_with_list one_record [] req" for req
    by (rule one_record_answers)
  from envelopes_are_well_formed
         [where env = one_record and cmd = "Debt None None" and sent = "[]"]
  have "(\<forall>req. snd (execute one_record (Debt None None) []) = [] @ [req]
            \<longrightarrow> answered_with_list one_record [] req)
        \<longrightarrow> is_list (data (fst (execute one_record (Debt None None) [])))"
    by blast
  with o have l: "is_list (data (fst (execute one_record (Debt None None) [])))"
    by blast
  have e: "error (fst (execute unreachable (Debt None None) []))
             = Some ''Connection error. Unable to connect to API.''"
    unfolding debt_unreachable by simp
  from envelopes_are_well_formed
         [where env = unreachable and cmd = "Debt None None" and sent = "[]"]
  have "well_formed (fst (execute unreachable (Debt None None) []))" by blast
  with e have b: "data (fst (execute unreachable (Debt None None) [])) = JArr []"
    and c: "map_of (metadata (fst (execute unreachable (Debt None None) []))) ''source''
              = Some SOURCE"
    unfolding well_formed_def by simp_all
  show ?thesis by (intro conjI s t p u o l e b c)
qed

text \<open>
  The claim C1 as stated fails: when the payload's \<open>data\<close> member is an object, the
  envelope has no error and its data is that object, which is not a sequence.
\<close>

theorem data_can_be_an_object:
  "error (fst (execute object_data (Debt None None) [])) = None
   \<and> data (fst (execute object_data (Debt None None) [])) = JObj [(''a'', JInt 1)]
   \<and> is_list (data (fst (execute object_data (Debt None None) []))) = False"
  unfolding debt_object_data by simp

text \<open>
  C2, as the code has it. An envelope without an error that the executor returns, or
  that any command other than \<open>test\<close> returns, has a \<open>count\<close> in its metadata that is
  the length of its data. The envelope of \<open>test_endpoints\<close> never has an error and
  never has a \<open>count\<close>: its five entries are counted under \<open>total_tests\<close>.
\<close>

theorem count_is_length_of_data:
  "(error (fst (make_request env endpoint ps sent)) = None
      \<longrightarrow> count_matches (fst (make_request env endpoint ps sent)))
   \<and> (cmd \<noteq> Test \<longrightarrow> error (fst (execute env cmd sent)) = None
      \<longrightarrow> count_matches (fst (execute env cmd sent)))
   \<and> error (fst (test_endpoints env sent)) = None
   \<and> map_of (metadata (fst (test_endpoints env sent))) ''count'' = None
   \<and> map_of (metadata (fst (test_endpoints env sent))) ''total_tests'' = Some (JInt 5)
   \<and> py_len (data (fst (test_endpoints env sent))) = Inr 5"
  using make_request_count [of env endpoint ps sent] execute_count [of cmd env sent]
    test_endpoints_no_count [of env sent]
  by blast

theorem count_is_length_of_data_witness:
  "Debt None None \<noteq> Test
   \<and> error (fst (execute one_record (Debt None None) [])) = None
   \<and> count_matches (fst (execute one_record (Debt None None) []))
   \<and> py_len (data (fst (execute one_record (Debt None None) []))) = Inr 1
   \<and> map_of (metadata (fst (execute one_record (Debt None None) []))) ''count''
       = Some (JInt 1)"
proof -
  have d: "Debt None None \<noteq> Test" by simp
  from debt_one_record
  have e: "error (fst (execute one_record (Debt None None) [])) = None"
    and l: "py_len (data (fst (execute one_record (Debt None None) []))) = Inr 1"
    and c: "map_of (metadata (fst (execute one_record (Debt None None) []))) ''count''
       = Some (JInt 1)"
    by simp_all
  from count_is_length_of_data
         [where env = one_record and cmd = "Debt None None" and sent = "[]"] d e
  have "count_matches (fst (execute one_record (Debt None None) []))" by blast
  with d e l c show ?thesis by blast
qed

text \<open>
  The claim C2 as stated fails for the endpoint test: with the service out of reach its
  envelope has no error, five entries and no \<open>count\<close>.
\<close>

theorem endpoint_test_has_no_count:
  "error (fst (execute unreachable Test [])) = None
   \<and> py_len (data (fst (execute unreachable Test []))) = Inr 5
   \<and> map_of (metadata (fst (execute unreachable Test []))) ''count'' = None"
  using test_endpoints_no_count [of unreachable "[]"] by simp

subsection \<open>The named data series\<close>

lemma map_of_set_if_given:
  "map_of (set_if_given k v ps) =
     (case v of None \<Rightarrow> map_of ps
      | Some s \<Rightarrow> if s = [] then map_of ps else (map_of ps)(k \<mapsto> JStr s))"
  by (simp add: set_if_given_def update_conv' split: option.splits)

lemma get_dataset_data_request:
  "\<exists>ps. snd (get_dataset_data env endpoint fields_arg filter_arg sort_arg page_size page_number sent)
          = sent @ [(BASE_URL @ ''/'' @ endpoint, ps, TIMEOUT)]
      \<and> map_of ps ''page[size]'' = Some (JInt page_size)
      \<and> map_of ps ''page[number]'' = Some (JInt page_number)
      \<and> map_of ps ''format'' = Some (JStr ''json'')
      \<and> map_of ps ''fields'' = (if given fields_arg then map_option JStr fields_arg else None)
      \<and> map_of ps ''filter'' = (if given filter_arg then map_option JStr filter_arg else None)
      \<and> map_of ps ''sort'' = (if given sort_arg then map_option JStr sort_arg else None)"
  by (cases fields_arg; cases filter_arg; cases sort_arg)
     (simp_all add: get_dataset_data_def make_request_log map_of_set_if_given update_conv')

lemma series_request:
  "sends_one_request sent
     (snd (get_dataset_data env path field_list (Some filter_text) (Some ''-record_date'')
             500 1 sent))
     path (if given field_list then field_list else None) filter_text"
  using get_dataset_data_request
          [of env path field_list "Some filter_text" "Some ''-record_date''" 500 1 sent]
  unfolding sends_one_request_def by auto

text \<open>
  C6, as the code has it. Each of the four accessors for a named series makes exactly
  one request through the executor, to its own fixed path, with the page size 500, the
  sort order \<open>-record_date\<close> (most recent first) and the date filter built from its
  arguments. Only the debt series sends a field list; the other three send none.
\<close>

theorem named_series_requests:
  "sends_one_request sent (snd (get_debt_to_penny env start_date end_date sent))
     ''v2/accounting/od/debt_to_penny'' (Some ''record_date,tot_pub_debt_out_amt'')
     (filter_expr start_date end_date)
   \<and> sends_one_request sent (snd (get_treasury_yield_rates env start_date end_date sent))
     ''v2/accounting/od/avg_interest_rates'' None (filter_expr start_date end_date)
   \<and> sends_one_request sent (snd (get_monthly_treasury_statement env start_date end_date sent))
     ''v2/revenue/rc/collections'' None (filter_expr start_date end_date)
   \<and> sends_one_request sent (snd (get_interest_expense env start_date end_date sent))
     ''v2/debt/ie/ie_bpd'' None (filter_expr start_date end_date)"
proof (intro conjI)
  show "sends_one_request sent (snd (get_debt_to_penny env start_date end_date sent))
     ''v2/accounting/od/debt_to_penny'' (Some ''record_date,tot_pub_debt_out_amt'')
     (filter_expr start_date end_date)"
    unfolding get_debt_to_penny_def Let_def
    using series_request [of sent env "''v2/accounting/od/debt_to_penny''"
            "Some ''record_date,tot_pub_debt_out_amt''" "filter_expr start_date end_date"]
    by simp
  show "sends_one_request sent (snd (get_treasury_yield_rates env start_date end_date sent))
     ''v2/accounting/od/avg_interest_rates'' None (filter_expr start_date end_date)"
    unfolding get_treasury_yield_rates_def
    using series_request [of sent env "''v2/accounting/od/avg_interest_rates''" None
            "filter_expr start_date end_date"]
    by simp
  show "sends_one_request sent (snd (get_monthly_treasury_statement env start_date end_date sent))
     ''v2/revenue/rc/collections'' None (filter_expr start_date end_date)"
    unfolding get_monthly_treasury_statement_def
    using series_request [of sent env "''v2/revenue/rc/collections''" None
            "filter_expr start_date end_date"]
    by simp
  show "sends_one_request sent (snd (get_interest_expense env start_date end_date sent))
     ''v2/debt/ie/ie_bpd'' None (filter_expr start_date end_date)"
    unfolding get_interest_expense_def
    using series_request [of sent env "''v2/debt/ie/ie_bpd''" None
            "filter_expr start_date end_date"]
    by simp
qed

text \<open>
  The claim C6 as stated fails: the request of the yield-rate series carries no
  \<open>fields\<close> parameter, so it has no preset field list.
\<close>

theorem yield_rates_send_no_field_list:
  "snd (get_treasury_yield_rates unreachable None None []) =
     [(''https://api.fiscaldata.treasury.gov/services/api/fiscal_service/v2/accounting/od/avg_interest_rates'',
       [(''page[size]'', JInt 500), (''page[number]'', JInt 1),
        (''sort'', JStr ''-record_date''), (''format'', JStr ''json'')], 30)]
   \<and> map_of [(''page[size]'', JInt 500), (''page[number]'', JInt 1),
             (''sort'', JStr ''-record_date''), (''format'', JStr ''json'')] ''fields''
       = None"
  by (simp add: no_dates_calls make_request_log BASE_URL_def TIMEOUT_def)

section \<open>Properties of the CKAN test harness\<close>

subsection \<open>The integrated workflow\<close>










text \<open>The workflow, one stage at a time.\<close>

lemma workflow_search_raises:
  "orc hist (SearchDatasets ''us'' ''climate'' 3) = Raises \<Longrightarrow>
     test_integrated_workflow orc countries hist =
       (False, hist @ [SearchDatasets ''us'' ''climate'' 3])"
  by (simp add: test_integrated_workflow_def call_def Let_def)

lemma workflow_search_stops:
  "orc hist (SearchDatasets ''us'' ''climate'' 3) = Returns r1 \<Longrightarrow>
   search_step r1 = Inl e \<or> search_step r1 = Inr None \<Longrightarrow>
     test_integrated_workflow orc countries hist =
       (False, hist @ [SearchDatasets ''us'' ''climate'' 3])"
  by (auto simp: test_integrated_workflow_def call_def Let_def)

lemma workflow_details_raises:
  "orc hist (SearchDatasets ''us'' ''climate'' 3) = Returns r1 \<Longrightarrow>
   search_step r1 = Inr (Some n) \<Longrightarrow>
   orc (hist @ [SearchDatasets ''us'' ''climate'' 3]) (GetDatasetDetails ''us'' n) = Raises \<Longrightarrow>
     test_integrated_workflow orc countries hist =
       (False, hist @ [SearchDatasets ''us'' ''climate'' 3, GetDatasetDetails ''us'' n])"
  by (simp add: test_integrated_workflow_def call_def Let_def)

lemma workflow_details_stops:
  "orc hist (SearchDatasets ''us'' ''climate'' 3) = Returns r1 \<Longrightarrow>
   search_step r1 = Inr (Some n) \<Longrightarrow>
   orc (hist @ [SearchDatasets ''us'' ''climate'' 3]) (GetDatasetDetails ''us'' n) = Returns r2 \<Longrightarrow>
   details_step r2 = Inl e \<or> details_step r2 = Inr None \<Longrightarrow>
     test_integrated_workflow orc countries hist =
       (False, hist @ [SearchDatasets ''us'' ''climate'' 3, GetDatasetDetails ''us'' n])"
  by (auto simp: test_integrated_workflow_def call_def Let_def)

lemma workflow_resources_raises:
  "orc hist (SearchDatasets ''us'' ''climate'' 3) = Returns r1 \<Longrightarrow>
   search_step r1 = Inr (Some n) \<Longrightarrow>
   orc (hist @ [SearchDatasets ''us'' ''climate'' 3]) (GetDatasetDetails ''us'' n) = Returns r2 \<Longrightarrow>
   details_step r2 = Inr (Some details) \<Longrightarrow>
   orc (hist @ [SearchDatasets ''us'' ''climate'' 3, GetDatasetDetails ''us'' n])
     (GetDatasetResources ''us'' n) = Raises \<Longrightarrow>
     test_integrated_workflow orc countries hist =
       (False, hist @ [SearchDatasets ''us'' ''climate'' 3, GetDatasetDetails ''us'' n,
                       GetDatasetResources ''us'' n])"
  by (simp add: test_integrated_workflow_def call_def Let_def)

lemma workflow_resources_stops:
  "orc hist (SearchDatasets ''us'' ''climate'' 3) = Returns r1 \<Longrightarrow>
   search_step r1 = Inr (Some n) \<Longrightarrow>
   orc (hist @ [SearchDatasets ''us'' ''climate'' 3]) (GetDatasetDetails ''us'' n) = Returns r2 \<Longrightarrow>
   details_step r2 = Inr (Some details) \<Longrightarrow>
   orc (hist @ [SearchDatasets ''us'' ''climate'' 3, GetDatasetDetails ''us'' n])
     (GetDatasetResources ''us'' n) = Returns r3 \<Longrightarrow>
   resources_step details r3 = Inl e \<or> resources_step details r3 = Inr None \<Longrightarrow>
     test_integrated_workflow orc countries hist =
       (False, hist @ [SearchDatasets ''us'' ''climate'' 3, GetDatasetDetails ''us'' n,
                       GetDatasetResources ''us'' n])"
  by (auto simp: test_integrated_workflow_def call_def Let_def)

lemma workflow_no_organization:
  "orc hist (SearchDatasets ''us'' ''climate'' 3) = Returns r1 \<Longrightarrow>
   search_step r1 = Inr (Some n) \<Longrightarrow>
   orc (hist @ [SearchDatasets ''us'' ''climate'' 3]) (GetDatasetDetails ''us'' n) = Returns r2 \<Longrightarrow>
   details_step r2 = Inr (Some details) \<Longrightarrow>
   orc (hist @ [SearchDatasets ''us'' ''climate'' 3, GetDatasetDetails ''us'' n])
     (GetDatasetResources ''us'' n) = Returns r3 \<Longrightarrow>
   resources_step details r3 = Inr (Some org_name) \<Longrightarrow> \<not> truthy org_name \<Longrightarrow>
     test_integrated_workflow orc countries hist =
       (True, hist @ [SearchDatasets ''us'' ''climate'' 3, GetDatasetDetails ''us'' n,
                      GetDatasetResources ''us'' n])"
  by (simp add: test_integrated_workflow_def call_def Let_def)

lemma workflow_organization:
  "orc hist (SearchDatasets ''us'' ''climate'' 3) = Returns r1 \<Longrightarrow>
   search_step r1 = Inr (Some n) \<Longrightarrow>
   orc (hist @ [SearchDatasets ''us'' ''climate'' 3]) (GetDatasetDetails ''us'' n) = Returns r2 \<Longrightarrow>
   details_step r2 = Inr (Some details) \<Longrightarrow>
   orc (hist @ [SearchDatasets ''us'' ''climate'' 3, GetDatasetDetails ''us'' n])
     (GetDatasetResources ''us'' n) = Returns r3 \<Longrightarrow>
   resources_step details r3 = Inr (Some org_name) \<Longrightarrow> truthy org_name \<Longrightarrow>
     test_integrated_workflow orc countries hist =
       ((case orc (hist @ [SearchDatasets ''us'' ''climate'' 3, GetDatasetDetails ''us'' n,
                           GetDatasetResources ''us'' n])
                  (GetOrganizationDetails ''us'' org_name) of
           Raises \<Rightarrow> False
         | Returns r4 \<Rightarrow> (case organization_step r4 of Inl e \<Rightarrow> False | Inr u \<Rightarrow> True)),
        hist @ [SearchDatasets ''us'' ''climate'' 3, GetDatasetDetails ''us'' n,
                GetDatasetResources ''us'' n, GetOrganizationDetails ''us'' org_name])"
  by (simp add: test_integrated_workflow_def call_def Let_def split: response.splits sum.splits)

lemma workflow_shape:
  "\<exists>k n org_name. 1 \<le> k \<and> k \<le> 4
     \<and> snd (test_integrated_workflow orc countries hist) = hist @ take k (workflow_calls n org_name)
     \<and> (fst (test_integrated_workflow orc countries hist) \<longrightarrow> 3 \<le> k)"
proof -
  let ?W = "test_integrated_workflow orc countries hist"
  let ?s = "SearchDatasets ''us'' ''climate'' 3"
  have stop: ?thesis
    if "?W = (b, hist @ take k (workflow_calls n org_name))" "1 \<le> k" "k \<le> 4" "b \<longrightarrow> 3 \<le> k"
    for b k n org_name
    using that by (intro exI [of _ k] exI [of _ n] exI [of _ org_name]) simp
  show ?thesis
  proof (cases "orc hist ?s")
    case Raises
    then have "?W = (False, hist @ take 1 (workflow_calls JNull JNull))"
      by (simp add: workflow_search_raises workflow_calls_def)
    then show ?thesis by (rule stop) simp_all
  next
    case r1: (Returns r1)
    show ?thesis
    proof (cases "\<exists>n. search_step r1 = Inr (Some n)")
      case False
      then have "search_step r1 = Inl (projl (search_step r1)) \<or> search_step r1 = Inr None"
        by (cases "search_step r1") auto
      with r1 have "?W = (False, hist @ take 1 (workflow_calls JNull JNull))"
        by (simp add: workflow_search_stops workflow_calls_def)
      then show ?thesis by (rule stop) simp_all
    next
      case True
      then obtain n where n: "search_step r1 = Inr (Some n)" by blast
      let ?d = "GetDatasetDetails ''us'' n"
      show ?thesis
      proof (cases "orc (hist @ [?s]) ?d")
        case Raises
        with r1 n have "?W = (False, hist @ take 2 (workflow_calls n JNull))"
          by (simp add: workflow_details_raises workflow_calls_def)
        then show ?thesis by (rule stop) simp_all
      next
        case r2: (Returns r2)
        show ?thesis
        proof (cases "\<exists>details. details_step r2 = Inr (Some details)")
          case False
          then have "details_step r2 = Inl (projl (details_step r2)) \<or> details_step r2 = Inr None"
            by (cases "details_step r2") auto
          with r1 n r2 have "?W = (False, hist @ take 2 (workflow_calls n JNull))"
            by (simp add: workflow_details_stops workflow_calls_def)
          then show ?thesis by (rule stop) simp_all
        next
          case True
          then obtain details where d: "details_step r2 = Inr (Some details)" by blast
          let ?r = "GetDatasetResources ''us'' n"
          show ?thesis
          proof (cases "orc (hist @ [?s, ?d]) ?r")
            case Raises
            with r1 n r2 d have "?W = (False, hist @ take 3 (workflow_calls n JNull))"
              by (simp add: workflow_resources_raises workflow_calls_def)
            then show ?thesis by (rule stop) simp_all
          next
            case r3: (Returns r3)
            show ?thesis
            proof (cases "\<exists>org_name. resources_step details r3 = Inr (Some org_name)")
              case False
              then have "resources_step details r3 = Inl (projl (resources_step details r3))
                           \<or> resources_step details r3 = Inr None"
                by (cases "resources_step details r3") auto
              with r1 n r2 d r3 have "?W = (False, hist @ take 3 (workflow_calls n JNull))"
                by (simp add: workflow_resources_stops workflow_calls_def)
              then show ?thesis by (rule stop) simp_all
            next
              case True
              then obtain org_name where o: "resources_step details r3 = Inr (Some org_name)"
                by blast
              show ?thesis
              proof (cases "truthy org_name")
                case False
                with r1 n r2 d r3 o
                have "?W = (True, hist @ take 3 (workflow_calls n org_name))"
                  by (simp add: workflow_no_organization workflow_calls_def)
                then show ?thesis by (rule stop) simp_all
              next
                case True
                from workflow_organization [OF r1 n r2 d r3 o True]
                have "\<exists>b. ?W = (b, hist @ take 4 (workflow_calls n org_name))"
                  by (simp add: workflow_calls_def)
                then obtain b where "?W = (b, hist @ take 4 (workflow_calls n org_name))"
                  by blast
                then show ?thesis by (rule stop) simp_all
              qed
            qed
          qed
        qed
      qed
    qed
  qed
qed










subsection \<open>Rates, the assessment and the exit status\<close>

lemma length_filter_all: "length (filter P xs) = length xs \<longleftrightarrow> (\<forall>x\<in>set xs. P x)"
proof
  assume e: "length (filter P xs) = length xs"
  show "\<forall>x\<in>set xs. P x"
  proof (rule ccontr)
    assume "\<not> (\<forall>x\<in>set xs. P x)"
    then obtain x where "x \<in> set xs" "\<not> P x" by blast
    then have "length (filter P xs) < length xs" by (rule length_filter_less)
    with e show False by simp
  qed
next
  assume "\<forall>x\<in>set xs. P x"
  then have "filter P xs = xs" by (simp add: filter_id_conv)
  then show "length (filter P xs) = length xs" by simp
qed

lemma success_rate_Some:
  "success_rate results = Some x \<longleftrightarrow>
     results \<noteq> []
     \<and> x = of_nat (length (filter snd results)) / of_nat (length results) * 100"
  by (auto simp: success_rate_def)

lemma success_rate_100:
  assumes "success_rate results = Some x"
  shows "x = 100 \<longleftrightarrow> (\<forall>e\<in>set results. snd e)"
proof -
  from assms have n: "results \<noteq> []"
    and x: "x = of_nat (length (filter snd results)) / of_nat (length results) * 100"
    by (simp_all add: success_rate_Some)
  from n have p: "(of_nat (length results) :: rat) > 0" by simp
  have "x = 100 \<longleftrightarrow> (of_nat (length (filter snd results)) :: rat) = of_nat (length results)"
    unfolding x using p by (simp add: field_simps)
  also have "\<dots> \<longleftrightarrow> length (filter snd results) = length results"
    by (rule of_nat_eq_iff)
  also have "\<dots> \<longleftrightarrow> (\<forall>e\<in>set results. snd e)" by (rule length_filter_all)
  finally show ?thesis .
qed

lemma success_rate_50:
  assumes "success_rate results = Some x"
  shows "50 \<le> x \<longleftrightarrow> length results \<le> 2 * length (filter snd results)"
proof -
  from assms have n: "results \<noteq> []"
    and x: "x = of_nat (length (filter snd results)) / of_nat (length results) * 100"
    by (simp_all add: success_rate_Some)
  from n have p: "(of_nat (length results) :: rat) > 0" by simp
  have "50 \<le> x \<longleftrightarrow>
        (of_nat (length results) :: rat) \<le> of_nat (2 * length (filter snd results))"
    unfolding x using p by (simp add: field_simps)
  also have "\<dots> \<longleftrightarrow> length results \<le> 2 * length (filter snd results)"
    by (rule of_nat_le_iff)
  finally show ?thesis .
qed

lemma one_decimal_near: "\<bar>one_decimal x - x\<bar> \<le> 1 / 20"
proof -
  define t where "t = x * 10"
  define f where "f = \<lfloor>t\<rfloor>"
  have a: "of_int f \<le> t" unfolding f_def by (rule of_int_floor_le)
  have b: "t < of_int f + 1" unfolding f_def by linarith
  have d: "one_decimal x =
      (if t - of_int f < 1 / 2 then of_int f
       else if t - of_int f > 1 / 2 then of_int (f + 1)
       else if even f then of_int f else of_int (f + 1)) / 10"
    unfolding one_decimal_def Let_def t_def f_def by (rule refl)
  have "\<exists>g. one_decimal x = of_int g / 10 \<and> \<bar>of_int g - t\<bar> \<le> 1 / 2"
  proof (cases "t - of_int f < 1 / 2")
    case True
    with a d have "one_decimal x = of_int f / 10 \<and> \<bar>of_int f - t\<bar> \<le> 1 / 2" by simp
    then show ?thesis by blast
  next
    case False
    show ?thesis
    proof (cases "t - of_int f > 1 / 2 \<or> odd f")
      case True
      with False d have "one_decimal x = of_int (f + 1) / 10" by auto
      moreover from False b have "\<bar>of_int (f + 1) - t\<bar> \<le> 1 / 2" by simp
      ultimately show ?thesis by blast
    next
      case g: False
      with False d have "one_decimal x = of_int f / 10" by auto
      moreover from False g a have "\<bar>of_int f - t\<bar> \<le> 1 / 2" by simp
      ultimately show ?thesis by blast
    qed
  qed
  then obtain g where g: "one_decimal x = of_int g / 10" "\<bar>of_int g - t\<bar> \<le> 1 / 2"
    by blast
  have e: "one_decimal x - x = (of_int g - t) / 10" unfolding g(1) t_def by simp
  have "\<bar>one_decimal x - x\<bar> = \<bar>of_int g - t\<bar> / 10" unfolding e by simp
  with g(2) show ?thesis by simp
qed

lemma one_decimal_tenths: "one_decimal x * 10 \<in> \<int>"
  by (simp add: one_decimal_def Let_def)

lemma assess_cases:
  "assess rate workflow = AllPassed \<longleftrightarrow> rate = 100 \<and> workflow"
  "assess rate workflow = PartiallyWorking \<longleftrightarrow> \<not> (rate = 100 \<and> workflow) \<and> 50 \<le> rate"
  "assess rate workflow = MostlyFailed \<longleftrightarrow> rate < 50"
  by (auto simp: assess_def)

text \<open>The run, given what its parts return.\<close>

lemma run_all_tests_unfold:
  assumes "test_supported_countries orc hist = (outcome, h1)"
    and "test_portal_connections orc
          (case countries0 of None \<Rightarrow> ALL_COUNTRIES | Some cs \<Rightarrow> cs) fast_mode h1 = (conn, h2)"
    and "run_groups orc (map fst (filter snd conn)) fast_mode h2 =
          ((orgs, dsets, ress, workflow), (oc, dc, rc), h6)"
  shows "run_all_tests orc countries0 fast_mode hist =
      (case outcome of
         None \<Rightarrow> (None, h1)
       | Some supported \<Rightarrow>
           (case success_rate conn of
              None \<Rightarrow> (None, h6)
            | Some rate \<Rightarrow>
                (case (if map fst (filter snd conn) \<noteq> [] then
                         (case (success_rate orgs, success_rate dsets, success_rate ress) of
                            (Some r1, Some r2, Some r3) \<Rightarrow> Some (Some (r1, r2, r3))
                          | _ \<Rightarrow> None)
                       else Some None) of
                   None \<Rightarrow> (None, h6)
                 | Some group_rates \<Rightarrow>
                     (Some \<lparr>supported_countries = supported, connections = conn,
                            organizations = orgs, datasets = dsets, resources = ress,
                            integrated_workflow = workflow,
                            organization_calls = oc, dataset_calls = dc, resource_calls = rc,
                            connection_success_rate = rate, group_success_rates = group_rates,
                            printed_rates =
                              one_decimal rate #
                              (case group_rates of None \<Rightarrow> []
                               | Some (r1, r2, r3) \<Rightarrow>
                                   [one_decimal r1, one_decimal r2, one_decimal r3]),
                            assessed = assess rate workflow,
                            returned = (assess rate workflow = AllPassed)\<rparr>,
                      h6))))"
  unfolding run_all_tests_def Let_def assms prod.case by (rule refl)

text \<open>What a run that reaches its end went through.\<close>

lemma run_all_tests_Some:
  assumes "run_all_tests orc countries0 fast_mode hist = (Some r, h)"
  shows "\<exists>supported h1 conn h2 orgs dsets ress workflow oc dc rc rate group_rates.
      test_supported_countries orc hist = (Some supported, h1)
    \<and> test_portal_connections orc
          (case countries0 of None \<Rightarrow> ALL_COUNTRIES | Some cs \<Rightarrow> cs) fast_mode h1 = (conn, h2)
    \<and> run_groups orc (map fst (filter snd conn)) fast_mode h2 =
          ((orgs, dsets, ress, workflow), (oc, dc, rc), h)
    \<and> success_rate conn = Some rate
    \<and> (case group_rates of
          None \<Rightarrow> filter snd conn = []
        | Some (r1, r2, r3) \<Rightarrow>
            filter snd conn \<noteq> [] \<and> success_rate orgs = Some r1
            \<and> success_rate dsets = Some r2 \<and> success_rate ress = Some r3)
    \<and> r = \<lparr>supported_countries = supported, connections = conn, organizations = orgs,
             datasets = dsets, resources = ress, integrated_workflow = workflow,
             organization_calls = oc, dataset_calls = dc, resource_calls = rc,
             connection_success_rate = rate, group_success_rates = group_rates,
             printed_rates =
               one_decimal rate #
               (case group_rates of None \<Rightarrow> []
                | Some (r1, r2, r3) \<Rightarrow> [one_decimal r1, one_decimal r2, one_decimal r3]),
             assessed = assess rate workflow,
             returned = (assess rate workflow = AllPassed)\<rparr>"
proof -
  let ?cs = "case countries0 of None \<Rightarrow> ALL_COUNTRIES | Some cs \<Rightarrow> cs"
  obtain outcome h1 where s: "test_supported_countries orc hist = (outcome, h1)"
    by (cases "test_supported_countries orc hist")
  obtain conn h2 where c: "test_portal_connections orc ?cs fast_mode h1 = (conn, h2)"
    by (cases "test_portal_connections orc ?cs fast_mode h1")
  obtain orgs dsets ress workflow oc dc rc h6 where
    g: "run_groups orc (map fst (filter snd conn)) fast_mode h2 =
          ((orgs, dsets, ress, workflow), (oc, dc, rc), h6)"
    by (cases "run_groups orc (map fst (filter snd conn)) fast_mode h2") auto
  let ?rates = "if map fst (filter snd conn) \<noteq> [] then
              (case (success_rate orgs, success_rate dsets, success_rate ress) of
                 (Some r1, Some r2, Some r3) \<Rightarrow> Some (Some (r1, r2, r3))
               | _ \<Rightarrow> None)
            else Some None"
  note run = run_all_tests_unfold [OF s c g]
  from assms run obtain supported where outcome: "outcome = Some supported"
    by (cases outcome) simp_all
  from assms run outcome obtain rate where rate: "success_rate conn = Some rate"
    by (cases "success_rate conn") simp_all
  from assms run outcome rate obtain group_rates where gr: "?rates = Some group_rates"
    by (cases ?rates) simp_all
  from assms run have rh: "r = \<lparr>supported_countries = supported, connections = conn,
                            organizations = orgs, datasets = dsets, resources = ress,
                            integrated_workflow = workflow,
                            organization_calls = oc, dataset_calls = dc, resource_calls = rc,
                            connection_success_rate = rate, group_success_rates = group_rates,
                            printed_rates =
                              one_decimal rate #
                              (case group_rates of None \<Rightarrow> []
                               | Some (r1, r2, r3) \<Rightarrow>
                                   [one_decimal r1, one_decimal r2, one_decimal r3]),
                            assessed = assess rate workflow,
                            returned = (assess rate workflow = AllPassed)\<rparr>"
    and h: "h = h6"
    unfolding outcome rate gr by simp_all
  from gr have "case group_rates of
          None \<Rightarrow> filter snd conn = []
        | Some (r1, r2, r3) \<Rightarrow>
            filter snd conn \<noteq> [] \<and> success_rate orgs = Some r1
            \<and> success_rate dsets = Some r2 \<and> success_rate ress = Some r3"
    by (auto split: if_splits option.splits)
  with s c g rate rh show ?thesis unfolding outcome h by blast
qed

lemma run_all_tests_report:
  assumes "run_all_tests orc countries0 fast_mode hist = (Some r, h)"
  shows "success_rate (connections r) = Some (connection_success_rate r)"
    and "assessed r = assess (connection_success_rate r) (integrated_workflow r)"
    and "returned r \<longleftrightarrow> assessed r = AllPassed"
    and "printed_rates r =
           map one_decimal
             (connection_success_rate r #
              (case group_success_rates r of None \<Rightarrow> []
               | Some (r1, r2, r3) \<Rightarrow> [r1, r2, r3]))"
    and "case group_success_rates r of
           None \<Rightarrow> filter snd (connections r) = []
         | Some (r1, r2, r3) \<Rightarrow>
             success_rate (organizations r) = Some r1
             \<and> success_rate (datasets r) = Some r2
             \<and> success_rate (resources r) = Some r3"
    and "\<exists>h1 h2. test_portal_connections orc
                    (case countries0 of None \<Rightarrow> ALL_COUNTRIES | Some cs \<Rightarrow> cs) fast_mode h1
                  = (connections r, h2)"
proof -
  from run_all_tests_Some [OF assms]
  obtain supported h1 conn h2 orgs dsets ress workflow oc dc rc rate group_rates where
      c: "test_portal_connections orc
          (case countries0 of None \<Rightarrow> ALL_COUNTRIES | Some cs \<Rightarrow> cs) fast_mode h1 = (conn, h2)"
    and rate: "success_rate conn = Some rate"
    and gr: "case group_rates of
          None \<Rightarrow> filter snd conn = []
        | Some (r1, r2, r3) \<Rightarrow>
            filter snd conn \<noteq> [] \<and> success_rate orgs = Some r1
            \<and> success_rate dsets = Some r2 \<and> success_rate ress = Some r3"
    and r: "r = \<lparr>supported_countries = supported, connections = conn, organizations = orgs,
             datasets = dsets, resources = ress, integrated_workflow = workflow,
             organization_calls = oc, dataset_calls = dc, resource_calls = rc,
             connection_success_rate = rate, group_success_rates = group_rates,
             printed_rates =
               one_decimal rate #
               (case group_rates of None \<Rightarrow> []
                | Some (r1, r2, r3) \<Rightarrow> [one_decimal r1, one_decimal r2, one_decimal r3]),
             assessed = assess rate workflow,
             returned = (assess rate workflow = AllPassed)\<rparr>"
    by blast
  show "success_rate (connections r) = Some (connection_success_rate r)"
    unfolding r using rate by simp
  show "assessed r = assess (connection_success_rate r) (integrated_workflow r)"
    unfolding r by simp
  show "returned r \<longleftrightarrow> assessed r = AllPassed"
    unfolding r by simp
  show "printed_rates r =
           map one_decimal
             (connection_success_rate r #
              (case group_success_rates r of None \<Rightarrow> []
               | Some (r1, r2, r3) \<Rightarrow> [r1, r2, r3]))"
    unfolding r by (simp split: option.splits)
  show "case group_success_rates r of
           None \<Rightarrow> filter snd (connections r) = []
         | Some (r1, r2, r3) \<Rightarrow>
             success_rate (organizations r) = Some r1
             \<and> success_rate (datasets r) = Some r2
             \<and> success_rate (resources r) = Some r3"
    unfolding r using gr by (auto split: option.splits prod.splits)
  show "\<exists>h1 h2. test_portal_connections orc
                    (case countries0 of None \<Rightarrow> ALL_COUNTRIES | Some cs \<Rightarrow> cs) fast_mode h1
                  = (connections r, h2)"
    unfolding r using c by auto
qed

lemma run_all_tests_workflow:
  assumes "run_all_tests orc countries0 fast_mode hist = (Some r, h)"
  shows "\<exists>h5. integrated_workflow r =
                (filter snd (connections r) \<noteq> []
                 \<and> fst (test_integrated_workflow orc (map fst (filter snd (connections r))) h5))"
proof -
  from run_all_tests_Some [OF assms]
  obtain conn h2 orgs dsets ress workflow oc dc rc where
      g: "run_groups orc (map fst (filter snd conn)) fast_mode h2 =
          ((orgs, dsets, ress, workflow), (oc, dc, rc), h)"
    and r: "connections r = conn" "integrated_workflow r = workflow"
    by auto
  have "\<exists>h5. workflow =
          (filter snd conn \<noteq> []
           \<and> fst (test_integrated_workflow orc (map fst (filter snd conn)) h5))"
  proof (cases "filter snd conn = []")
    case True
    with g show ?thesis by (simp add: run_groups_def)
  next
    case False
    with g have "\<exists>h5. workflow =
          fst (test_integrated_workflow orc (map fst (filter snd conn)) h5)"
      by (auto simp: run_groups_def split: prod.splits) (metis fst_conv)
    with False show ?thesis by simp
  qed
  with r show ?thesis by simp
qed

lemma main_exit:
  assumes "selected =
     (if List.member argv ''--country'' \<and> index_of ''--country'' argv + 1 < length argv
      then Some [lower (argv ! (index_of ''--country'' argv + 1))] else None)"
  shows "fst (main orc argv hist) = 0 \<longleftrightarrow>
           (\<forall>c. selected = Some [c] \<longrightarrow> List.member ALL_COUNTRIES c)
           \<and> (\<exists>r h. run_all_tests orc selected (List.member argv ''--fast'') hist = (Some r, h)
                  \<and> returned r)"
proof -
  let ?run = "run_all_tests orc selected (List.member argv ''--fast'') hist"
  have m: "main orc argv hist =
      (if (case selected of Some cs \<Rightarrow> \<not> List.member ALL_COUNTRIES (cs ! 0) | None \<Rightarrow> False)
       then (1, hist)
       else (case ?run of
               (None, hist') \<Rightarrow> (1, hist')
             | (Some report, hist') \<Rightarrow> (if returned report then 0 else 1, hist')))"
    unfolding main_def Let_def assms by (simp split: if_splits)
  show ?thesis
  proof (cases "\<forall>c. selected = Some [c] \<longrightarrow> List.member ALL_COUNTRIES c")
    case False
    then obtain c where "selected = Some [c]" "\<not> List.member ALL_COUNTRIES c" by blast
    with m have "main orc argv hist = (1, hist)" by simp
    with False show ?thesis by simp
  next
    case True
    have "\<not> (case selected of Some cs \<Rightarrow> \<not> List.member ALL_COUNTRIES (cs ! 0) | None \<Rightarrow> False)"
    proof (cases selected)
      case None
      then show ?thesis by simp
    next
      case (Some cs)
      with assms obtain c where "cs = [c]" by (auto split: if_splits)
      with Some True show ?thesis by simp
    qed
    with m have e: "main orc argv hist =
        (case ?run of
           (None, hist') \<Rightarrow> (1, hist')
         | (Some report, hist') \<Rightarrow> (if returned report then 0 else 1, hist'))"
      by simp
    obtain res h where run: "?run = (res, h)" by (cases ?run)
    show ?thesis
    proof (cases res)
      case None
      with e run True show ?thesis by simp
    next
      case (Some r)
      with e run True show ?thesis by simp
    qed
  qed
qed

lemma main_exit_status: "fst (main orc argv hist) = 0 \<or> fst (main orc argv hist) = 1"
  by (simp add: main_def Let_def split: prod.splits option.splits)

lemma lower_US: "lower ''US'' = ''us''"
  by code_simp

text \<open>
  C9. A run that reaches its end has tested at least one connection. Each rate is the
  number of passed entries divided by the number of entries, times 100, and is printed
  to the nearest tenth. The run returns true exactly when the connection rate is 100,
  that is when every connection test passed, and the integrated workflow passed; it is
  assessed as partially working when it does not return true and the connection rate is
  at least 50, that is when at least half of the connection tests passed, and as mostly
  failed otherwise. The exit status is 0 or 1; it is 0 exactly when the country given
  on the command line, if any, is a known one and the run reaches its end and returns
  true.
\<close>

theorem verdict_of_the_run:
  "(run_all_tests orc countries fast_mode hist = (Some r, h) \<longrightarrow>
      connections r \<noteq> []
      \<and> (\<exists>h1 h2. test_portal_connections orc
                    (case countries of None \<Rightarrow> ALL_COUNTRIES | Some cs \<Rightarrow> cs) fast_mode h1
                  = (connections r, h2))
      \<and> (\<exists>h5. integrated_workflow r =
                (filter snd (connections r) \<noteq> []
                 \<and> fst (test_integrated_workflow orc (map fst (filter snd (connections r))) h5)))
      \<and> connection_success_rate r =
          of_nat (length (filter snd (connections r))) / of_nat (length (connections r)) * 100
      \<and> (case group_success_rates r of
            None \<Rightarrow> filter snd (connections r) = []
          | Some (r1, r2, r3) \<Rightarrow>
              success_rate (organizations r) = Some r1
              \<and> success_rate (datasets r) = Some r2
              \<and> success_rate (resources r) = Some r3)
      \<and> printed_rates r =
          map one_decimal
            (connection_success_rate r #
             (case group_success_rates r of None \<Rightarrow> []
              | Some (r1, r2, r3) \<Rightarrow> [r1, r2, r3]))
      \<and> (returned r \<longleftrightarrow> connection_success_rate r = 100 \<and> integrated_workflow r)
      \<and> (returned r \<longleftrightarrow> (\<forall>e\<in>set (connections r). snd e) \<and> integrated_workflow r)
      \<and> (assessed r = AllPassed \<longleftrightarrow> returned r)
      \<and> (assessed r = PartiallyWorking \<longleftrightarrow> \<not> returned r \<and> 50 \<le> connection_success_rate r)
      \<and> (assessed r = MostlyFailed \<longleftrightarrow> connection_success_rate r < 50)
      \<and> (50 \<le> connection_success_rate r \<longleftrightarrow>
           length (connections r) \<le> 2 * length (filter snd (connections r))))
   \<and> (success_rate results = Some x \<longleftrightarrow>
        results \<noteq> []
        \<and> x = of_nat (length (filter snd results)) / of_nat (length results) * 100)
   \<and> \<bar>one_decimal x - x\<bar> \<le> 1 / 20
   \<and> one_decimal x * 10 \<in> \<int>
   \<and> (fst (main orc argv hist) = 0 \<or> fst (main orc argv hist) = 1)
   \<and> (selected =
        (if List.member argv ''--country'' \<and> index_of ''--country'' argv + 1 < length argv
         then Some [lower (argv ! (index_of ''--country'' argv + 1))] else None)
       \<longrightarrow>
        (fst (main orc argv hist) = 0 \<longleftrightarrow>
           (\<forall>c. selected = Some [c] \<longrightarrow> List.member ALL_COUNTRIES c)
           \<and> (\<exists>r h. run_all_tests orc selected (List.member argv ''--fast'') hist = (Some r, h)
                  \<and> returned r)))"
proof -
  have a: "connections r \<noteq> []
      \<and> (\<exists>h1 h2. test_portal_connections orc
                    (case countries of None \<Rightarrow> ALL_COUNTRIES | Some cs \<Rightarrow> cs) fast_mode h1
                  = (connections r, h2))
      \<and> (\<exists>h5. integrated_workflow r =
                (filter snd (connections r) \<noteq> []
                 \<and> fst (test_integrated_workflow orc (map fst (filter snd (connections r))) h5)))
      \<and> connection_success_rate r =
          of_nat (length (filter snd (connections r))) / of_nat (length (connections r)) * 100
      \<and> (case group_success_rates r of
            None \<Rightarrow> filter snd (connections r) = []
          | Some (r1, r2, r3) \<Rightarrow>
              success_rate (organizations r) = Some r1
              \<and> success_rate (datasets r) = Some r2
              \<and> success_rate (resources r) = Some r3)
      \<and> printed_rates r =
          map one_decimal
            (connection_success_rate r #
             (case group_success_rates r of None \<Rightarrow> []
              | Some (r1, r2, r3) \<Rightarrow> [r1, r2, r3]))
      \<and> (returned r \<longleftrightarrow> connection_success_rate r = 100 \<and> integrated_workflow r)
      \<and> (returned r \<longleftrightarrow> (\<forall>e\<in>set (connections r). snd e) \<and> integrated_workflow r)
      \<and> (assessed r = AllPassed \<longleftrightarrow> returned r)
      \<and> (assessed r = PartiallyWorking \<longleftrightarrow> \<not> returned r \<and> 50 \<le> connection_success_rate r)
      \<and> (assessed r = MostlyFailed \<longleftrightarrow> connection_success_rate r < 50)
      \<and> (50 \<le> connection_success_rate r \<longleftrightarrow>
           length (connections r) \<le> 2 * length (filter snd (connections r)))"
    if run: "run_all_tests orc countries fast_mode hist = (Some r, h)"
  proof -
    note rep = run_all_tests_report [OF run]
    from rep(1) have n: "connections r \<noteq> []"
      and f: "connection_success_rate r =
          of_nat (length (filter snd (connections r))) / of_nat (length (connections r)) * 100"
      by (simp_all add: success_rate_Some)
    have ret: "returned r \<longleftrightarrow> connection_success_rate r = 100 \<and> integrated_workflow r"
      unfolding rep(3) rep(2) by (rule assess_cases(1))
    have all: "returned r \<longleftrightarrow> (\<forall>e\<in>set (connections r). snd e) \<and> integrated_workflow r"
      unfolding ret success_rate_100 [OF rep(1)] by (rule refl)
    have p: "assessed r = PartiallyWorking \<longleftrightarrow> \<not> returned r \<and> 50 \<le> connection_success_rate r"
      unfolding ret unfolding rep(2) by (rule assess_cases(2))
    have m: "assessed r = MostlyFailed \<longleftrightarrow> connection_success_rate r < 50"
      unfolding rep(2) by (rule assess_cases(3))
    show ?thesis
      by (intro conjI n rep(6) run_all_tests_workflow [OF run] f rep(5) rep(4) ret all
            rep(3) [symmetric] p m success_rate_50 [OF rep(1)])
  qed
  have b: "selected =
        (if List.member argv ''--country'' \<and> index_of ''--country'' argv + 1 < length argv
         then Some [lower (argv ! (index_of ''--country'' argv + 1))] else None)
       \<longrightarrow>
        (fst (main orc argv hist) = 0 \<longleftrightarrow>
           (\<forall>c. selected = Some [c] \<longrightarrow> List.member ALL_COUNTRIES c)
           \<and> (\<exists>r h. run_all_tests orc selected (List.member argv ''--fast'') hist = (Some r, h)
                  \<and> returned r))"
    by (rule impI) (rule main_exit)
  show ?thesis
    by (intro conjI impI a success_rate_Some one_decimal_near one_decimal_tenths
          main_exit_status b)
qed

theorem verdict_of_the_run_witness:
  "map_option returned (fst (run_all_tests (portal []) (Some [''us'']) False [])) = Some True
   \<and> fst (main (portal []) [''prog'', ''--country'', ''US''] []) = 0
   \<and> map_option connections
        (fst (run_all_tests (portal [''uk'']) (Some [''us'', ''uk'']) False [])) =
       Some [(''us'', True), (''uk'', False)]
   \<and> map_option connection_success_rate
        (fst (run_all_tests (portal [''uk'']) (Some [''us'', ''uk'']) False [])) = Some 50
   \<and> map_option assessed
        (fst (run_all_tests (portal [''uk'']) (Some [''us'', ''uk'']) False [])) =
       Some PartiallyWorking
   \<and> map_option returned
        (fst (run_all_tests (portal [''uk'']) (Some [''us'', ''uk'']) False [])) = Some False
   \<and> map_option connections (fst (run_all_tests (portal [''us'']) (Some [''us'']) False [])) =
       Some [(''us'', False)]
   \<and> map_option assessed (fst (run_all_tests (portal [''us'']) (Some [''us'']) False [])) =
       Some MostlyFailed
   \<and> fst (main (portal [''us'']) [''prog'', ''--country'', ''US''] []) = 1"
proof -
  let ?argv = "[''prog'', ''--country'', ''US'']"
  have sel: "Some [''us''] =
      (if List.member ?argv ''--country'' \<and> index_of ''--country'' ?argv + 1 < length ?argv
       then Some [lower (?argv ! (index_of ''--country'' ?argv + 1))] else None)"
    by (simp add: lower_US)
  have fast: "List.member ?argv ''--fast'' = False" by simp
  have known: "\<forall>c. Some [''us''] = Some [c] \<longrightarrow> List.member ALL_COUNTRIES c"
    by (simp add: ALL_COUNTRIES_def)

  let ?good = "run_all_tests (portal []) (Some [''us'']) False []"
  have g: "map_option returned (fst ?good) = Some True" by code_simp
  then obtain r1 h1 where r1: "?good = (Some r1, h1)" "returned r1"
    by (cases ?good) auto
  then have e1: "\<exists>r h. run_all_tests (portal []) (Some [''us'']) (List.member ?argv ''--fast'') []
                   = (Some r, h) \<and> returned r"
    unfolding fast by blast
  note v1 = verdict_of_the_run
         [where orc = "portal []" and argv = ?argv and hist = "[]" and selected = "Some [''us'']"]
  note exit1 = v1 [THEN conjunct2, THEN conjunct2, THEN conjunct2, THEN conjunct2,
                   THEN conjunct2, THEN mp, OF sel]
  have m0: "fst (main (portal []) ?argv []) = 0"
    unfolding exit1 using known e1 by (rule conjI)

  let ?half = "run_all_tests (portal [''uk'']) (Some [''us'', ''uk'']) False []"
  have c2: "map_option connections (fst ?half) = Some [(''us'', True), (''uk'', False)]"
    by code_simp
  then obtain r2 h2 where r2: "?half = (Some r2, h2)"
    and k2: "connections r2 = [(''us'', True), (''uk'', False)]"
    by (cases ?half) auto
  note v2 = verdict_of_the_run
         [where orc = "portal [''uk'']" and countries = "Some [''us'', ''uk'']"
            and fast_mode = False and hist = "[]" and r = r2 and h = h2,
          THEN conjunct1, THEN mp, OF r2]
  from v2 have "connection_success_rate r2 =
      of_nat (length (filter snd (connections r2))) / of_nat (length (connections r2)) * 100"
    by (elim conjE)
  then have rate2: "connection_success_rate r2 = 50" unfolding k2 by simp
  from v2 have "returned r2 \<longleftrightarrow> (\<forall>e\<in>set (connections r2). snd e) \<and> integrated_workflow r2"
    by (elim conjE)
  then have ret2: "\<not> returned r2" unfolding k2 by simp
  from v2
  have "assessed r2 = PartiallyWorking \<longleftrightarrow> \<not> returned r2 \<and> 50 \<le> connection_success_rate r2"
    by (elim conjE)
  with ret2 rate2 have a2: "assessed r2 = PartiallyWorking" by simp

  let ?bad = "run_all_tests (portal [''us'']) (Some [''us'']) False []"
  have c3: "map_option connections (fst ?bad) = Some [(''us'', False)]"
    by code_simp
  then obtain r3 h3 where r3: "?bad = (Some r3, h3)"
    and k3: "connections r3 = [(''us'', False)]"
    by (cases ?bad) auto
  note w3 = verdict_of_the_run
         [where orc = "portal [''us'']" and countries = "Some [''us'']"
            and fast_mode = False and hist = "[]" and r = r3 and h = h3
            and argv = ?argv and selected = "Some [''us'']"]
  note v3 = w3 [THEN conjunct1, THEN mp, OF r3]
  note status3 = w3 [THEN conjunct2, THEN conjunct2, THEN conjunct2, THEN conjunct2,
                     THEN conjunct1]
  note exit3 = w3 [THEN conjunct2, THEN conjunct2, THEN conjunct2, THEN conjunct2,
                   THEN conjunct2, THEN mp, OF sel]
  from v3 have "connection_success_rate r3 =
      of_nat (length (filter snd (connections r3))) / of_nat (length (connections r3)) * 100"
    by (elim conjE)
  then have rate3: "connection_success_rate r3 = 0" unfolding k3 by simp
  from v3 have "assessed r3 = MostlyFailed \<longleftrightarrow> connection_success_rate r3 < 50"
    by (elim conjE)
  with rate3 have a3: "assessed r3 = MostlyFailed" by simp
  from v3 have "returned r3 \<longleftrightarrow> (\<forall>e\<in>set (connections r3). snd e) \<and> integrated_workflow r3"
    by (elim conjE)
  then have ret3: "\<not> returned r3" unfolding k3 by simp
  have "\<not> (\<exists>r h. run_all_tests (portal [''us'']) (Some [''us'']) (List.member ?argv ''--fast'') []
                        = (Some r, h) \<and> returned r)"
    unfolding fast r3 using ret3 by simp
  then have "fst (main (portal [''us'']) ?argv []) \<noteq> 0"
    unfolding exit3 by simp
  with status3 have m1: "fst (main (portal [''us'']) ?argv []) = 1" by simp

  have h2: "map_option connection_success_rate (fst ?half) = Some 50"
    "map_option assessed (fst ?half) = Some PartiallyWorking"
    "map_option returned (fst ?half) = Some False"
    unfolding r2 using rate2 a2 ret2 by simp_all
  have h3: "map_option assessed (fst ?bad) = Some MostlyFailed"
    unfolding r3 using a3 by simp
  show ?thesis by (intro conjI g m0 c2 h2 c3 h3 m1)
qed

subsection \<open>Countries whose connection test failed\<close>

lemma test_function_log: "snd (test_function orc c hist) = hist @ [c]"
  by (simp add: test_function_def call_def split: response.splits sum.splits)

lemma details_test_log:
  "\<exists>new. snd (details_test orc listing key details hist) = hist @ listing # new
         \<and> (\<forall>x\<in>set new. \<exists>v. x = details v)"
proof (cases "orc hist listing")
  case Raises
  then show ?thesis by (simp add: details_test_def call_def)
next
  case (Returns r)
  show ?thesis
  proof (cases "first_item_field key r")
    case (Inl e)
    with Returns show ?thesis by (simp add: details_test_def call_def)
  next
    case (Inr found)
    show ?thesis
    proof (cases found)
      case None
      with Returns Inr show ?thesis by (simp add: details_test_def call_def)
    next
      case (Some v)
      with Returns Inr
      have "snd (details_test orc listing key details hist) = hist @ listing # [details v]"
        by (simp add: details_test_def call_def test_function_log)
      then show ?thesis by auto
    qed
  qed
qed

lemma find_dataset_name_log:
  "snd (find_dataset_name orc country hist) = hist @ [SearchDatasets country ''data'' 1]"
  by (simp add: find_dataset_name_def call_def split: response.splits sum.splits option.splits)

text \<open>The calls that one round of each loop adds are all addressed to its country.\<close>

lemma organization_round:
  assumes "test_function orc (ListOrganizations country 5) hist = (success1, hist1)"
    and "(if success1
          then details_test orc (ListOrganizations country 1) ''name''
                 (GetOrganizationDetails country) hist1
          else (False, hist1)) = (org_details_success, hist2)"
  shows "\<exists>new. hist2 = hist @ new \<and> (\<forall>x\<in>set new. country_of x = Some country)"
proof -
  from assms(1) have h1: "hist1 = hist @ [ListOrganizations country 5]"
    using test_function_log [of orc "ListOrganizations country 5" hist] by simp
  show ?thesis
  proof (cases success1)
    case False
    with assms(2) h1 show ?thesis by auto
  next
    case True
    from details_test_log [of orc "ListOrganizations country 1" "''name''"
           "GetOrganizationDetails country" hist1]
    obtain new where "snd (details_test orc (ListOrganizations country 1) ''name''
           (GetOrganizationDetails country) hist1) = hist1 @ ListOrganizations country 1 # new"
      and "\<forall>x\<in>set new. \<exists>v. x = GetOrganizationDetails country v"
      by blast
    with True assms(2) h1
    have "hist2 = hist @ (ListOrganizations country 5 # ListOrganizations country 1 # new)"
      and "\<forall>x\<in>set (ListOrganizations country 5 # ListOrganizations country 1 # new).
             country_of x = Some country"
      by auto
    then show ?thesis by blast
  qed
qed

lemma dataset_round:
  assumes "test_function orc (ListDatasets country 10) hist = (success1, hist1)"
    and "test_function orc (SearchDatasets country ''climate'' 5) hist1 = (success2, hist2)"
    and "(if success2
          then details_test orc (SearchDatasets country ''climate'' 1) ''name''
                 (GetDatasetDetails country) hist2
          else (False, hist2)) = (details_success, hist3)"
  shows "\<exists>new. hist3 = hist @ new \<and> (\<forall>x\<in>set new. country_of x = Some country)"
proof -
  from assms(1) have h1: "hist1 = hist @ [ListDatasets country 10]"
    using test_function_log [of orc "ListDatasets country 10" hist] by simp
  from assms(2) have h2: "hist2 = hist1 @ [SearchDatasets country ''climate'' 5]"
    using test_function_log [of orc "SearchDatasets country ''climate'' 5" hist1] by simp
  show ?thesis
  proof (cases success2)
    case False
    with assms(3) h1 h2 show ?thesis by auto
  next
    case True
    from details_test_log [of orc "SearchDatasets country ''climate'' 1" "''name''"
           "GetDatasetDetails country" hist2]
    obtain new where "snd (details_test orc (SearchDatasets country ''climate'' 1) ''name''
           (GetDatasetDetails country) hist2) = hist2 @ SearchDatasets country ''climate'' 1 # new"
      and "\<forall>x\<in>set new. \<exists>v. x = GetDatasetDetails country v"
      by blast
    with True assms(3) h1 h2
    have "hist3 = hist @ (ListDatasets country 10 # SearchDatasets country ''climate'' 5
                            # SearchDatasets country ''climate'' 1 # new)"
      and "\<forall>x\<in>set (ListDatasets country 10 # SearchDatasets country ''climate'' 5
                            # SearchDatasets country ''climate'' 1 # new).
             country_of x = Some country"
      by auto
    then show ?thesis by blast
  qed
qed

lemma resource_round:
  assumes "test_function orc (GetDatasetResources country dataset_name) hist1 = (success1, hist2)"
    and "(if success1
          then details_test orc (GetDatasetResources country dataset_name) ''id''
                 (GetResourceDetails country) hist2
          else (False, hist2)) = (details_success, hist3)"
  shows "\<exists>new. hist3 = hist1 @ new \<and> (\<forall>x\<in>set new. country_of x = Some country)"
proof -
  from assms(1) have h2: "hist2 = hist1 @ [GetDatasetResources country dataset_name]"
    using test_function_log [of orc "GetDatasetResources country dataset_name" hist1] by simp
  show ?thesis
  proof (cases success1)
    case False
    with assms(2) h2 show ?thesis by auto
  next
    case True
    from details_test_log [of orc "GetDatasetResources country dataset_name" "''id''"
           "GetResourceDetails country" hist2]
    obtain new where "snd (details_test orc (GetDatasetResources country dataset_name) ''id''
           (GetResourceDetails country) hist2)
             = hist2 @ GetDatasetResources country dataset_name # new"
      and "\<forall>x\<in>set new. \<exists>v. x = GetResourceDetails country v"
      by blast
    with True assms(2) h2
    have "hist3 = hist1 @ (GetDatasetResources country dataset_name
                             # GetDatasetResources country dataset_name # new)"
      and "\<forall>x\<in>set (GetDatasetResources country dataset_name
                             # GetDatasetResources country dataset_name # new).
             country_of x = Some country"
      by auto
    then show ?thesis by blast
  qed
qed

lemma more_calls:
  assumes "\<exists>new. h1 = h0 @ new \<and> (\<forall>x\<in>set new. country_of x = Some c)"
    and "\<exists>new. h2 = h1 @ new \<and> (\<forall>x\<in>set new. \<exists>c'\<in>set cs. country_of x = Some c')"
  shows "\<exists>new. h2 = h0 @ new \<and> (\<forall>x\<in>set new. \<exists>c'\<in>set (c # cs). country_of x = Some c')"
proof -
  from assms obtain n1 n2 where "h1 = h0 @ n1" "\<forall>x\<in>set n1. country_of x = Some c"
    "h2 = h1 @ n2" "\<forall>x\<in>set n2. \<exists>c'\<in>set cs. country_of x = Some c'"
    by blast
  then have "h2 = h0 @ (n1 @ n2)"
    and "\<forall>x\<in>set (n1 @ n2). \<exists>c'\<in>set (c # cs). country_of x = Some c'"
    by auto
  then show ?thesis by blast
qed

lemma organization_loop_calls:
  "\<exists>new. snd (organization_loop orc cs results hist) = hist @ new
         \<and> (\<forall>x\<in>set new. \<exists>c\<in>set cs. country_of x = Some c)"
proof (induction cs arbitrary: results hist)
  case Nil
  show ?case by simp
next
  case (Cons c cs)
  obtain success1 hist1 where t: "test_function orc (ListOrganizations c 5) hist = (success1, hist1)"
    by (cases "test_function orc (ListOrganizations c 5) hist")
  obtain s2 hist2 where d: "(if success1
          then details_test orc (ListOrganizations c 1) ''name'' (GetOrganizationDetails c) hist1
          else (False, hist1)) = (s2, hist2)"
    by (cases "if success1
          then details_test orc (ListOrganizations c 1) ''name'' (GetOrganizationDetails c) hist1
          else (False, hist1)")
  have e: "organization_loop orc (c # cs) results hist =
        organization_loop orc cs (AList.update c (success1 \<and> s2) results) hist2"
    by (simp only: organization_loop.simps t d prod.case)
  show ?case
    unfolding e
    by (rule more_calls [OF organization_round [OF t d] Cons.IH])
qed

lemma dataset_loop_calls:
  "\<exists>new. snd (dataset_loop orc cs results hist) = hist @ new
         \<and> (\<forall>x\<in>set new. \<exists>c\<in>set cs. country_of x = Some c)"
proof (induction cs arbitrary: results hist)
  case Nil
  show ?case by simp
next
  case (Cons c cs)
  obtain success1 hist1 where t: "test_function orc (ListDatasets c 10) hist = (success1, hist1)"
    by (cases "test_function orc (ListDatasets c 10) hist")
  obtain success2 hist2 where
    u: "test_function orc (SearchDatasets c ''climate'' 5) hist1 = (success2, hist2)"
    by (cases "test_function orc (SearchDatasets c ''climate'' 5) hist1")
  obtain s3 hist3 where d: "(if success2
          then details_test orc (SearchDatasets c ''climate'' 1) ''name'' (GetDatasetDetails c) hist2
          else (False, hist2)) = (s3, hist3)"
    by (cases "if success2
          then details_test orc (SearchDatasets c ''climate'' 1) ''name'' (GetDatasetDetails c) hist2
          else (False, hist2)")
  have e: "dataset_loop orc (c # cs) results hist =
        dataset_loop orc cs (AList.update c (success1 \<and> success2 \<and> s3) results) hist3"
    by (simp only: dataset_loop.simps t u d prod.case)
  show ?case
    unfolding e
    by (rule more_calls [OF dataset_round [OF t u d] Cons.IH])
qed

lemma resource_loop_calls:
  "\<exists>new. snd (resource_loop orc cs results hist) = hist @ new
         \<and> (\<forall>x\<in>set new. \<exists>c\<in>set cs. country_of x = Some c)"
proof (induction cs arbitrary: results hist)
  case Nil
  show ?case by simp
next
  case (Cons c cs)
  obtain dataset_name hist1 where f: "find_dataset_name orc c hist = (dataset_name, hist1)"
    by (cases "find_dataset_name orc c hist")
  then have h1: "hist1 = hist @ [SearchDatasets c ''data'' 1]"
    using find_dataset_name_log [of orc c hist] by simp
  show ?case
  proof (cases "truthy dataset_name")
    case False
    with f have e: "resource_loop orc (c # cs) results hist =
        resource_loop orc cs (AList.update c False results) hist1"
      by simp
    have "\<exists>new. hist1 = hist @ new \<and> (\<forall>x\<in>set new. country_of x = Some c)"
      using h1 by simp
    then show ?thesis
      unfolding e by (rule more_calls [OF _ Cons.IH])
  next
    case True
    obtain success1 hist2 where
      t: "test_function orc (GetDatasetResources c dataset_name) hist1 = (success1, hist2)"
      by (cases "test_function orc (GetDatasetResources c dataset_name) hist1")
    obtain s3 hist3 where d: "(if success1
          then details_test orc (GetDatasetResources c dataset_name) ''id''
                 (GetResourceDetails c) hist2
          else (False, hist2)) = (s3, hist3)"
      by (cases "if success1
          then details_test orc (GetDatasetResources c dataset_name) ''id''
                 (GetResourceDetails c) hist2
          else (False, hist2)")
    from True f t d have e: "resource_loop orc (c # cs) results hist =
        resource_loop orc cs (AList.update c (success1 \<and> s3) results) hist3"
      by simp
    from resource_round [OF t d] obtain new where
      "hist3 = hist1 @ new" "\<forall>x\<in>set new. country_of x = Some c"
      by blast
    with h1 have "hist3 = hist @ (SearchDatasets c ''data'' 1 # new)"
      "\<forall>x\<in>set (SearchDatasets c ''data'' 1 # new). country_of x = Some c"
      by simp_all
    then have "\<exists>new. hist3 = hist @ new \<and> (\<forall>x\<in>set new. country_of x = Some c)"
      by blast
    then show ?thesis
      unfolding e by (rule more_calls [OF _ Cons.IH])
  qed
qed

text \<open>Each loop adds its countries to the results, in their order.\<close>

lemma keys_update_new:
  "k \<notin> set (map fst al) \<Longrightarrow> map fst (AList.update k v al) = map fst al @ [k]"
  by (simp add: update_keys)

lemma organization_loop_keys:
  "distinct (map fst results @ cs) \<Longrightarrow>
     map fst (fst (organization_loop orc cs results hist)) = map fst results @ cs"
proof (induction cs arbitrary: results hist)
  case Nil
  show ?case by simp
next
  case (Cons c cs)
  from Cons.prems have k: "map fst (AList.update c v results) = map fst results @ [c]" for v
    by (intro keys_update_new) simp
  with Cons.prems have "distinct (map fst (AList.update c v results) @ cs)" for v by simp
  then have "map fst (fst (organization_loop orc cs (AList.update c v results) h))
               = map fst results @ c # cs" for v h
    using Cons.IH [of "AList.update c v results" h] k by simp
  then show ?case by (simp split: prod.splits)
qed

lemma dataset_loop_keys:
  "distinct (map fst results @ cs) \<Longrightarrow>
     map fst (fst (dataset_loop orc cs results hist)) = map fst results @ cs"
proof (induction cs arbitrary: results hist)
  case Nil
  show ?case by simp
next
  case (Cons c cs)
  from Cons.prems have k: "map fst (AList.update c v results) = map fst results @ [c]" for v
    by (intro keys_update_new) simp
  with Cons.prems have "distinct (map fst (AList.update c v results) @ cs)" for v by simp
  then have "map fst (fst (dataset_loop orc cs (AList.update c v results) h))
               = map fst results @ c # cs" for v h
    using Cons.IH [of "AList.update c v results" h] k by simp
  then show ?case by (simp split: prod.splits)
qed

lemma resource_loop_keys:
  "distinct (map fst results @ cs) \<Longrightarrow>
     map fst (fst (resource_loop orc cs results hist)) = map fst results @ cs"
proof (induction cs arbitrary: results hist)
  case Nil
  show ?case by simp
next
  case (Cons c cs)
  from Cons.prems have k: "map fst (AList.update c v results) = map fst results @ [c]" for v
    by (intro keys_update_new) simp
  with Cons.prems have "distinct (map fst (AList.update c v results) @ cs)" for v by simp
  then have "map fst (fst (resource_loop orc cs (AList.update c v results) h))
               = map fst results @ c # cs" for v h
    using Cons.IH [of "AList.update c v results" h] k by simp
  then show ?case by (simp split: prod.splits)
qed

lemma connection_loop_keys:
  "distinct (map fst results) \<Longrightarrow>
     distinct (map fst (fst (connection_loop orc cs results hist)))"
proof (induction cs arbitrary: results hist)
  case Nil
  then show ?case by simp
next
  case (Cons c cs)
  from Cons.prems have "distinct (map fst (AList.update c v results))" for v
    by (rule distinct_update)
  then have "distinct (map fst (fst (connection_loop orc cs (AList.update c v results) h)))"
    for v h
    by (rule Cons.IH)
  then show ?case by (simp split: prod.splits)
qed

lemma connection_loop_calls:
  "\<exists>new. snd (connection_loop orc cs results hist) = hist @ new
         \<and> (\<forall>x\<in>set new. \<exists>c. x = TestPortalConnection c)"
proof (induction cs arbitrary: results hist)
  case Nil
  show ?case by simp
next
  case (Cons c cs)
  obtain success hist1 where t: "test_function orc (TestPortalConnection c) hist = (success, hist1)"
    by (cases "test_function orc (TestPortalConnection c) hist")
  then have h1: "hist1 = hist @ [TestPortalConnection c]"
    using test_function_log [of orc "TestPortalConnection c" hist] by simp
  from Cons.IH [of "AList.update c success results" hist1] obtain new where
    "snd (connection_loop orc cs (AList.update c success results) hist1) = hist1 @ new"
    "\<forall>x\<in>set new. \<exists>c. x = TestPortalConnection c"
    by blast
  with t h1 have "snd (connection_loop orc (c # cs) results hist)
                    = hist @ (TestPortalConnection c # new)"
    "\<forall>x\<in>set (TestPortalConnection c # new). \<exists>c. x = TestPortalConnection c"
    by simp_all
  then show ?case by blast
qed

lemma group_calls:
  "\<exists>new. snd (test_organization_functions orc cs fast_mode hist) = hist @ new
         \<and> (\<forall>x\<in>set new. \<exists>c\<in>set cs. country_of x = Some c)"
  "\<exists>new. snd (test_dataset_functions orc cs fast_mode hist) = hist @ new
         \<and> (\<forall>x\<in>set new. \<exists>c\<in>set cs. country_of x = Some c)"
  "\<exists>new. snd (test_resource_functions orc cs fast_mode hist) = hist @ new
         \<and> (\<forall>x\<in>set new. \<exists>c\<in>set cs. country_of x = Some c)"
proof -
  have t: "\<exists>new. h = hist @ new \<and> (\<forall>x\<in>set new. \<exists>c\<in>set cs. country_of x = Some c)"
    if "\<exists>new. h = hist @ new \<and> (\<forall>x\<in>set new. \<exists>c\<in>set (take n cs). country_of x = Some c)"
    for h n
  proof -
    from that obtain new where n: "h = hist @ new"
      "\<forall>x\<in>set new. \<exists>c\<in>set (take n cs). country_of x = Some c"
      by blast
    from n(2) have "\<forall>x\<in>set new. \<exists>c\<in>set cs. country_of x = Some c"
      by (meson in_set_takeD)
    with n(1) show ?thesis by blast
  qed
  show "\<exists>new. snd (test_organization_functions orc cs fast_mode hist) = hist @ new
         \<and> (\<forall>x\<in>set new. \<exists>c\<in>set cs. country_of x = Some c)"
    unfolding test_organization_functions_def Let_def
    using organization_loop_calls [of orc cs "[]" hist]
      t [OF organization_loop_calls [of orc "take 2 cs" "[]" hist]]
    by (cases fast_mode) simp_all
  show "\<exists>new. snd (test_dataset_functions orc cs fast_mode hist) = hist @ new
         \<and> (\<forall>x\<in>set new. \<exists>c\<in>set cs. country_of x = Some c)"
    unfolding test_dataset_functions_def Let_def
    using dataset_loop_calls [of orc cs "[]" hist]
      t [OF dataset_loop_calls [of orc "take 2 cs" "[]" hist]]
    by (cases fast_mode) simp_all
  show "\<exists>new. snd (test_resource_functions orc cs fast_mode hist) = hist @ new
         \<and> (\<forall>x\<in>set new. \<exists>c\<in>set cs. country_of x = Some c)"
    unfolding test_resource_functions_def Let_def
    using resource_loop_calls [of orc cs "[]" hist]
      t [OF resource_loop_calls [of orc "take 1 cs" "[]" hist]]
    by (cases fast_mode) simp_all
qed

lemma group_keys:
  assumes "distinct cs"
  shows "map fst (fst (test_organization_functions orc cs fast_mode hist)) =
           (if fast_mode then take 2 cs else cs)"
    and "map fst (fst (test_dataset_functions orc cs fast_mode hist)) =
           (if fast_mode then take 2 cs else cs)"
    and "map fst (fst (test_resource_functions orc cs fast_mode hist)) =
           (if fast_mode then take 1 cs else cs)"
proof -
  from assms have d: "distinct (map fst ([] :: (string \<times> bool) list) @ take n cs)" for n
    by simp
  from assms have e: "distinct (map fst ([] :: (string \<times> bool) list) @ cs)" by simp
  show "map fst (fst (test_organization_functions orc cs fast_mode hist)) =
           (if fast_mode then take 2 cs else cs)"
    unfolding test_organization_functions_def Let_def
    using organization_loop_keys [OF d [of 2], of orc hist] organization_loop_keys [OF e, of orc hist]
    by simp
  show "map fst (fst (test_dataset_functions orc cs fast_mode hist)) =
           (if fast_mode then take 2 cs else cs)"
    unfolding test_dataset_functions_def Let_def
    using dataset_loop_keys [OF d [of 2], of orc hist] dataset_loop_keys [OF e, of orc hist]
    by simp
  show "map fst (fst (test_resource_functions orc cs fast_mode hist)) =
           (if fast_mode then take 1 cs else cs)"
    unfolding test_resource_functions_def Let_def
    using resource_loop_keys [OF d [of 1], of orc hist] resource_loop_keys [OF e, of orc hist]
    by simp
qed

lemma workflow_log:
  "\<exists>new. snd (test_integrated_workflow orc cs hist) = hist @ new
         \<and> (\<forall>x\<in>set new. country_of x = Some ''us'')"
proof -
  from workflow_shape [of orc cs hist] obtain k n org_name where
    s: "snd (test_integrated_workflow orc cs hist) = hist @ take k (workflow_calls n org_name)"
    by blast
  have "\<forall>x\<in>set (workflow_calls n org_name). country_of x = Some ''us''"
    by (simp add: workflow_calls_def)
  then have "\<forall>x\<in>set (take k (workflow_calls n org_name)). country_of x = Some ''us''"
    by (meson in_set_takeD)
  with s show ?thesis by blast
qed

lemma supported_countries_log:
  "\<exists>new. snd (test_supported_countries orc hist) = hist @ new
         \<and> (\<forall>x\<in>set new. x = GetSupportedCountries)"
proof -
  obtain success hist1 where t: "test_function orc GetSupportedCountries hist = (success, hist1)"
    by (cases "test_function orc GetSupportedCountries hist")
  then have h1: "hist1 = hist @ [GetSupportedCountries]"
    using test_function_log [of orc GetSupportedCountries hist] by simp
  have "snd (test_supported_countries orc hist) = hist @ [GetSupportedCountries]
        \<or> snd (test_supported_countries orc hist)
             = hist @ [GetSupportedCountries, GetSupportedCountries]"
    unfolding test_supported_countries_def t prod.case h1 call_def
    by (simp split: response.splits sum.splits)
  then show ?thesis by auto
qed

lemma portal_connections_log:
  "\<exists>new. snd (test_portal_connections orc cs fast_mode hist) = hist @ new
         \<and> (\<forall>x\<in>set new. \<exists>c. x = TestPortalConnection c)"
  unfolding test_portal_connections_def Let_def by (rule connection_loop_calls)

lemma portal_connections_keys:
  "distinct (map fst (fst (test_portal_connections orc cs fast_mode hist)))"
  unfolding test_portal_connections_def Let_def by (rule connection_loop_keys) simp

text \<open>The four groups: their results, and the calls they make one after the other.\<close>

lemma run_groups_log:
  assumes g: "run_groups orc working fast_mode h2 =
                ((orgs, dsets, ress, workflow), (oc, dc, rc), h6)"
    and w: "distinct working"
  shows "\<exists>wfc. h6 = h2 @ oc @ dc @ rc @ wfc \<and> (\<forall>x\<in>set wfc. country_of x = Some ''us'')"
    and "\<forall>x\<in>set (oc @ dc @ rc). \<exists>c\<in>set working. country_of x = Some c"
    and "map fst orgs = (if fast_mode then take 2 working else working)"
    and "map fst dsets = (if fast_mode then take 2 working else working)"
    and "map fst ress = (if fast_mode then take 1 working else working)"
proof -
  have "(\<exists>wfc. h6 = h2 @ oc @ dc @ rc @ wfc \<and> (\<forall>x\<in>set wfc. country_of x = Some ''us''))
      \<and> (\<forall>x\<in>set (oc @ dc @ rc). \<exists>c\<in>set working. country_of x = Some c)
      \<and> map fst orgs = (if fast_mode then take 2 working else working)
      \<and> map fst dsets = (if fast_mode then take 2 working else working)
      \<and> map fst ress = (if fast_mode then take 1 working else working)"
  proof (cases "working = []")
    case True
    with g show ?thesis by (simp add: run_groups_def)
  next
    case False
    obtain orgs' h3 where a: "test_organization_functions orc working fast_mode h2 = (orgs', h3)"
      by (cases "test_organization_functions orc working fast_mode h2")
    obtain dsets' h4 where b: "test_dataset_functions orc working fast_mode h3 = (dsets', h4)"
      by (cases "test_dataset_functions orc working fast_mode h3")
    obtain ress' h5 where c: "test_resource_functions orc working fast_mode h4 = (ress', h5)"
      by (cases "test_resource_functions orc working fast_mode h4")
    obtain wf' h6' where d: "test_integrated_workflow orc working h5 = (wf', h6')"
      by (cases "test_integrated_workflow orc working h5")
    from g False a b c d have r: "orgs = orgs'" "dsets = dsets'" "ress = ress'"
      "oc = drop (length h2) h3" "dc = drop (length h3) h4" "rc = drop (length h4) h5"
      "h6 = h6'"
      by (simp_all add: run_groups_def)
    from group_calls(1) [of orc working fast_mode h2] a obtain n3 where
      n3: "h3 = h2 @ n3" "\<forall>x\<in>set n3. \<exists>c\<in>set working. country_of x = Some c" by auto
    from group_calls(2) [of orc working fast_mode h3] b obtain n4 where
      n4: "h4 = h3 @ n4" "\<forall>x\<in>set n4. \<exists>c\<in>set working. country_of x = Some c" by auto
    from group_calls(3) [of orc working fast_mode h4] c obtain n5 where
      n5: "h5 = h4 @ n5" "\<forall>x\<in>set n5. \<exists>c\<in>set working. country_of x = Some c" by auto
    from workflow_log [of orc working h5] d obtain n6 where
      n6: "h6' = h5 @ n6" "\<forall>x\<in>set n6. country_of x = Some ''us''" by auto
    from r n3 n4 n5 have calls: "oc = n3" "dc = n4" "rc = n5" by simp_all
    from r n3 n4 n5 n6 calls have "h6 = h2 @ oc @ dc @ rc @ n6" by simp
    with n6(2) have 1: "\<exists>wfc. h6 = h2 @ oc @ dc @ rc @ wfc
                          \<and> (\<forall>x\<in>set wfc. country_of x = Some ''us'')"
      by blast
    from calls n3(2) n4(2) n5(2)
    have 2: "\<forall>x\<in>set (oc @ dc @ rc). \<exists>c\<in>set working. country_of x = Some c" by auto
    from group_keys [OF w, of orc fast_mode] a b c r
    have 3: "map fst orgs = (if fast_mode then take 2 working else working)"
      and 4: "map fst dsets = (if fast_mode then take 2 working else working)"
      and 5: "map fst ress = (if fast_mode then take 1 working else working)"
      by (metis fst_conv)+
    from 1 2 3 4 5 show ?thesis by (intro conjI)
  qed
  then show "\<exists>wfc. h6 = h2 @ oc @ dc @ rc @ wfc \<and> (\<forall>x\<in>set wfc. country_of x = Some ''us'')"
    and "\<forall>x\<in>set (oc @ dc @ rc). \<exists>c\<in>set working. country_of x = Some c"
    and "map fst orgs = (if fast_mode then take 2 working else working)"
    and "map fst dsets = (if fast_mode then take 2 working else working)"
    and "map fst ress = (if fast_mode then take 1 working else working)"
    by blast+
qed

lemma working_countries:
  assumes "distinct (map fst conn)"
  shows "distinct (map fst (filter snd conn))"
    and "(c, False) \<in> set conn \<Longrightarrow> c \<notin> set (map fst (filter snd conn))"
    and "c \<in> set (map fst (filter snd conn)) \<longleftrightarrow> (c, True) \<in> set conn"
proof -
  from assms show "distinct (map fst (filter snd conn))" by (rule distinct_map_filter)
  show m: "c \<in> set (map fst (filter snd conn)) \<longleftrightarrow> (c, True) \<in> set conn" by force
  assume "(c, False) \<in> set conn"
  with assms have "(c, True) \<notin> set conn"
    using eq_key_imp_eq_value by fastforce
  with m show "c \<notin> set (map fst (filter snd conn))" by simp
qed

text \<open>A run that does not reach its end has made no call of the dependent groups.\<close>

lemma run_all_tests_None:
  assumes "run_all_tests orc countries0 fast_mode hist = (None, h)"
  shows "\<exists>new. h = hist @ new
           \<and> (\<forall>x\<in>set new. x = GetSupportedCountries \<or> (\<exists>c. x = TestPortalConnection c))"
proof -
  let ?cs = "case countries0 of None \<Rightarrow> ALL_COUNTRIES | Some cs \<Rightarrow> cs"
  obtain outcome h1 where s: "test_supported_countries orc hist = (outcome, h1)"
    by (cases "test_supported_countries orc hist")
  obtain conn h2 where c: "test_portal_connections orc ?cs fast_mode h1 = (conn, h2)"
    by (cases "test_portal_connections orc ?cs fast_mode h1")
  obtain orgs dsets ress workflow oc dc rc h6 where
    g: "run_groups orc (map fst (filter snd conn)) fast_mode h2 =
          ((orgs, dsets, ress, workflow), (oc, dc, rc), h6)"
    by (cases "run_groups orc (map fst (filter snd conn)) fast_mode h2") auto
  note run = run_all_tests_unfold [OF s c g]
  from supported_countries_log [of orc hist] s obtain n1 where
    n1: "h1 = hist @ n1" "\<forall>x\<in>set n1. x = GetSupportedCountries" by auto
  from portal_connections_log [of orc ?cs fast_mode h1] c obtain n2 where
    n2: "h2 = h1 @ n2" "\<forall>x\<in>set n2. \<exists>c. x = TestPortalConnection c" by auto
  have d: "distinct (map fst conn)"
    using portal_connections_keys [of orc ?cs fast_mode h1] c by simp
  note keys = run_groups_log(3-5) [OF g working_countries(1) [OF d]]
  have "h = h1 \<or> h = h2"
  proof (cases outcome)
    case None
    with assms run show ?thesis by simp
  next
    case (Some supported)
    show ?thesis
    proof (cases "map fst (filter snd conn) = []")
      case True
      with g have "h6 = h2" by (simp add: run_groups_def)
      with assms run Some show ?thesis
        by (auto split: option.splits if_splits)
    next
      case False
      with keys have "orgs \<noteq> []" "dsets \<noteq> []" "ress \<noteq> []"
        by (auto split: if_splits)
      then obtain r1 r2 r3 where "success_rate orgs = Some r1" "success_rate dsets = Some r2"
        "success_rate ress = Some r3"
        by (auto simp: success_rate_def)
      moreover from False have "conn \<noteq> []" by auto
      then obtain rate where "success_rate conn = Some rate" by (auto simp: success_rate_def)
      ultimately show ?thesis using assms run Some False by simp
    qed
  qed
  then show ?thesis
  proof
    assume "h = h1"
    with n1 show ?thesis by auto
  next
    assume "h = h2"
    with n1 n2 have "h = hist @ (n1 @ n2)"
      "\<forall>x\<in>set (n1 @ n2). x = GetSupportedCountries \<or> (\<exists>c. x = TestPortalConnection c)"
      by auto
    then show ?thesis by blast
  qed
qed

text \<open>The results and the calls of a run that reaches its end.\<close>

lemma run_all_tests_log:
  assumes "run_all_tests orc countries0 fast_mode hist = (Some r, h)"
  shows "distinct (map fst (connections r))"
    and "map fst (organizations r) =
           (if fast_mode then take 2 (map fst (filter snd (connections r)))
            else map fst (filter snd (connections r)))"
    and "map fst (datasets r) =
           (if fast_mode then take 2 (map fst (filter snd (connections r)))
            else map fst (filter snd (connections r)))"
    and "map fst (resources r) =
           (if fast_mode then take 1 (map fst (filter snd (connections r)))
            else map fst (filter snd (connections r)))"
    and "\<forall>x\<in>set (organization_calls r @ dataset_calls r @ resource_calls r).
           \<exists>c. country_of x = Some c \<and> (c, True) \<in> set (connections r)"
    and "\<exists>pre wfc. h = hist @ pre @ organization_calls r @ dataset_calls r
                          @ resource_calls r @ wfc
           \<and> (\<forall>x\<in>set pre. x = GetSupportedCountries \<or> (\<exists>c. x = TestPortalConnection c))
           \<and> (\<forall>x\<in>set wfc. country_of x = Some ''us'')"
proof -
  let ?cs = "case countries0 of None \<Rightarrow> ALL_COUNTRIES | Some cs \<Rightarrow> cs"
  from run_all_tests_Some [OF assms]
  obtain supported h1 conn h2 orgs dsets ress workflow oc dc rc where
      s: "test_supported_countries orc hist = (Some supported, h1)"
    and c: "test_portal_connections orc ?cs fast_mode h1 = (conn, h2)"
    and g: "run_groups orc (map fst (filter snd conn)) fast_mode h2 =
          ((orgs, dsets, ress, workflow), (oc, dc, rc), h)"
    and r: "connections r = conn" "organizations r = orgs" "datasets r = dsets"
      "resources r = ress" "organization_calls r = oc" "dataset_calls r = dc"
      "resource_calls r = rc"
    by auto
  from supported_countries_log [of orc hist] s obtain n1 where
    n1: "h1 = hist @ n1" "\<forall>x\<in>set n1. x = GetSupportedCountries" by auto
  from portal_connections_log [of orc ?cs fast_mode h1] c obtain n2 where
    n2: "h2 = h1 @ n2" "\<forall>x\<in>set n2. \<exists>c. x = TestPortalConnection c" by auto
  have d: "distinct (map fst conn)"
    using portal_connections_keys [of orc ?cs fast_mode h1] c by simp
  note w = working_countries [OF d]
  note log = run_groups_log [OF g w(1)]
  show "distinct (map fst (connections r))" unfolding r by (rule d)
  show "map fst (organizations r) =
           (if fast_mode then take 2 (map fst (filter snd (connections r)))
            else map fst (filter snd (connections r)))"
    unfolding r by (rule log(3))
  show "map fst (datasets r) =
           (if fast_mode then take 2 (map fst (filter snd (connections r)))
            else map fst (filter snd (connections r)))"
    unfolding r by (rule log(4))
  show "map fst (resources r) =
           (if fast_mode then take 1 (map fst (filter snd (connections r)))
            else map fst (filter snd (connections r)))"
    unfolding r by (rule log(5))
  show "\<forall>x\<in>set (organization_calls r @ dataset_calls r @ resource_calls r).
           \<exists>c. country_of x = Some c \<and> (c, True) \<in> set (connections r)"
    unfolding r
  proof
    fix x assume "x \<in> set (oc @ dc @ rc)"
    with log(2) obtain c where "c \<in> set (map fst (filter snd conn))" "country_of x = Some c"
      by blast
    with w(3) [of c] show "\<exists>c. country_of x = Some c \<and> (c, True) \<in> set conn" by blast
  qed
  from log(1) obtain wfc where wfc: "h = h2 @ oc @ dc @ rc @ wfc"
    "\<forall>x\<in>set wfc. country_of x = Some ''us''" by blast
  from n1 n2 wfc(1) have "h = hist @ (n1 @ n2) @ oc @ dc @ rc @ wfc" by simp
  moreover from n1(2) n2(2)
  have "\<forall>x\<in>set (n1 @ n2). x = GetSupportedCountries \<or> (\<exists>c. x = TestPortalConnection c)"
    by auto
  ultimately show "\<exists>pre wfc. h = hist @ pre @ organization_calls r @ dataset_calls r
                          @ resource_calls r @ wfc
           \<and> (\<forall>x\<in>set pre. x = GetSupportedCountries \<or> (\<exists>c. x = TestPortalConnection c))
           \<and> (\<forall>x\<in>set wfc. country_of x = Some ''us'')"
    unfolding r using wfc(2) by blast
qed

text \<open>
  C8. In a run that reaches its end, the organization, dataset and resource groups test
  the countries whose connection test passed (in fast mode the first two, two and one of
  them), so these are the entries that their success rates count; every call of the
  three groups is addressed to such a country, and the calls of the run are those of the
  countries and connection tests, then those of the three groups, then those of the
  workflow for \<open>us\<close>. Hence a country whose connection test failed has no entry in the
  results of the three groups and no call in them. A run that does not reach its end has
  made no call but those of the countries and connection tests.
\<close>

theorem failed_connections_are_skipped:
  "(run_all_tests orc countries fast_mode hist = (Some r, h) \<longrightarrow>
      distinct (map fst (connections r))
      \<and> map fst (organizations r) =
          (if fast_mode then take 2 (map fst (filter snd (connections r)))
           else map fst (filter snd (connections r)))
      \<and> map fst (datasets r) =
          (if fast_mode then take 2 (map fst (filter snd (connections r)))
           else map fst (filter snd (connections r)))
      \<and> map fst (resources r) =
          (if fast_mode then take 1 (map fst (filter snd (connections r)))
           else map fst (filter snd (connections r)))
      \<and> (\<forall>r1 r2 r3. group_success_rates r = Some (r1, r2, r3) \<longrightarrow>
            success_rate (organizations r) = Some r1
            \<and> success_rate (datasets r) = Some r2
            \<and> success_rate (resources r) = Some r3)
      \<and> (\<forall>x\<in>set (organization_calls r @ dataset_calls r @ resource_calls r).
            \<exists>c. country_of x = Some c \<and> (c, True) \<in> set (connections r))
      \<and> (\<exists>pre wfc. h = hist @ pre @ organization_calls r @ dataset_calls r
                           @ resource_calls r @ wfc
            \<and> (\<forall>x\<in>set pre. x = GetSupportedCountries \<or> (\<exists>c. x = TestPortalConnection c))
            \<and> (\<forall>x\<in>set wfc. country_of x = Some ''us''))
      \<and> ((country, False) \<in> set (connections r) \<longrightarrow>
            country \<notin> set (map fst (organizations r))
            \<and> country \<notin> set (map fst (datasets r))
            \<and> country \<notin> set (map fst (resources r))
            \<and> (\<forall>x\<in>set (organization_calls r @ dataset_calls r @ resource_calls r).
                  country_of x \<noteq> Some country)))
   \<and> (run_all_tests orc countries fast_mode hist = (None, h) \<longrightarrow>
        (\<exists>new. h = hist @ new
           \<and> (\<forall>x\<in>set new. x = GetSupportedCountries \<or> (\<exists>c. x = TestPortalConnection c))))"
proof (intro conjI impI)
  assume run: "run_all_tests orc countries fast_mode hist = (None, h)"
  then show "\<exists>new. h = hist @ new
           \<and> (\<forall>x\<in>set new. x = GetSupportedCountries \<or> (\<exists>c. x = TestPortalConnection c))"
    by (rule run_all_tests_None)
next
  assume run: "run_all_tests orc countries fast_mode hist = (Some r, h)"
  note log = run_all_tests_log [OF run]
  show "distinct (map fst (connections r))" by (rule log(1))
  show "map fst (organizations r) =
          (if fast_mode then take 2 (map fst (filter snd (connections r)))
           else map fst (filter snd (connections r)))" by (rule log(2))
  show "map fst (datasets r) =
          (if fast_mode then take 2 (map fst (filter snd (connections r)))
           else map fst (filter snd (connections r)))" by (rule log(3))
  show "map fst (resources r) =
          (if fast_mode then take 1 (map fst (filter snd (connections r)))
           else map fst (filter snd (connections r)))" by (rule log(4))
  show "\<forall>r1 r2 r3. group_success_rates r = Some (r1, r2, r3) \<longrightarrow>
            success_rate (organizations r) = Some r1
            \<and> success_rate (datasets r) = Some r2
            \<and> success_rate (resources r) = Some r3"
    using run_all_tests_report(5) [OF run] by auto
  show "\<forall>x\<in>set (organization_calls r @ dataset_calls r @ resource_calls r).
            \<exists>c. country_of x = Some c \<and> (c, True) \<in> set (connections r)" by (rule log(5))
  show "\<exists>pre wfc. h = hist @ pre @ organization_calls r @ dataset_calls r
                           @ resource_calls r @ wfc
            \<and> (\<forall>x\<in>set pre. x = GetSupportedCountries \<or> (\<exists>c. x = TestPortalConnection c))
            \<and> (\<forall>x\<in>set wfc. country_of x = Some ''us'')" by (rule log(6))
  assume failed: "(country, False) \<in> set (connections r)"
  note w = working_countries [OF log(1)]
  from w(2) [OF failed] have n: "country \<notin> set (map fst (filter snd (connections r)))" .
  then have m: "country \<notin> set (take k (map fst (filter snd (connections r))))" for k
    by (meson in_set_takeD)
  from n m [of 2] show "country \<notin> set (map fst (organizations r))"
    unfolding log(2) by (simp split: if_splits)
  from n m [of 2] show "country \<notin> set (map fst (datasets r))"
    unfolding log(3) by (simp split: if_splits)
  from n m [of 1] show "country \<notin> set (map fst (resources r))"
    unfolding log(4) by (simp split: if_splits)
  show "\<forall>x\<in>set (organization_calls r @ dataset_calls r @ resource_calls r).
                  country_of x \<noteq> Some country"
  proof
    fix x assume "x \<in> set (organization_calls r @ dataset_calls r @ resource_calls r)"
    with log(5) obtain c where c: "country_of x = Some c" "(c, True) \<in> set (connections r)"
      by blast
    from c(2) w(3) [of c] n have "c \<noteq> country" by blast
    with c(1) show "country_of x \<noteq> Some country" by simp
  qed
qed

theorem failed_connections_are_skipped_witness:
  "map_option connections
     (fst (run_all_tests (portal [''uk'']) (Some [''us'', ''uk'']) False [])) =
     Some [(''us'', True), (''uk'', False)]
   \<and> map_option (\<lambda>r. map fst (organizations r))
       (fst (run_all_tests (portal [''uk'']) (Some [''us'', ''uk'']) False [])) = Some [''us'']
   \<and> map_option (\<lambda>r. map fst (datasets r))
       (fst (run_all_tests (portal [''uk'']) (Some [''us'', ''uk'']) False [])) = Some [''us'']
   \<and> map_option (\<lambda>r. map fst (resources r))
       (fst (run_all_tests (portal [''uk'']) (Some [''us'', ''uk'']) False [])) = Some [''us'']
   \<and> map_option
       (\<lambda>r. filter (\<lambda>x. country_of x = Some ''uk'')
              (organization_calls r @ dataset_calls r @ resource_calls r))
       (fst (run_all_tests (portal [''uk'']) (Some [''us'', ''uk'']) False [])) = Some []
   \<and> map_option organization_calls
       (fst (run_all_tests (portal [''uk'']) (Some [''us'', ''uk'']) False [])) =
     Some [ListOrganizations ''us'' 5, ListOrganizations ''us'' 1,
           GetOrganizationDetails ''us'' (JStr ''sea-level'')]"
proof -
  let ?run = "run_all_tests (portal [''uk'']) (Some [''us'', ''uk'']) False []"
  have c: "map_option connections (fst ?run) = Some [(''us'', True), (''uk'', False)]"
    by code_simp
  have o: "map_option organization_calls (fst ?run) =
     Some [ListOrganizations ''us'' 5, ListOrganizations ''us'' 1,
           GetOrganizationDetails ''us'' (JStr ''sea-level'')]"
    by code_simp
  from c obtain r h where run: "?run = (Some r, h)"
    and k: "connections r = [(''us'', True), (''uk'', False)]"
    by (cases ?run) auto
  note v = failed_connections_are_skipped
         [where orc = "portal [''uk'']" and countries = "Some [''us'', ''uk'']"
            and fast_mode = False and hist = "[]" and r = r and h = h and country = "''uk''",
          THEN conjunct1, THEN mp, OF run]
  from v have "map fst (organizations r) =
          (if False then take 2 (map fst (filter snd (connections r)))
           else map fst (filter snd (connections r)))"
    by (elim conjE)
  then have ko: "map fst (organizations r) = [''us'']" unfolding k by simp
  from v have "map fst (datasets r) =
          (if False then take 2 (map fst (filter snd (connections r)))
           else map fst (filter snd (connections r)))"
    by (elim conjE)
  then have kd: "map fst (datasets r) = [''us'']" unfolding k by simp
  from v have "map fst (resources r) =
          (if False then take 1 (map fst (filter snd (connections r)))
           else map fst (filter snd (connections r)))"
    by (elim conjE)
  then have kr: "map fst (resources r) = [''us'']" unfolding k by simp
  from v have "(''uk'', False) \<in> set (connections r) \<longrightarrow>
            ''uk'' \<notin> set (map fst (organizations r))
            \<and> ''uk'' \<notin> set (map fst (datasets r))
            \<and> ''uk'' \<notin> set (map fst (resources r))
            \<and> (\<forall>x\<in>set (organization_calls r @ dataset_calls r @ resource_calls r).
                  country_of x \<noteq> Some ''uk'')"
    by (elim conjE)
  moreover have "(''uk'', False) \<in> set (connections r)" unfolding k by simp
  ultimately have "\<forall>x\<in>set (organization_calls r @ dataset_calls r @ resource_calls r).
                  country_of x \<noteq> Some ''uk''"
    by blast
  then have f: "filter (\<lambda>x. country_of x = Some ''uk'')
              (organization_calls r @ dataset_calls r @ resource_calls r) = []"
    by (simp only: filter_empty_conv)
  have "map_option (\<lambda>r. map fst (organizations r)) (fst ?run) = Some [''us'']"
    "map_option (\<lambda>r. map fst (datasets r)) (fst ?run) = Some [''us'']"
    "map_option (\<lambda>r. map fst (resources r)) (fst ?run) = Some [''us'']"
    "map_option
       (\<lambda>r. filter (\<lambda>x. country_of x = Some ''uk'')
              (organization_calls r @ dataset_calls r @ resource_calls r))
       (fst ?run) = Some []"
    unfolding run using ko kd kr f by simp_all
  with c o show ?thesis by (intro conjI)
qed

end
